theory Spec2Isabelle
  imports Complex_Main "HOL-Library.Multiset"
begin

section \<open>Python values used by \<^verbatim>\<open>flair/trainers/trainer.py\<close>\<close>

text \<open>
  Exceptions that the modelled code can raise. Python floats are idealised as exact reals
  plus the one special value the source tests for (\<^verbatim>\<open>torch.isnan\<close>); rounding and
  infinities are outside the model. Arithmetic with NaN gives NaN, every comparison with
  NaN is false, and float division by zero raises \<^verbatim>\<open>ZeroDivisionError\<close>.
\<close>

datatype py_error = ZeroDivisionError | ValueError | KeyboardInterrupt | StopIteration | TypeError

datatype pyfloat = Fl real | NaN

fun fadd :: "pyfloat \<Rightarrow> pyfloat \<Rightarrow> pyfloat" where
  "fadd (Fl a) (Fl b) = Fl (a + b)"
| "fadd _ _ = NaN"

fun fmul :: "pyfloat \<Rightarrow> pyfloat \<Rightarrow> pyfloat" where
  "fmul (Fl a) (Fl b) = Fl (a * b)"
| "fmul _ _ = NaN"

fun fdiv :: "pyfloat \<Rightarrow> pyfloat \<Rightarrow> py_error + pyfloat" where
  "fdiv a (Fl b) =
     (if b = 0 then Inl ZeroDivisionError
      else (case a of Fl x \<Rightarrow> Inr (Fl (x / b)) | NaN \<Rightarrow> Inr NaN))"
| "fdiv a NaN = Inr NaN"

fun flt :: "pyfloat \<Rightarrow> pyfloat \<Rightarrow> bool" where
  "flt (Fl a) (Fl b) = (a < b)"
| "flt _ _ = False"

fun feq :: "pyfloat \<Rightarrow> pyfloat \<Rightarrow> bool" where
  "feq (Fl a) (Fl b) = (a = b)"
| "feq _ _ = False"

fun isnan :: "pyfloat \<Rightarrow> bool" where
  "isnan NaN = True"
| "isnan (Fl _) = False"

text \<open>The values stored in the dictionary that \<^verbatim>\<open>train\<close> returns.\<close>

datatype pyval = PInt int | PFloat pyfloat | PList "pyfloat list"

section \<open>Corpus, metrics and the outside world\<close>

text \<open>A sentence is an opaque training example; only its identity matters here.\<close>

type_synonym sentence = nat

text \<open>The flattened values of the model's parameter tensors.\<close>

type_synonym weights = "real list"

datatype evaluation_metric = MICRO_ACCURACY | MICRO_F1_SCORE | MACRO_ACCURACY | MACRO_F1_SCORE

text \<open>Of a \<^verbatim>\<open>Metric\<close> the trainer reads the four aggregates only.\<close>

record metric =
  micro_avg_accuracy :: pyfloat
  micro_avg_f_score :: pyfloat
  macro_avg_accuracy :: pyfloat
  macro_avg_f_score :: pyfloat

text \<open>
  Lines appended to the tab-separated logs. The timestamp column is wall-clock time and is
  left out. In a \<open>LossRow\<close> the fields are epoch, bad epochs, learning rate, train loss,
  train metric, dev loss (\<open>None\<close> is the placeholder \<^verbatim>\<open>'_'\<close>), dev metric, test metric.
\<close>

datatype line =
    LossHeader
  | LossRow int nat real pyfloat "metric option" "pyfloat option" "metric option" "metric option"
  | LrHeader
  | LrRow nat real pyfloat

datatype log_msg =
    LogLine
  | EvaluationMethod evaluation_metric
  | ResettingToBestModel
  | LearningRateTooSmall
  | IterLoss int nat nat pyfloat
  | EpochDone int pyfloat real nat
  | EvalResult string pyfloat pyfloat pyfloat
  | ExitingEarly
  | SavingModel
  | SavingDone
  | NoTestData
  | TestingBestModel
  | TestAverages metric
  | LossDiverged
  | FinderFinished string

text \<open>
  Everything the trainer does to its surroundings is recorded, in order, as an event:
  files opened or written below \<^verbatim>\<open>base_path\<close>, calls into the model, log messages.
\<close>

datatype event =
    AddFileHandler string
  | InitOutputFile string
  | NewWeightExtractor
  | AppendLine string line
  | ExtractWeights int
  | SaveModel string
  | SaveCheckpoint string int pyfloat
  | ForwardLoss "sentence list"
  | Evaluate "sentence list" "string option"
  | FinalTest
  | Log log_msg

text \<open>
  The external collaborators, as functions. \<open>forward_loss\<close> is the model's loss on a
  batch at given weights; \<open>optimizer_step\<close> is the joint effect of \<^verbatim>\<open>zero_grad\<close>,
  \<^verbatim>\<open>backward\<close>, \<^verbatim>\<open>clip_grad_norm_\<close> and \<^verbatim>\<open>optimizer.step\<close> on the weights, at the
  learning rates of the parameter groups; \<open>evaluate\<close> is \<^verbatim>\<open>model.evaluate\<close>;
  \<open>model_load\<close> is what the statement \<^verbatim>\<open>self.model.load(path)\<close>, whose result the
  source drops, does to the live weights given the saved ones; \<open>exp_anneal_lr\<close> is the
  rate that \<^verbatim>\<open>ExpAnnealLR\<close> reports after a number of steps (start, end, iterations,
  steps); \<open>rand\<close> is the stream of the random generator; \<open>interrupt\<close> says whether a
  \<^verbatim>\<open>KeyboardInterrupt\<close> arrives at a point of an epoch.

  The points of an epoch at which an interrupt is taken: as a batch starts (line 149), so
  during its training; when the evaluations and the row of \<^verbatim>\<open>loss.tsv\<close> are done, before
  the dev score is computed (line 204); and when the dev histories are appended, before
  the scheduler steps and the models are saved (line 220). The steps between two of these
  points are taken as a whole; no interrupt is taken while the learning rate is read and
  tested (lines 113 to 135) or after the loop.
\<close>

datatype point = BatchStart nat | BeforeHistories | BeforeSchedulerStep

record ext =
  forward_loss :: "weights \<Rightarrow> sentence list \<Rightarrow> pyfloat"
  optimizer_step :: "real list \<Rightarrow> weights \<Rightarrow> sentence list \<Rightarrow> weights"
  evaluate :: "weights \<Rightarrow> sentence list \<Rightarrow> metric \<times> pyfloat"
  model_load :: "weights \<Rightarrow> weights \<Rightarrow> weights"
  exp_anneal_lr :: "real \<Rightarrow> real \<Rightarrow> int \<Rightarrow> nat \<Rightarrow> real"
  rand :: "nat \<Rightarrow> nat"
  interrupt :: "int \<Rightarrow> point \<Rightarrow> bool"

text \<open>
  The state: the trainer object and what it refers to, the files below \<^verbatim>\<open>base_path\<close>,
  and the local variables of \<^verbatim>\<open>train\<close> that live across epochs.

  \<^item> \<open>corpus_train\<close> is the list object \<^verbatim>\<open>self.corpus.train\<close>. The source binds
    \<^verbatim>\<open>train_data = self.corpus.train\<close> without copying, so \<^verbatim>\<open>train_data\<close> is the same
    object and has no field of its own. The three splits are taken to be distinct objects.
  \<^item> Tensor storage is an explicit store. \<open>model_ref\<close> is the address of the storage
    of the parameters of \<^verbatim>\<open>self.model\<close>; \<open>next_addr\<close> is the next free address.
  \<^item> \<open>saved\<close> holds the model artifacts (\<^verbatim>\<open>best-model.pt\<close>, \<^verbatim>\<open>final-model.pt\<close>) by
    file name, with the weights they contain.
  \<^item> \<open>lrs\<close> are the learning rates of the optimizer's parameter groups;
    \<open>sched_best\<close> and \<open>num_bad_epochs\<close> are the plateau scheduler's state, where
    \<open>None\<close> stands for the initial best that every score improves on.
\<close>

record state =
  corpus_train :: "sentence list"
  corpus_dev :: "sentence list"
  corpus_test :: "sentence list"
  subcorpora :: "(string \<times> sentence list) list option"
  store :: "nat \<Rightarrow> weights"
  model_ref :: nat
  next_addr :: nat
  model_training :: bool
  model_device :: string
  self_epoch :: int
  self_optimizer_state :: "real list option"
  self_scheduler_state :: "(pyfloat option \<times> nat) option"
  saved :: "string \<rightharpoonup> weights"
  trace :: "event list"
  rpos :: nat
  lrs :: "real list"
  sched_best :: "pyfloat option"
  num_bad_epochs :: nat
  previous_learning_rate :: real
  learning_rate :: real
  dev_score_history :: "pyfloat list"
  dev_loss_history :: "pyfloat list"
  train_loss_history :: "pyfloat list"

text \<open>The keyword arguments of \<^verbatim>\<open>train\<close>.\<close>

record config =
  evaluation_metric :: evaluation_metric
  initial_learning_rate :: real
  mini_batch_size :: int
  max_epochs :: int
  anneal_factor :: real
  patience :: int
  anneal_against_train_loss :: bool
  train_with_dev :: bool
  monitor_train :: bool
  checkpoint :: bool
  save_final_model :: bool
  anneal_with_restarts :: bool
  test_mode :: bool
  param_selection_mode :: bool

section \<open>Helpers shared by the two procedures\<close>

definition emit :: "event \<Rightarrow> state \<Rightarrow> state" where
  "emit e s = s\<lparr>trace := trace s @ [e]\<rparr>"

definition params :: "state \<Rightarrow> weights" where
  "params s = store s (model_ref s)"

text \<open>An in-place update of the parameter tensors, as \<^verbatim>\<open>optimizer.step\<close> does it.\<close>

definition set_params :: "weights \<Rightarrow> state \<Rightarrow> state" where
  "set_params v s = s\<lparr>store := (store s)(model_ref s := v)\<rparr>"

text \<open>
  \<^verbatim>\<open>random.shuffle(x)\<close> of the standard library, in place:
  \<^verbatim>\<open>for i in reversed(range(1, len(x))): j = randbelow(i + 1); x[i], x[j] = x[j], x[i]\<close>.
  \<open>shuffle_from r p i xs\<close> runs the loop from index \<open>i\<close> down to 1, drawing from
  position \<open>p\<close> of the stream.
\<close>

fun shuffle_from :: "(nat \<Rightarrow> nat) \<Rightarrow> nat \<Rightarrow> nat \<Rightarrow> 'a list \<Rightarrow> 'a list" where
  "shuffle_from r p 0 xs = xs"
| "shuffle_from r p (Suc k) xs =
     (let j = r p mod (Suc (Suc k))
      in shuffle_from r (Suc p) k (xs[Suc k := xs ! j, j := xs ! Suc k]))"

definition shuffle :: "(nat \<Rightarrow> nat) \<Rightarrow> nat \<Rightarrow> 'a list \<Rightarrow> 'a list" where
  "shuffle r p xs = shuffle_from r p (length xs - 1) xs"

definition shuffle_train :: "ext \<Rightarrow> state \<Rightarrow> state" where
  "shuffle_train x s =
     s\<lparr>corpus_train := shuffle (rand x) (rpos s) (corpus_train s),
       rpos := rpos s + (length (corpus_train s) - 1)\<rparr>"

text \<open>
  \<^verbatim>\<open>[data[x:x + m] for x in range(0, len(data), m)]\<close>: a step of 0 makes \<^verbatim>\<open>range\<close>
  raise \<^verbatim>\<open>ValueError\<close>, a negative step gives the empty range.
\<close>

definition slices :: "nat \<Rightarrow> 'a list \<Rightarrow> 'a list list" where
  "slices m xs = map (\<lambda>k. take m (drop (k * m) xs)) [0 ..< (length xs + m - 1) div m]"

definition make_batches :: "int \<Rightarrow> 'a list \<Rightarrow> py_error + 'a list list" where
  "make_batches m xs =
     (if m = 0 then Inl ValueError
      else if m < 0 then Inr []
      else Inr (slices (nat m) xs))"


section \<open>The plateau scheduler\<close>

text \<open>
  Modelled from the spec: the classes \<^verbatim>\<open>ReduceLROnPlateau\<close> and
  \<^verbatim>\<open>ReduceLRWDOnPlateau\<close> that \<^verbatim>\<open>train\<close> instantiates are not in the source file.
  The spec's Plateau Scheduler: a score that improves on the best so far by any positive
  margin becomes the new best and resets the bad-epoch counter, any other score
  increments the counter; when the counter exceeds the patience, every parameter group's
  learning rate is multiplied by the anneal factor and the counter is reset. The direction
  is \<open>min\<close> when annealing against the training loss and \<open>max\<close> otherwise, as \<^verbatim>\<open>train\<close>
  sets \<^verbatim>\<open>anneal_mode\<close>.
\<close>

fun is_better :: "bool \<Rightarrow> pyfloat \<Rightarrow> pyfloat option \<Rightarrow> bool" where
  "is_better min_mode a None = (\<not> isnan a)"
| "is_better min_mode a (Some b) = (if min_mode then flt a b else flt b a)"

definition scheduler_step :: "config \<Rightarrow> pyfloat \<Rightarrow> state \<Rightarrow> state" where
  "scheduler_step cfg score s =
     (let s1 = (if is_better (anneal_against_train_loss cfg) score (sched_best s)
                then s\<lparr>sched_best := Some score, num_bad_epochs := 0\<rparr>
                else s\<lparr>num_bad_epochs := Suc (num_bad_epochs s)\<rparr>)
      in if patience cfg < int (num_bad_epochs s1)
         then s1\<lparr>lrs := map (\<lambda>r. r * anneal_factor cfg) (lrs s1), num_bad_epochs := 0\<rparr>
         else s1)"

text \<open>\<^verbatim>\<open>current_score == scheduler.best\<close>; the initial best equals no score.\<close>

fun equals_best :: "pyfloat \<Rightarrow> pyfloat option \<Rightarrow> bool" where
  "equals_best a None = False"
| "equals_best a (Some b) = feq a b"

section \<open>\<^verbatim>\<open>ModelTrainer.train\<close>\<close>

text \<open>\<^verbatim>\<open>self.model.save(base_path / name)\<close>: the file then holds the current weights.\<close>

definition save_model :: "string \<Rightarrow> state \<Rightarrow> state" where
  "save_model name s = (emit (SaveModel name) s)\<lparr>saved := (saved s)(name \<mapsto> params s)\<rparr>"

text \<open>\<^verbatim>\<open>_calculate_evaluation_results_for\<close> (lines 310 to 330).\<close>

definition calculate_evaluation_results_for ::
  "config \<Rightarrow> ext \<Rightarrow> string \<Rightarrow> sentence list \<Rightarrow> string option \<Rightarrow> state
   \<Rightarrow> (metric \<times> pyfloat) \<times> state" where
  "calculate_evaluation_results_for cfg x dataset_name dataset out_path s =
     (let (m, loss) = evaluate x (params s) dataset;
          s1 = emit (Evaluate dataset out_path) s;
          (f_score, acc) =
            (if evaluation_metric cfg = MACRO_ACCURACY \<or> evaluation_metric cfg = MACRO_F1_SCORE
             then (macro_avg_f_score m, macro_avg_accuracy m)
             else (micro_avg_f_score m, micro_avg_accuracy m))
      in ((m, loss), emit (Log (EvalResult dataset_name loss f_score acc)) s1))"

text \<open>The aggregate of a metric that the configured evaluation metric selects.\<close>

definition chosen_score :: "config \<Rightarrow> metric \<Rightarrow> pyfloat" where
  "chosen_score cfg m =
     (if evaluation_metric cfg = MACRO_ACCURACY then macro_avg_accuracy m
      else if evaluation_metric cfg = MICRO_ACCURACY then micro_avg_accuracy m
      else if evaluation_metric cfg = MACRO_F1_SCORE then macro_avg_f_score m
      else micro_avg_f_score m)"

text \<open>
  Lines 59 to 110: the log handler, the output files, the optimizer and the scheduler
  (restored from the saved states when the trainer carries them), the training data with
  the dev split appended in place when \<^verbatim>\<open>train_with_dev\<close> is set, the empty histories.
\<close>

definition train_setup :: "config \<Rightarrow> state \<Rightarrow> state" where
  "train_setup cfg s =
     (let s1 = emit (Log (EvaluationMethod (evaluation_metric cfg)))
                 (emit (Log LogLine) (emit (AddFileHandler ''training.log'') s));
          s2 = (if \<not> param_selection_mode cfg
                then emit NewWeightExtractor
                       (emit (AppendLine ''loss.tsv'' LossHeader)
                          (emit (InitOutputFile ''loss.tsv'') s1))
                else s1);
          s3 = s2\<lparr>lrs := (case self_optimizer_state s of
                             None \<Rightarrow> [initial_learning_rate cfg] | Some gs \<Rightarrow> gs)\<rparr>;
          s4 = (case self_scheduler_state s of
                  None \<Rightarrow> s3\<lparr>sched_best := None, num_bad_epochs := 0\<rparr>
                | Some (b, n) \<Rightarrow> s3\<lparr>sched_best := b, num_bad_epochs := n\<rparr>);
          s5 = (if train_with_dev cfg
                then s4\<lparr>corpus_train := corpus_train s4 @ corpus_dev s4\<rparr>
                else s4)
      in s5\<lparr>dev_score_history := [], dev_loss_history := [], train_loss_history := [],
            learning_rate := initial_learning_rate cfg,
            previous_learning_rate := initial_learning_rate cfg\<rparr>)"

text \<open>
  Lines 113 to 128: the learning rate is read from the optimizer (the last parameter
  group wins; with no group the variable keeps its value), and the best model is loaded
  again when the rate changed and restarts are on.
\<close>

definition read_learning_rate :: "state \<Rightarrow> real" where
  "read_learning_rate s = (if lrs s = [] then learning_rate s else last (lrs s))"

definition begin_epoch :: "config \<Rightarrow> ext \<Rightarrow> state \<Rightarrow> state" where
  "begin_epoch cfg x s =
     (let s1 = emit (Log LogLine) s;
          s2 = s1\<lparr>learning_rate := read_learning_rate s1\<rparr>;
          s3 = (case saved s2 ''best-model.pt'' of
                  Some v \<Rightarrow>
                    if learning_rate s2 \<noteq> previous_learning_rate s2 \<and> anneal_with_restarts cfg
                    then set_params (model_load x v (params s2))
                           (emit (Log ResettingToBestModel) s2)
                    else s2
                | None \<Rightarrow> s2)
      in s3\<lparr>previous_learning_rate := learning_rate s3\<rparr>)"

text \<open>
  Lines 149 to 154, shared with the learning-rate finder: the model computes the loss of
  the batch and the optimizer updates the parameters in place.
\<close>

definition batch_step :: "ext \<Rightarrow> sentence list \<Rightarrow> state \<Rightarrow> state" where
  "batch_step x batch s =
     set_params (optimizer_step x (lrs s) (params s) batch) (emit (ForwardLoss batch) s)"

text \<open>Lines 162 to 166: the progress message and the snapshot of the weights.\<close>

definition log_progress :: "config \<Rightarrow> int \<Rightarrow> nat \<Rightarrow> nat \<Rightarrow> pyfloat \<Rightarrow> state \<Rightarrow> state" where
  "log_progress cfg epoch n batch_no avg s =
     (let s1 = emit (Log (IterLoss (epoch + 1) batch_no n avg)) s
      in if \<not> param_selection_mode cfg
         then emit (ExtractWeights (epoch * int n + int batch_no)) s1
         else s1)"

text \<open>
  Lines 148 to 166, the loop over the enumerated batches, with the accumulators
  \<^verbatim>\<open>train_loss\<close> and \<^verbatim>\<open>seen_sentences\<close>. \<open>n\<close> is \<^verbatim>\<open>len(batches)\<close> and
  \<open>modl\<close> is \<^verbatim>\<open>modulo\<close>. The loss of the batch is read at the weights before the step.
\<close>

fun run_batches ::
  "config \<Rightarrow> ext \<Rightarrow> int \<Rightarrow> nat \<Rightarrow> nat \<Rightarrow> (nat \<times> sentence list) list \<Rightarrow> pyfloat \<Rightarrow> nat \<Rightarrow> state
   \<Rightarrow> (py_error + pyfloat \<times> nat) \<times> state" where
  "run_batches cfg x epoch n modl [] train_loss seen s = (Inr (train_loss, seen), s)"
| "run_batches cfg x epoch n modl ((batch_no, batch) # rest) train_loss seen s =
     (if interrupt x epoch (BatchStart batch_no) then (Inl KeyboardInterrupt, s)
      else if batch_no mod modl = 0
      then (case fdiv (fadd train_loss (forward_loss x (params s) batch))
                   (Fl (real (seen + length batch))) of
              Inl e \<Rightarrow> (Inl e, batch_step x batch s)
            | Inr avg \<Rightarrow>
                run_batches cfg x epoch n modl rest
                  (fadd train_loss (forward_loss x (params s) batch)) (seen + length batch)
                  (log_progress cfg epoch n batch_no avg (batch_step x batch s)))
      else run_batches cfg x epoch n modl rest
             (fadd train_loss (forward_loss x (params s) batch)) (seen + length batch)
             (batch_step x batch s))"

text \<open>
  Lines 144 to 168: the accumulators start at zero, the batches are run, and the
  accumulated loss is divided by \<^verbatim>\<open>len(train_data)\<close>.
\<close>

definition epoch_train_loss ::
  "config \<Rightarrow> ext \<Rightarrow> int \<Rightarrow> sentence list list \<Rightarrow> state \<Rightarrow> (py_error + pyfloat) \<times> state" where
  "epoch_train_loss cfg x epoch batches s =
     (case run_batches cfg x epoch (length batches) (max 1 (length batches div 10))
             (enumerate 0 batches) (Fl 0) 0 s of
        (Inl e, s1) \<Rightarrow> (Inl e, s1)
      | (Inr (train_loss, seen), s1) \<Rightarrow>
          (case fdiv train_loss (Fl (real (length (corpus_train s1)))) of
             Inl e \<Rightarrow> (Inl e, s1)
           | Inr mean_loss \<Rightarrow> (Inr mean_loss, s1)))"

text \<open>
  Lines 170 to 201: the evaluations after the batches and the row of \<^verbatim>\<open>loss.tsv\<close>.
  The result is \<^verbatim>\<open>train_loss\<close> (replaced by the evaluation loss under
  \<^verbatim>\<open>monitor_train\<close>) and, when the dev split was evaluated, \<^verbatim>\<open>dev_metric\<close> and
  \<^verbatim>\<open>dev_loss\<close>.
\<close>

definition evaluate_epoch ::
  "config \<Rightarrow> ext \<Rightarrow> int \<Rightarrow> nat \<Rightarrow> pyfloat \<Rightarrow> state
   \<Rightarrow> (pyfloat \<times> (metric \<times> pyfloat) option) \<times> state" where
  "evaluate_epoch cfg x epoch bad_epochs train_loss0 s =
     (let s1 = emit (Log (EpochDone (epoch + 1) train_loss0 (learning_rate s) bad_epochs))
                 (emit (Log LogLine) (s\<lparr>model_training := False\<rparr>));
          (train_metric, train_loss, s2) =
            (if monitor_train cfg
             then (case calculate_evaluation_results_for cfg x ''TRAIN'' (corpus_train s1) None s1
                   of ((m, l), t) \<Rightarrow> (Some m, l, t))
             else (None, train_loss0, s1));
          (dev, s3) =
            (if \<not> train_with_dev cfg
             then (case calculate_evaluation_results_for cfg x ''DEV'' (corpus_dev s2) None s2
                   of (r, t) \<Rightarrow> (Some r, t))
             else (None, s2));
          (test_metric, s4) =
            (if \<not> param_selection_mode cfg \<and> corpus_test s3 \<noteq> []
             then (case calculate_evaluation_results_for cfg x ''TEST'' (corpus_test s3)
                          (Some ''test.tsv'') s3
                   of ((m, l), t) \<Rightarrow> (Some m, t))
             else (None, s3));
          s5 = (if \<not> param_selection_mode cfg
                then emit (AppendLine ''loss.tsv''
                             (LossRow epoch bad_epochs (learning_rate s4) train_loss
                                train_metric (map_option snd dev) (map_option fst dev)
                                test_metric)) s4
                else s4)
      in ((train_loss, dev), s5))"

text \<open>
  Lines 204 to 217: the dev score is appended to the histories. The dev results are
  present exactly when \<^verbatim>\<open>train_with_dev\<close> is off, which is the test the source repeats
  at line 205; without them \<^verbatim>\<open>dev_score\<close> keeps its initial value 0.
\<close>

definition dev_score_of :: "config \<Rightarrow> (metric \<times> pyfloat) option \<Rightarrow> pyfloat" where
  "dev_score_of cfg dev =
     (case dev of Some (dev_metric, dev_loss) \<Rightarrow> chosen_score cfg dev_metric | None \<Rightarrow> Fl 0)"

definition append_dev_history :: "config \<Rightarrow> (metric \<times> pyfloat) option \<Rightarrow> state \<Rightarrow> state" where
  "append_dev_history cfg dev s =
     (case dev of
        Some (dev_metric, dev_loss) \<Rightarrow>
          s\<lparr>dev_score_history := dev_score_history s @ [chosen_score cfg dev_metric],
            dev_loss_history := dev_loss_history s @ [dev_loss]\<rparr>
      | None \<Rightarrow> s)"

text \<open>Line 220: the score the scheduler is fed.\<close>

definition current_score :: "config \<Rightarrow> pyfloat \<Rightarrow> (metric \<times> pyfloat) option \<Rightarrow> pyfloat" where
  "current_score cfg train_loss dev =
     (if anneal_against_train_loss cfg then train_loss else dev_score_of cfg dev)"

text \<open>
  Lines 203 to 234: the histories, the scheduler step, the checkpoint, and the best model,
  saved when the score equals the scheduler's best after the step.
\<close>

definition end_epoch ::
  "config \<Rightarrow> int \<Rightarrow> pyfloat \<Rightarrow> (metric \<times> pyfloat) option \<Rightarrow> state \<Rightarrow> state" where
  "end_epoch cfg epoch train_loss dev s =
     (let s2 = scheduler_step cfg (current_score cfg train_loss dev) (append_dev_history cfg dev s);
          s3 = s2\<lparr>train_loss_history := train_loss_history s2 @ [train_loss]\<rparr>;
          s4 = (if checkpoint cfg \<and> \<not> param_selection_mode cfg
                then emit (SaveCheckpoint ''checkpoint.pt'' (epoch + 1) train_loss) s3
                else s3)
      in if \<not> train_with_dev cfg \<and> \<not> param_selection_mode cfg
            \<and> equals_best (current_score cfg train_loss dev) (sched_best s4)
         then save_model ''best-model.pt'' s4
         else s4)"

text \<open>Lines 137 and 138: the training data is shuffled in place unless in test mode.\<close>

definition shuffle_epoch :: "config \<Rightarrow> ext \<Rightarrow> state \<Rightarrow> state" where
  "shuffle_epoch cfg x s = (if \<not> test_mode cfg then shuffle_train x s else s)"

text \<open>
  The body of the epoch loop, lines 113 to 234. An interrupt that arrives before line 204
  leaves the histories as they were; one that arrives before line 220 leaves the dev
  histories appended, the scheduler not stepped and nothing saved.
\<close>

datatype step = Next | Break

definition train_epoch :: "config \<Rightarrow> ext \<Rightarrow> int \<Rightarrow> state \<Rightarrow> (py_error + step) \<times> state" where
  "train_epoch cfg x epoch s0 =
     (let bad_epochs = num_bad_epochs s0;
          s = begin_epoch cfg x s0
      in if learning_rate s < 1 / 10000
         then (Inr Break,
               emit (Log LogLine) (emit (Log LearningRateTooSmall) (emit (Log LogLine) s)))
         else
           let s1 = shuffle_epoch cfg x s
           in case make_batches (mini_batch_size cfg) (corpus_train s1) of
                Inl e \<Rightarrow> (Inl e, s1)
              | Inr batches \<Rightarrow>
                  (case epoch_train_loss cfg x epoch batches (s1\<lparr>model_training := True\<rparr>) of
                     (Inl e, s2) \<Rightarrow> (Inl e, s2)
                   | (Inr mean_loss, s2) \<Rightarrow>
                       (case evaluate_epoch cfg x epoch bad_epochs mean_loss s2 of
                          ((train_loss, dev), s3) \<Rightarrow>
                            if interrupt x epoch BeforeHistories
                            then (Inl KeyboardInterrupt, s3)
                            else if interrupt x epoch BeforeSchedulerStep
                            then (Inl KeyboardInterrupt, append_dev_history cfg dev s3)
                            else (Inr Next, end_epoch cfg epoch train_loss dev s3))))"

text \<open>
  \<^verbatim>\<open>for epoch in range(0 + self.epoch, max_epochs + self.epoch)\<close>: the loop ends when
  the range is exhausted, at the \<^verbatim>\<open>break\<close>, or with an exception.
\<close>

definition epoch_range :: "int \<Rightarrow> int \<Rightarrow> int list" where
  "epoch_range e m = [0 + e .. m + e - 1]"

datatype loop_exit = Exhausted | TooSmall

fun epoch_loop :: "config \<Rightarrow> ext \<Rightarrow> int list \<Rightarrow> state \<Rightarrow> (py_error + loop_exit) \<times> state" where
  "epoch_loop cfg x [] s = (Inr Exhausted, s)"
| "epoch_loop cfg x (epoch # rest) s =
     (case train_epoch cfg x epoch s of
        (Inr Next, s') \<Rightarrow> epoch_loop cfg x rest s'
      | (Inr Break, s') \<Rightarrow> (Inr TooSmall, s')
      | (Inl e, s') \<Rightarrow> (Inl e, s'))"

text \<open>
  Lines 236 to 246: what follows the loop inside the \<^verbatim>\<open>try\<close> statement, and the
  handler of \<^verbatim>\<open>KeyboardInterrupt\<close>. The result is the exception that leaves the
  statement, if any.
\<close>

fun after_loop :: "config \<Rightarrow> (py_error + loop_exit) \<times> state \<Rightarrow> py_error option \<times> state" where
  "after_loop cfg (Inr ex, s) =
     (None, if save_final_model cfg \<and> \<not> param_selection_mode cfg
            then save_model ''final-model.pt'' s else s)"
| "after_loop cfg (Inl KeyboardInterrupt, s) =
     (let s1 = emit (Log ExitingEarly) (emit (Log LogLine) s)
      in (None, if \<not> param_selection_mode cfg
                then emit (Log SavingDone)
                       (save_model ''final-model.pt'' (emit (Log SavingModel) s1))
                else s1))"
| "after_loop cfg (Inl e, s) = (Some e, s)"

text \<open>Lines 109 to 246, the \<^verbatim>\<open>try\<close> statement.\<close>

definition try_block :: "config \<Rightarrow> ext \<Rightarrow> state \<Rightarrow> py_error option \<times> state" where
  "try_block cfg x s =
     after_loop cfg (epoch_loop cfg x (epoch_range (self_epoch s) (max_epochs cfg)) s)"

text \<open>
  \<^verbatim>\<open>final_test\<close> (lines 260 to 308). Loading the best model binds \<^verbatim>\<open>self.model\<close> to a
  new model object, whose parameters get fresh storage. The per-class log lines are not
  modelled. For a composite corpus every sub-corpus is evaluated in turn.
\<close>

definition evaluate_subcorpus :: "config \<Rightarrow> ext \<Rightarrow> string \<times> sentence list \<Rightarrow> state \<Rightarrow> state" where
  "evaluate_subcorpus cfg x =
     (\<lambda>(name, test) s.
        snd (calculate_evaluation_results_for cfg x name test (Some ''test.tsv'')
               (emit (Log LogLine) s)))"

definition final_test :: "config \<Rightarrow> ext \<Rightarrow> state \<Rightarrow> pyfloat \<times> state" where
  "final_test cfg x s =
     (let s1 = emit (Log TestingBestModel) (emit (Log LogLine) (emit FinalTest s));
          s2 = s1\<lparr>model_training := False\<rparr>;
          s3 = (case saved s2 ''best-model.pt'' of
                  Some v \<Rightarrow> s2\<lparr>store := (store s2)(next_addr s2 := v),
                               model_ref := next_addr s2, next_addr := Suc (next_addr s2)\<rparr>
                | None \<Rightarrow> s2);
          (test_metric, test_loss) = evaluate x (params s3) (corpus_test s3);
          s4 = emit (Evaluate (corpus_test s3) None) s3;
          s5 = emit (Log LogLine) (emit (Log (TestAverages test_metric)) s4);
          s6 = (case subcorpora s5 of
                  Some cs \<Rightarrow> fold (evaluate_subcorpus cfg x) cs s5
                | None \<Rightarrow> s5)
      in (chosen_score cfg test_metric, s6))"

text \<open>Lines 248 to 258: the final test and the returned dictionary.\<close>

fun finish ::
  "config \<Rightarrow> ext \<Rightarrow> py_error option \<times> state \<Rightarrow> (py_error + (string \<rightharpoonup> pyval)) \<times> state" where
  "finish cfg x (Some e, s) = (Inl e, s)"
| "finish cfg x (None, s) =
     (let (final_score, s1) =
            (if corpus_test s \<noteq> []
             then (case final_test cfg x s of (v, t) \<Rightarrow> (PFloat v, t))
             else (PInt 0, emit (Log NoTestData) s))
      in (Inr [''test_score'' \<mapsto> final_score,
               ''dev_score_history'' \<mapsto> PList (dev_score_history s1),
               ''train_loss_history'' \<mapsto> PList (train_loss_history s1),
               ''dev_loss_history'' \<mapsto> PList (dev_loss_history s1)], s1))"

text \<open>\<^verbatim>\<open>train\<close> (lines 38 to 258): the result is the returned dictionary or the exception raised.\<close>

definition train :: "config \<Rightarrow> ext \<Rightarrow> state \<Rightarrow> (py_error + (string \<rightharpoonup> pyval)) \<times> state" where
  "train cfg x s0 = finish cfg x (try_block cfg x (train_setup cfg s0))"

section \<open>\<^verbatim>\<open>ModelTrainer.find_learning_rate\<close>\<close>

record finder_args =
  file_name :: string
  start_learning_rate :: real
  end_learning_rate :: real
  iterations :: int
  finder_mini_batch_size :: int
  stop_early :: bool
  smoothing_factor :: real

text \<open>The slice \<^verbatim>\<open>xs[:k]\<close>; a negative \<open>k\<close> counts from the end.\<close>

definition slice_to :: "int \<Rightarrow> 'a list \<Rightarrow> 'a list" where
  "slice_to k xs = (if 0 \<le> k then take (nat k) xs else take (length xs - nat (- k)) xs)"

text \<open>
  Lines 382 to 390: the smoothed loss and the best loss of one iteration. \<open>loss\<close> is the
  raw loss of the batch; the result is the new \<^verbatim>\<open>moving_avg_loss\<close>, \<^verbatim>\<open>loss_item\<close> and
  \<^verbatim>\<open>best_loss\<close>. At the first iteration \<^verbatim>\<open>best_loss\<close> becomes \<^verbatim>\<open>loss_item\<close>; later it
  is assigned \<^verbatim>\<open>loss\<close>, the raw loss, when the smoothed \<^verbatim>\<open>loss_item\<close> is below it.
  Comparing a float with the initial \<^verbatim>\<open>None\<close> raises \<^verbatim>\<open>TypeError\<close>.
\<close>

definition smooth_loss ::
  "real \<Rightarrow> nat \<Rightarrow> pyfloat \<Rightarrow> pyfloat \<Rightarrow> pyfloat option
   \<Rightarrow> py_error + pyfloat \<times> pyfloat \<times> pyfloat" where
  "smooth_loss sf itr loss moving_avg_loss best_loss =
     (if itr = 0 then Inr (moving_avg_loss, loss, loss)
      else
        case (if 0 < sf
              then (let m = fadd (fmul (Fl sf) moving_avg_loss) (fmul (Fl (1 - sf)) loss)
                    in case fdiv m (Fl (1 - sf ^ (itr + 1))) of
                         Inl e \<Rightarrow> Inl e
                       | Inr v \<Rightarrow> Inr (m, v))
              else Inr (moving_avg_loss, loss)) of
          Inl e \<Rightarrow> Inl e
        | Inr (m, loss_item) \<Rightarrow>
            (case best_loss of
               None \<Rightarrow> Inl TypeError
             | Some b \<Rightarrow> Inr (m, loss_item, if flt loss_item b then loss else b)))"

text \<open>
  Lines 372 to 398, the sweep over the enumerated batches. \<open>True\<close> in the result says
  that the sweep stopped early. \<^verbatim>\<open>scheduler.step()\<close> sets the optimizer's rate to what
  \<^verbatim>\<open>ExpAnnealLR\<close> gives after one more step.
\<close>

fun sweep ::
  "finder_args \<Rightarrow> ext \<Rightarrow> (nat \<times> sentence list) list \<Rightarrow> pyfloat option \<Rightarrow> pyfloat \<Rightarrow> state
   \<Rightarrow> (py_error + bool) \<times> state" where
  "sweep a x [] best_loss moving_avg_loss s = (Inr False, s)"
| "sweep a x ((itr, batch) # rest) best_loss moving_avg_loss s =
     (let loss = forward_loss x (params s) batch;
          lr = exp_anneal_lr x (start_learning_rate a) (end_learning_rate a) (iterations a)
                 (Suc itr);
          s1 = (batch_step x batch s)\<lparr>lrs := [lr]\<rparr>
      in case smooth_loss (smoothing_factor a) itr loss moving_avg_loss best_loss of
           Inl e \<Rightarrow> (Inl e, s1)
         | Inr (m, loss_item, b) \<Rightarrow>
             if stop_early a \<and> (flt (fmul (Fl 4) b) loss_item \<or> isnan loss)
             then (Inr True, emit (Log LossDiverged) (emit (Log LogLine) s1))
             else sweep a x rest (Some b) m
                    (emit (AppendLine (file_name a) (LrRow itr lr loss_item)) s1))"

text \<open>
  \<^verbatim>\<open>find_learning_rate\<close> (lines 338 to 407). \<^verbatim>\<open>self.model.state_dict()\<close> returns the
  parameter tensors themselves, not copies of them: \<^verbatim>\<open>model_state\<close> is a reference to
  the storage that \<^verbatim>\<open>optimizer.step\<close> updates in place, and
  \<^verbatim>\<open>load_state_dict(model_state)\<close> copies into the parameters what that storage holds
  when it is called. \<^verbatim>\<open>next(self.model.parameters())\<close> raises \<^verbatim>\<open>StopIteration\<close> for a
  model without parameters.
\<close>

definition find_learning_rate :: "finder_args \<Rightarrow> ext \<Rightarrow> state \<Rightarrow> (py_error + string) \<times> state" where
  "find_learning_rate a x s0 =
     (let s1 = emit (AppendLine (file_name a) LrHeader) (emit (InitOutputFile (file_name a)) s0);
          s2 = s1\<lparr>lrs := [start_learning_rate a]\<rparr>;
          s3 = shuffle_train x s2
      in case make_batches (finder_mini_batch_size a) (corpus_train s3) of
           Inl e \<Rightarrow> (Inl e, s3)
         | Inr bs \<Rightarrow>
             (let batches = slice_to (iterations a) bs;
                  s4 = s3\<lparr>lrs := [exp_anneal_lr x (start_learning_rate a) (end_learning_rate a)
                                     (iterations a) 0]\<rparr>;
                  model_state = model_ref s4
              in if params s4 = [] then (Inl StopIteration, s4)
                 else
                   let dev0 = model_device s4
                   in case sweep a x (enumerate 0 batches) None (Fl 0)
                             (s4\<lparr>model_training := True\<rparr>) of
                        (Inl e, s5) \<Rightarrow> (Inl e, s5)
                      | (Inr stopped, s5) \<Rightarrow>
                          (let s6 = s5\<lparr>store := (store s5)(model_ref s5 := store s5 model_state)\<rparr>;
                               s7 = s6\<lparr>model_device := dev0\<rparr>
                           in (Inr (file_name a),
                               emit (Log LogLine)
                                 (emit (Log (FinderFinished (file_name a)))
                                    (emit (Log LogLine) s7))))))"

section \<open>Observations on a run\<close>

text \<open>
  What a claim says about a run is read off the trace. \<open>collect f s\<close> gathers, in
  order, what \<open>f\<close> extracts from each event of the trace of \<open>s\<close>.
\<close>

definition collect :: "(event \<Rightarrow> 'a list) \<Rightarrow> state \<Rightarrow> 'a list" where
  "collect f s = concat (map f (trace s))"

text \<open>The epoch number and the loss of each message \<^verbatim>\<open>EPOCH n done: loss ...\<close>.\<close>

fun report_of :: "event \<Rightarrow> (int \<times> pyfloat) list" where
  "report_of (Log (EpochDone e v lr b)) = [(e, v)]"
| "report_of _ = []"

text \<open>The indices of the epochs that reported their loss; the message prints \<open>epoch + 1\<close>.\<close>

definition epochs_done :: "state \<Rightarrow> int list" where
  "epochs_done s = map (\<lambda>(e, v). e - 1) (collect report_of s)"

fun best_save_of :: "event \<Rightarrow> unit list" where
  "best_save_of (SaveModel n) = (if n = ''best-model.pt'' then [()] else [])"
| "best_save_of _ = []"

fun loss_row_of :: "event \<Rightarrow> line list" where
  "loss_row_of (AppendLine n l) = (if n = ''loss.tsv'' then [l] else [])"
| "loss_row_of _ = []"

fun forward_of :: "event \<Rightarrow> sentence list list" where
  "forward_of (ForwardLoss b) = [b]"
| "forward_of _ = []"

fun final_test_of :: "event \<Rightarrow> unit list" where
  "final_test_of FinalTest = [()]"
| "final_test_of _ = []"

text \<open>
  The events that create or write \<^verbatim>\<open>loss.tsv\<close>, the weight snapshots, a model artifact
  or a checkpoint.
\<close>

fun persist_of :: "event \<Rightarrow> event list" where
  "persist_of (InitOutputFile n) = [InitOutputFile n]"
| "persist_of NewWeightExtractor = [NewWeightExtractor]"
| "persist_of (AppendLine n l) = [AppendLine n l]"
| "persist_of (ExtractWeights i) = [ExtractWeights i]"
| "persist_of (SaveModel n) = [SaveModel n]"
| "persist_of (SaveCheckpoint n e l) = [SaveCheckpoint n e l]"
| "persist_of _ = []"

text \<open>
  Modelled from the spec: \<^verbatim>\<open>add_file_handler\<close> and \<^verbatim>\<open>init_output_file\<close> live in
  \<^verbatim>\<open>flair.training_utils\<close>, which is not in the source file. The spec lists
  \<^verbatim>\<open>training.log\<close>, \<^verbatim>\<open>loss.tsv\<close>, \<^verbatim>\<open>learning_rate.tsv\<close>, \<^verbatim>\<open>checkpoint.pt\<close>,
  \<^verbatim>\<open>best-model.pt\<close>, \<^verbatim>\<open>final-model.pt\<close> and \<^verbatim>\<open>test.tsv\<close> as the files this code
  produces; \<open>file_of\<close> gives the file that an event creates or writes, if any.
\<close>

fun file_of :: "event \<Rightarrow> string list" where
  "file_of (AddFileHandler n) = [n]"
| "file_of (InitOutputFile n) = [n]"
| "file_of (AppendLine n l) = [n]"
| "file_of (SaveModel n) = [n]"
| "file_of (SaveCheckpoint n e l) = [n]"
| "file_of (Evaluate d (Some n)) = [n]"
| "file_of _ = []"

text \<open>
  The files that \<^verbatim>\<open>final_test\<close> names as \<^verbatim>\<open>out_path\<close> (lines 288 to 296):
  \<^verbatim>\<open>test.tsv\<close>, once for each sub-corpus of a composite corpus.
\<close>

definition sub_test_files :: "state \<Rightarrow> string list" where
  "sub_test_files s =
     (case subcorpora s of Some cs \<Rightarrow> replicate (length cs) ''test.tsv'' | None \<Rightarrow> [])"

text \<open>
  The epochs of the loop whose body ran to its end: those that neither left the loop nor
  were ended by an exception.
\<close>

fun completed_epochs :: "config \<Rightarrow> ext \<Rightarrow> int list \<Rightarrow> state \<Rightarrow> int list" where
  "completed_epochs cfg x [] s = []"
| "completed_epochs cfg x (epoch # rest) s =
     (case train_epoch cfg x epoch s of
        (Inr Next, s') \<Rightarrow> epoch # completed_epochs cfg x rest s'
      | _ \<Rightarrow> [])"

text \<open>The kinds of event that each part of \<^verbatim>\<open>train\<close> can emit.\<close>

fun batch_event :: "config \<Rightarrow> event \<Rightarrow> bool" where
  "batch_event cfg (ForwardLoss b) = True"
| "batch_event cfg (Log (IterLoss e i n v)) = True"
| "batch_event cfg (ExtractWeights i) = (\<not> param_selection_mode cfg)"
| "batch_event cfg _ = False"

fun epoch_event :: "config \<Rightarrow> event \<Rightarrow> bool" where
  "epoch_event cfg (ForwardLoss b) = True"
| "epoch_event cfg (Log m) = True"
| "epoch_event cfg (Evaluate d out) = (out = None \<or> \<not> param_selection_mode cfg)"
| "epoch_event cfg (ExtractWeights i) = (\<not> param_selection_mode cfg)"
| "epoch_event cfg (AppendLine n l) = (\<not> param_selection_mode cfg)"
| "epoch_event cfg (SaveCheckpoint n e l) = (\<not> param_selection_mode cfg)"
| "epoch_event cfg (SaveModel n) = (\<not> param_selection_mode cfg)"
| "epoch_event cfg _ = False"

fun final_event :: "event \<Rightarrow> bool" where
  "final_event FinalTest = True"
| "final_event (Log (EpochDone e v lr b)) = False"
| "final_event (Log m) = True"
| "final_event (Evaluate d out) = True"
| "final_event _ = False"

definition setup_events :: "config \<Rightarrow> event list" where
  "setup_events cfg =
     [AddFileHandler ''training.log'', Log LogLine, Log (EvaluationMethod (evaluation_metric cfg))] @
     (if \<not> param_selection_mode cfg
      then [InitOutputFile ''loss.tsv'', AppendLine ''loss.tsv'' LossHeader, NewWeightExtractor]
      else [])"

text \<open>The state and the score with which \<^verbatim>\<open>train\<close> returns after the \<^verbatim>\<open>try\<close> statement.\<close>

definition final_state :: "config \<Rightarrow> ext \<Rightarrow> state \<Rightarrow> state" where
  "final_state cfg x s =
     (if corpus_test s \<noteq> [] then snd (final_test cfg x s) else emit (Log NoTestData) s)"

definition final_score :: "config \<Rightarrow> ext \<Rightarrow> state \<Rightarrow> pyval" where
  "final_score cfg x s =
     (if corpus_test s \<noteq> [] then PFloat (fst (final_test cfg x s)) else PInt 0)"

text \<open>The dictionary that \<^verbatim>\<open>train\<close> returns from the state after the \<^verbatim>\<open>try\<close> statement.\<close>

definition result_dict :: "config \<Rightarrow> ext \<Rightarrow> state \<Rightarrow> (string \<rightharpoonup> pyval)" where
  "result_dict cfg x s =
     [''test_score'' \<mapsto> final_score cfg x s,
      ''dev_score_history'' \<mapsto> PList (dev_score_history (final_state cfg x s)),
      ''train_loss_history'' \<mapsto> PList (train_loss_history (final_state cfg x s)),
      ''dev_loss_history'' \<mapsto> PList (dev_loss_history (final_state cfg x s))]"

text \<open>The iteration and the logged loss of each row of the learning-rate log.\<close>

fun lr_row_of :: "event \<Rightarrow> (nat \<times> pyfloat) list" where
  "lr_row_of (AppendLine n (LrRow itr lr v)) = [(itr, v)]"
| "lr_row_of _ = []"

text \<open>
  The losses of the batches of an epoch, in order: each is computed at the weights that
  the steps on the earlier batches left.
\<close>

primrec batch_losses :: "ext \<Rightarrow> real list \<Rightarrow> weights \<Rightarrow> sentence list list \<Rightarrow> pyfloat list" where
  "batch_losses x rates w [] = []"
| "batch_losses x rates w (b # bs) =
     forward_loss x w b # batch_losses x rates (optimizer_step x rates w b) bs"

text \<open>The sum of a list of losses, accumulated from 0 in the order of the list.\<close>

definition fsum :: "pyfloat list \<Rightarrow> pyfloat" where
  "fsum ls = foldl fadd (Fl 0) ls"

text \<open>
  The mean training loss as the spec words it: each batch's loss weighted by the batch's
  size, summed, and divided by the number of training examples.
\<close>

definition spec_weighted_mean_loss ::
  "pyfloat list \<Rightarrow> sentence list list \<Rightarrow> nat \<Rightarrow> py_error + pyfloat" where
  "spec_weighted_mean_loss losses batches n =
     fdiv (fsum (map (\<lambda>(l, b). fmul l (Fl (real (length b)))) (zip losses batches)))
       (Fl (real n))"

section \<open>Example inputs\<close>

definition ex_metric :: metric where
  "ex_metric = \<lparr>micro_avg_accuracy = Fl 0, micro_avg_f_score = Fl 0,
                macro_avg_accuracy = Fl 0, macro_avg_f_score = Fl 0\<rparr>"

text \<open>
  A model whose loss is 1 on every batch and whose every step adds 1 to each weight; the
  random generator always draws 0; no interrupt arrives.
\<close>

definition ex_ext :: ext where
  "ex_ext = \<lparr>forward_loss = (\<lambda>w b. Fl 1),
             optimizer_step = (\<lambda>rates w b. map (\<lambda>v. v + 1) w),
             evaluate = (\<lambda>w d. (ex_metric, Fl 0)),
             model_load = (\<lambda>v w. w),
             exp_anneal_lr = (\<lambda>a b n k. a),
             rand = (\<lambda>n. 0),
             interrupt = (\<lambda>e p. False)\<rparr>"

text \<open>A trainer with four training sentences, one dev sentence and no test split.\<close>

definition ex_state :: state where
  "ex_state = \<lparr>corpus_train = [0, 1, 2, 3], corpus_dev = [4], corpus_test = [],
               subcorpora = None, store = (\<lambda>a. [0]), model_ref = 0, next_addr = 1,
               model_training = False, model_device = ''cpu'', self_epoch = 0,
               self_optimizer_state = None, self_scheduler_state = None, saved = Map.empty,
               trace = [], rpos = 0, lrs = [1 / 10], sched_best = None, num_bad_epochs = 0,
               previous_learning_rate = 1 / 10, learning_rate = 1 / 10,
               dev_score_history = [], dev_loss_history = [], train_loss_history = []\<rparr>"

definition ex_config :: config where
  "ex_config = \<lparr>evaluation_metric = MICRO_F1_SCORE, initial_learning_rate = 1 / 10,
                mini_batch_size = 2, max_epochs = 2, anneal_factor = 1 / 2, patience = 3,
                anneal_against_train_loss = True, train_with_dev = False,
                monitor_train = False, checkpoint = False, save_final_model = True,
                anneal_with_restarts = False, test_mode = False,
                param_selection_mode = False\<rparr>"

text \<open>As \<open>ex_ext\<close>, with a \<^verbatim>\<open>KeyboardInterrupt\<close> at the second batch of the first epoch.\<close>

definition ex_interrupt_ext :: ext where
  "ex_interrupt_ext = ex_ext\<lparr>interrupt := (\<lambda>e p. e = 0 \<and> p = BatchStart 1)\<rparr>"

text \<open>
  As \<open>ex_ext\<close>, with a \<^verbatim>\<open>KeyboardInterrupt\<close> in the first epoch after its dev score is
  appended to the history.
\<close>

definition ex_late_interrupt_ext :: ext where
  "ex_late_interrupt_ext = ex_ext\<lparr>interrupt := (\<lambda>e p. e = 0 \<and> p = BeforeSchedulerStep)\<rparr>"

text \<open>A trainer on a composite corpus of one sub-corpus, with a test split of one sentence.\<close>

definition ex_multi_state :: state where
  "ex_multi_state = ex_state\<lparr>corpus_test := [5], subcorpora := Some [(''sub'', [5])]\<rparr>"

text \<open>
  A sweep of the learning-rate finder over three sentences, one per batch, with smoothing
  factor 1 / 2; the model's loss is 10 on sentence 1, 4 on sentence 2 and 20 on sentence 0,
  which is the order in which the shuffled sentences are visited.
\<close>

definition ex_finder_args :: finder_args where
  "ex_finder_args = \<lparr>file_name = ''learning_rate.tsv'', start_learning_rate = 1 / 10000000,
     end_learning_rate = 10, iterations = 100, finder_mini_batch_size = 1, stop_early = True,
     smoothing_factor = 1 / 2\<rparr>"

definition ex_finder_ext :: ext where
  "ex_finder_ext = ex_ext\<lparr>forward_loss :=
      (\<lambda>w b. if b = [1] then Fl 10 else if b = [2] then Fl 4 else Fl 20)\<rparr>"

definition ex_finder_state :: state where
  "ex_finder_state = ex_state\<lparr>corpus_train := [0, 1, 2]\<rparr>"

section \<open>Lemmas about the parts of \<^verbatim>\<open>train\<close>\<close>

lemma collect_emit: "collect f (emit e s) = collect f s @ f e"
  by (simp add: collect_def emit_def)

lemma collect_trace_eq: "trace s' = trace s \<Longrightarrow> collect f s' = collect f s"
  by (simp add: collect_def)

lemma collect_new: "trace s' = trace s @ evs \<Longrightarrow> collect f s' = collect f s @ concat (map f evs)"
  by (simp add: collect_def)

lemma collect_none: "trace s' = trace s @ evs \<Longrightarrow> \<forall>e \<in> set evs. f e = [] \<Longrightarrow> collect f s' = collect f s"
  by (simp add: collect_def)

lemma batch_step_eq:
  "batch_step x batch s = s\<lparr>store := (store s)(model_ref s := optimizer_step x (lrs s) (params s) batch),
                    trace := trace s @ [ForwardLoss batch]\<rparr>"
  by (simp add: batch_step_def set_params_def emit_def params_def)

lemma log_progress_eq:
  "log_progress cfg ep n i avg s =
     s\<lparr>trace := trace s @ (Log (IterLoss (ep + 1) i n avg) #
            (if \<not> param_selection_mode cfg then [ExtractWeights (ep * int n + int i)] else []))\<rparr>"
  by (simp add: log_progress_def emit_def)

lemma run_batches_shape:
  "\<exists>st evs. snd (run_batches cfg x ep n md bs acc seen s) = s\<lparr>store := st, trace := trace s @ evs\<rparr>
      \<and> (\<forall>e \<in> set evs. batch_event cfg e)"
proof (induction bs arbitrary: acc seen s)
  case Nil
  have "snd (run_batches cfg x ep n md [] acc seen s) = s\<lparr>store := store s, trace := trace s @ []\<rparr>
         \<and> (\<forall>e \<in> set []. batch_event cfg e)" by simp
  then show ?case by blast
next
  case (Cons b bs)
  obtain i batch where b: "b = (i, batch)" by (cases b)
  let ?acc = "fadd acc (forward_loss x (params s) batch)"
  let ?seen = "seen + length batch"
  let ?s2 = "batch_step x batch s"
  show ?case
  proof (cases "interrupt x ep (BatchStart i)")
    case True
    have "snd (run_batches cfg x ep n md (b # bs) acc seen s) = s\<lparr>store := store s, trace := trace s @ []\<rparr>
         \<and> (\<forall>e \<in> set []. batch_event cfg e)" using True by (simp add: b)
    then show ?thesis by blast
  next
    case False
    show ?thesis
    proof (cases "i mod md = 0")
      case nz: False
      from Cons.IH[of ?acc ?seen ?s2]
      obtain st evs where
        h: "snd (run_batches cfg x ep n md bs ?acc ?seen ?s2) = ?s2\<lparr>store := st, trace := trace ?s2 @ evs\<rparr>"
           "\<forall>e \<in> set evs. batch_event cfg e"
        by blast
      have "snd (run_batches cfg x ep n md (b # bs) acc seen s) = ?s2\<lparr>store := st, trace := trace ?s2 @ evs\<rparr>"
        using False nz h(1) unfolding b by simp
      also have "\<dots> = s\<lparr>store := st, trace := trace s @ (ForwardLoss batch # evs)\<rparr>"
        by (simp add: batch_step_eq)
      finally have "snd (run_batches cfg x ep n md (b # bs) acc seen s)
             = s\<lparr>store := st, trace := trace s @ (ForwardLoss batch # evs)\<rparr>" .
      moreover have "\<forall>e \<in> set (ForwardLoss batch # evs). batch_event cfg e" using h(2) by simp
      ultimately show ?thesis by blast
    next
      case z: True
      show ?thesis
      proof (cases "fdiv ?acc (Fl (real ?seen))")
        case (Inl e)
        have "snd (run_batches cfg x ep n md (b # bs) acc seen s) = ?s2"
          using False z Inl unfolding b by (simp del: fdiv.simps)
        also have "\<dots> = s\<lparr>store := store ?s2, trace := trace s @ [ForwardLoss batch]\<rparr>"
          by (simp add: batch_step_eq)
        finally have "snd (run_batches cfg x ep n md (b # bs) acc seen s)
            = s\<lparr>store := store ?s2, trace := trace s @ [ForwardLoss batch]\<rparr>" .
        moreover have "\<forall>e \<in> set [ForwardLoss batch]. batch_event cfg e" by simp
        ultimately show ?thesis by blast
      next
        case (Inr avg)
        let ?s4 = "log_progress cfg ep n i avg ?s2"
        define new where "new = ForwardLoss batch # Log (IterLoss (ep + 1) i n avg) #
                 (if \<not> param_selection_mode cfg then [ExtractWeights (ep * int n + int i)] else [])"
        have s4: "?s4 = s\<lparr>store := store ?s2, trace := trace s @ new\<rparr>"
          by (simp add: log_progress_eq batch_step_eq new_def)
        from Cons.IH[of ?acc ?seen ?s4]
        obtain st evs where
          h: "snd (run_batches cfg x ep n md bs ?acc ?seen ?s4) = ?s4\<lparr>store := st, trace := trace ?s4 @ evs\<rparr>"
             "\<forall>e \<in> set evs. batch_event cfg e"
          by blast
        have "snd (run_batches cfg x ep n md (b # bs) acc seen s) = snd (run_batches cfg x ep n md bs ?acc ?seen ?s4)"
          using False z Inr unfolding b by (simp del: fdiv.simps)
        also have "\<dots> = s\<lparr>store := st, trace := trace s @ (new @ evs)\<rparr>"
          unfolding h(1) by (simp add: s4)
        finally have "snd (run_batches cfg x ep n md (b # bs) acc seen s) = s\<lparr>store := st, trace := trace s @ (new @ evs)\<rparr>" .
        moreover have "\<forall>e \<in> set (new @ evs). batch_event cfg e" using h(2) by (auto simp: new_def)
        ultimately show ?thesis by blast
      qed
    qed
  qed
qed

lemma run_batches_acc:
  "fst (run_batches cfg x ep n md (enumerate k bs) acc seen s) = Inr (tot, sn)
   \<Longrightarrow> tot = foldl fadd acc (batch_losses x (lrs s) (params s) bs)"
proof (induction bs arbitrary: k acc seen s)
  case Nil
  then show ?case by simp
next
  case (Cons b bs)
  have l1: "lrs (batch_step x b s) = lrs s" "params (batch_step x b s) = optimizer_step x (lrs s) (params s) b"
    by (simp_all add: batch_step_eq params_def)
  have l2: "\<And>avg. lrs (log_progress cfg ep n k avg (batch_step x b s)) = lrs s"
    "\<And>avg. params (log_progress cfg ep n k avg (batch_step x b s)) = optimizer_step x (lrs s) (params s) b"
    by (simp_all add: log_progress_eq batch_step_eq params_def)
  from Cons.prems show ?case
    using Cons.IH[of "Suc k" "fadd acc (forward_loss x (params s) b)" "seen + length b" "batch_step x b s"]
          Cons.IH[of "Suc k" "fadd acc (forward_loss x (params s) b)" "seen + length b"
                     "log_progress cfg ep n k avg (batch_step x b s)" for avg]
    by (simp del: fdiv.simps add: l1 l2 split: if_splits sum.splits)
qed

lemma epoch_train_loss_shape:
  "\<exists>st evs. snd (epoch_train_loss cfg x ep bs s) = s\<lparr>store := st, trace := trace s @ evs\<rparr>
      \<and> (\<forall>e \<in> set evs. batch_event cfg e)"
proof -
  let ?r = "run_batches cfg x ep (length bs) (max 1 (length bs div 10)) (enumerate 0 bs) (Fl 0) 0 s"
  have "snd (epoch_train_loss cfg x ep bs s) = snd ?r"
    by (simp add: epoch_train_loss_def del: fdiv.simps split: prod.splits sum.splits)
  then show ?thesis using run_batches_shape[of cfg x ep "length bs" "max 1 (length bs div 10)" "enumerate 0 bs" "Fl 0" 0 s]
    by simp
qed

lemma epoch_train_loss_value:
  assumes "fst (epoch_train_loss cfg x ep bs s) = Inr v"
  shows "fdiv (fsum (batch_losses x (lrs s) (params s) bs)) (Fl (real (length (corpus_train s)))) = Inr v"
proof -
  let ?r = "run_batches cfg x ep (length bs) (max 1 (length bs div 10)) (enumerate 0 bs) (Fl 0) 0 s"
  obtain st evs where sh: "snd ?r = s\<lparr>store := st, trace := trace s @ evs\<rparr>"
    using run_batches_shape by blast
  have ct: "corpus_train (snd ?r) = corpus_train s" unfolding sh by simp
  from assms obtain tot sn where r: "fst ?r = Inr (tot, sn)"
    and d: "fdiv tot (Fl (real (length (corpus_train (snd ?r))))) = Inr v"
    by (auto simp add: epoch_train_loss_def simp del: fdiv.simps split: prod.splits sum.splits)
  from run_batches_acc[OF r] have "tot = fsum (batch_losses x (lrs s) (params s) bs)"
    by (simp add: fsum_def)
  with d ct show ?thesis by (simp del: fdiv.simps)
qed

lemma epoch_train_loss_frame:
  assumes "epoch_train_loss cfg x ep bs s = (r, s')"
  obtains st evs where "s' = s\<lparr>store := st, trace := trace s @ evs\<rparr>" "\<forall>e \<in> set evs. batch_event cfg e"
  using epoch_train_loss_shape[of cfg x ep bs s] assms by auto

lemma read_learning_rate_trace [simp]:
  "read_learning_rate (s\<lparr>trace := t\<rparr>) = read_learning_rate s"
  by (simp add: read_learning_rate_def)

lemma begin_epoch_shape:
  "\<exists>st evs. begin_epoch cfg x s =
      s\<lparr>store := st, trace := trace s @ evs, previous_learning_rate := read_learning_rate s,
        learning_rate := read_learning_rate s\<rparr>
     \<and> (\<forall>e \<in> set evs. e = Log LogLine \<or> e = Log ResettingToBestModel)"
proof (cases "saved s ''best-model.pt'' \<noteq> None \<and> read_learning_rate s \<noteq> previous_learning_rate s \<and> anneal_with_restarts cfg")
  case True
  then obtain v where v: "saved s ''best-model.pt'' = Some v" by auto
  have "begin_epoch cfg x s =
      s\<lparr>store := (store s)(model_ref s := model_load x v (params s)), trace := trace s @ [Log LogLine, Log ResettingToBestModel],
        previous_learning_rate := read_learning_rate s, learning_rate := read_learning_rate s\<rparr>"
    using True v by (simp add: begin_epoch_def Let_def emit_def set_params_def params_def)
  moreover have "\<forall>e \<in> set [Log LogLine, Log ResettingToBestModel]. e = Log LogLine \<or> e = Log ResettingToBestModel" by simp
  ultimately show ?thesis by blast
next
  case False
  have "begin_epoch cfg x s =
      s\<lparr>store := store s, trace := trace s @ [Log LogLine],
        previous_learning_rate := read_learning_rate s, learning_rate := read_learning_rate s\<rparr>"
    using False by (auto simp add: begin_epoch_def Let_def emit_def set_params_def params_def split: option.splits)
  moreover have "\<forall>e \<in> set [Log LogLine]. e = Log LogLine \<or> e = Log ResettingToBestModel" by simp
  ultimately show ?thesis by blast
qed

lemma begin_epoch_frame:
  obtains st evs where "begin_epoch cfg x s =
      s\<lparr>store := st, trace := trace s @ evs, previous_learning_rate := read_learning_rate s,
        learning_rate := read_learning_rate s\<rparr>"
     "\<forall>e \<in> set evs. e = Log LogLine \<or> e = Log ResettingToBestModel"
  using begin_epoch_shape by blast

lemma train_epoch_cases:
  fixes cfg x ep s
  defines "b \<equiv> begin_epoch cfg x s"
  defines "s1 \<equiv> shuffle_epoch cfg x b"
  obtains
    (Break) "learning_rate b < 1 / 10000"
       "train_epoch cfg x ep s = (Inr Break, emit (Log LogLine) (emit (Log LearningRateTooSmall) (emit (Log LogLine) b)))"
  | (BatchErr) e where "\<not> learning_rate b < 1 / 10000" "train_epoch cfg x ep s = (Inl e, s1)"
  | (LossErr) e bs s2 where "\<not> learning_rate b < 1 / 10000"
       "make_batches (mini_batch_size cfg) (corpus_train s1) = Inr bs"
       "epoch_train_loss cfg x ep bs (s1\<lparr>model_training := True\<rparr>) = (Inl e, s2)"
       "train_epoch cfg x ep s = (Inl e, s2)"
  | (Stopped) bs v s2 tloss dev s3 where "\<not> learning_rate b < 1 / 10000"
       "make_batches (mini_batch_size cfg) (corpus_train s1) = Inr bs"
       "epoch_train_loss cfg x ep bs (s1\<lparr>model_training := True\<rparr>) = (Inr v, s2)"
       "evaluate_epoch cfg x ep (num_bad_epochs s) v s2 = ((tloss, dev), s3)"
       "interrupt x ep BeforeHistories"
       "train_epoch cfg x ep s = (Inl KeyboardInterrupt, s3)"
  | (StoppedLate) bs v s2 tloss dev s3 where "\<not> learning_rate b < 1 / 10000"
       "make_batches (mini_batch_size cfg) (corpus_train s1) = Inr bs"
       "epoch_train_loss cfg x ep bs (s1\<lparr>model_training := True\<rparr>) = (Inr v, s2)"
       "evaluate_epoch cfg x ep (num_bad_epochs s) v s2 = ((tloss, dev), s3)"
       "\<not> interrupt x ep BeforeHistories" "interrupt x ep BeforeSchedulerStep"
       "train_epoch cfg x ep s = (Inl KeyboardInterrupt, append_dev_history cfg dev s3)"
  | (Next) bs v s2 tloss dev s3 where "\<not> learning_rate b < 1 / 10000"
       "make_batches (mini_batch_size cfg) (corpus_train s1) = Inr bs"
       "epoch_train_loss cfg x ep bs (s1\<lparr>model_training := True\<rparr>) = (Inr v, s2)"
       "evaluate_epoch cfg x ep (num_bad_epochs s) v s2 = ((tloss, dev), s3)"
       "train_epoch cfg x ep s = (Inr Next, end_epoch cfg ep tloss dev s3)"
proof (cases "learning_rate b < 1 / 10000")
  case True
  then show ?thesis using Break by (simp add: train_epoch_def Let_def b_def)
next
  case False
  show ?thesis
  proof (cases "make_batches (mini_batch_size cfg) (corpus_train s1)")
    case (Inl e)
    then show ?thesis using False BatchErr[of e]
      by (simp add: train_epoch_def Let_def b_def s1_def shuffle_epoch_def)
  next
    case (Inr bs)
    obtain r s2 where r: "epoch_train_loss cfg x ep bs (s1\<lparr>model_training := True\<rparr>) = (r, s2)" by force
    show ?thesis
    proof (cases r)
      case (Inl e)
      then show ?thesis using False Inr r LossErr[of bs e s2]
        by (simp add: train_epoch_def Let_def b_def s1_def shuffle_epoch_def)
    next
      case v: (Inr v)
      obtain tloss dev s3 where ev: "evaluate_epoch cfg x ep (num_bad_epochs s) v s2 = ((tloss, dev), s3)"
        by (metis surj_pair)
      have te: "train_epoch cfg x ep s =
          (if interrupt x ep BeforeHistories then (Inl KeyboardInterrupt, s3)
           else if interrupt x ep BeforeSchedulerStep
           then (Inl KeyboardInterrupt, append_dev_history cfg dev s3)
           else (Inr Next, end_epoch cfg ep tloss dev s3))"
        using False Inr r v ev by (simp add: train_epoch_def Let_def b_def s1_def shuffle_epoch_def)
      have mb: "make_batches (mini_batch_size cfg) (corpus_train s1) = Inr bs"
        using Inr by (simp add: s1_def shuffle_epoch_def)
      have tl: "epoch_train_loss cfg x ep bs (s1\<lparr>model_training := True\<rparr>) = (Inr v, s2)"
        using r v by simp
      show ?thesis
      proof (cases "interrupt x ep BeforeHistories")
        case True
        then show ?thesis using Stopped[OF False mb tl ev True] te by simp
      next
        case nh: False
        show ?thesis
        proof (cases "interrupt x ep BeforeSchedulerStep")
          case True
          then show ?thesis using StoppedLate[OF False mb tl ev nh True] te nh by simp
        next
          case ns: False
          then show ?thesis using Next[OF False mb tl ev] te nh by simp
        qed
      qed
    qed
  qed
qed

lemma calc_eval_eq:
  "calculate_evaluation_results_for cfg x name d out s =
     (evaluate x (params s) d,
      s\<lparr>trace := trace s @ [Evaluate d out,
          Log (EvalResult name (snd (evaluate x (params s) d))
            (if evaluation_metric cfg = MACRO_ACCURACY \<or> evaluation_metric cfg = MACRO_F1_SCORE
             then macro_avg_f_score (fst (evaluate x (params s) d))
             else micro_avg_f_score (fst (evaluate x (params s) d)))
            (if evaluation_metric cfg = MACRO_ACCURACY \<or> evaluation_metric cfg = MACRO_F1_SCORE
             then macro_avg_accuracy (fst (evaluate x (params s) d))
             else micro_avg_accuracy (fst (evaluate x (params s) d))))]\<rparr>)"
  by (simp add: calculate_evaluation_results_for_def emit_def Let_def split: prod.splits)

lemma evaluate_epoch_frame:
  assumes "evaluate_epoch cfg x ep bad v s = ((tloss, dev), s')"
  obtains evs where "s' = s\<lparr>model_training := False, trace := trace s @ evs\<rparr>"
    "\<forall>e \<in> set evs. epoch_event cfg e"
    "concat (map report_of evs) = [(ep + 1, v)]"
    "concat (map best_save_of evs) = []"
    "\<not> monitor_train cfg \<longrightarrow> tloss = v"
    "dev = None \<longleftrightarrow> train_with_dev cfg"
proof -
  define evs where "evs = drop (length (trace s)) (trace s')"
  have 1: "s' = s\<lparr>model_training := False, trace := trace s @ evs\<rparr>"
    using assms unfolding evs_def
    by (auto simp add: evaluate_epoch_def calc_eval_eq emit_def Let_def params_def split: prod.splits if_splits)
  have tr: "trace s' = trace s @ evs" using 1 by simp
  have 2: "\<forall>e \<in> set evs. epoch_event cfg e"
    using assms unfolding evs_def
    by (auto simp add: evaluate_epoch_def calc_eval_eq emit_def Let_def params_def split: prod.splits if_splits)
  have 3: "concat (map report_of evs) = [(ep + 1, v)]"
    using assms unfolding evs_def
    by (auto simp add: evaluate_epoch_def calc_eval_eq emit_def Let_def params_def split: prod.splits if_splits)
  have 4: "concat (map best_save_of evs) = []"
    using assms unfolding evs_def
    by (auto simp add: evaluate_epoch_def calc_eval_eq emit_def Let_def params_def split: prod.splits if_splits)
  have 5: "\<not> monitor_train cfg \<longrightarrow> tloss = v"
    using assms
    by (auto simp add: evaluate_epoch_def calc_eval_eq emit_def Let_def params_def split: prod.splits if_splits)
  have 6: "dev = None \<longleftrightarrow> train_with_dev cfg"
    using assms
    by (auto simp add: evaluate_epoch_def calc_eval_eq emit_def Let_def params_def split: prod.splits if_splits)
  show ?thesis using that[OF 1 2 3 4 5 6] .
qed

lemma append_dev_history_fields:
  "trace (append_dev_history cfg dev s) = trace s"
  "saved (append_dev_history cfg dev s) = saved s"
  "corpus_test (append_dev_history cfg dev s) = corpus_test s"
  "corpus_train (append_dev_history cfg dev s) = corpus_train s"
  "sched_best (append_dev_history cfg dev s) = sched_best s"
  "params (append_dev_history cfg dev s) = params s"
  "train_loss_history (append_dev_history cfg dev s) = train_loss_history s"
  "dev_score_history (append_dev_history cfg dev s)
     = dev_score_history s @ (case dev of Some (m, l) \<Rightarrow> [chosen_score cfg m] | None \<Rightarrow> [])"
  "subcorpora (append_dev_history cfg dev s) = subcorpora s"
  by (simp_all add: append_dev_history_def params_def split: option.splits prod.splits)

lemma scheduler_step_fields:
  "trace (scheduler_step cfg sc s) = trace s"
  "saved (scheduler_step cfg sc s) = saved s"
  "corpus_test (scheduler_step cfg sc s) = corpus_test s"
  "corpus_train (scheduler_step cfg sc s) = corpus_train s"
  "params (scheduler_step cfg sc s) = params s"
  "train_loss_history (scheduler_step cfg sc s) = train_loss_history s"
  "dev_score_history (scheduler_step cfg sc s) = dev_score_history s"
  "sched_best (scheduler_step cfg sc s) =
     (if is_better (anneal_against_train_loss cfg) sc (sched_best s) then Some sc else sched_best s)"
  "subcorpora (scheduler_step cfg sc s) = subcorpora s"
  by (simp_all add: scheduler_step_def Let_def params_def)

lemma params_update:
  "params (s\<lparr>trace := t\<rparr>) = params s"
  "params (s\<lparr>train_loss_history := h\<rparr>) = params s"
  "params (s\<lparr>saved := m\<rparr>) = params s"
  by (simp_all add: params_def)

lemmas end_epoch_unfold = end_epoch_def Let_def append_dev_history_fields scheduler_step_fields save_model_def emit_def

lemma end_epoch_frame:
  "corpus_test (end_epoch cfg ep tloss dev s) = corpus_test s"
  "corpus_train (end_epoch cfg ep tloss dev s) = corpus_train s"
  "param_selection_mode cfg \<Longrightarrow> saved (end_epoch cfg ep tloss dev s) = saved s"
  "train_loss_history (end_epoch cfg ep tloss dev s) = train_loss_history s @ [tloss]"
  "dev_score_history (end_epoch cfg ep tloss dev s)
     = dev_score_history s @ (case dev of Some (m, l) \<Rightarrow> [chosen_score cfg m] | None \<Rightarrow> [])"
  "subcorpora (end_epoch cfg ep tloss dev s) = subcorpora s"
  "params (end_epoch cfg ep tloss dev s) = params s"
  by (simp_all add: end_epoch_unfold params_update)

lemma end_epoch_saved:
  "saved (end_epoch cfg ep tloss dev s) =
     (if \<not> train_with_dev cfg \<and> \<not> param_selection_mode cfg
         \<and> equals_best (current_score cfg tloss dev) (sched_best (end_epoch cfg ep tloss dev s))
      then (saved s)(''best-model.pt'' \<mapsto> params (end_epoch cfg ep tloss dev s))
      else saved s)"
  by (simp add: end_epoch_unfold params_update)

lemma end_epoch_best:
  "sched_best (end_epoch cfg ep tloss dev s) =
     (if is_better (anneal_against_train_loss cfg) (current_score cfg tloss dev) (sched_best s)
      then Some (current_score cfg tloss dev) else sched_best s)"
  by (simp add: end_epoch_unfold)

lemma end_epoch_trace:
  obtains evs where "trace (end_epoch cfg ep tloss dev s) = trace s @ evs"
    "\<forall>e \<in> set evs. epoch_event cfg e"
    "concat (map report_of evs) = []"
    "concat (map best_save_of evs) =
       (if \<not> train_with_dev cfg \<and> \<not> param_selection_mode cfg
           \<and> equals_best (current_score cfg tloss dev) (sched_best (end_epoch cfg ep tloss dev s))
        then [()] else [])"
proof -
  define evs where "evs = drop (length (trace s)) (trace (end_epoch cfg ep tloss dev s))"
  have 1: "trace (end_epoch cfg ep tloss dev s) = trace s @ evs"
    unfolding evs_def by (simp add: end_epoch_unfold)
  have 2: "\<forall>e \<in> set evs. epoch_event cfg e"
    unfolding evs_def by (simp add: end_epoch_unfold)
  have 3: "concat (map report_of evs) = []"
    unfolding evs_def by (simp add: end_epoch_unfold)
  have 4: "concat (map best_save_of evs) =
       (if \<not> train_with_dev cfg \<and> \<not> param_selection_mode cfg
           \<and> equals_best (current_score cfg tloss dev) (sched_best (end_epoch cfg ep tloss dev s))
        then [()] else [])"
    unfolding evs_def by (simp add: end_epoch_unfold)
  show ?thesis using that[OF 1 2 3 4] .
qed

lemma flt_NaN [simp]: "\<not> flt NaN a" "\<not> flt a NaN"
  by (cases a; simp)+

lemma feq_NaN [simp]: "\<not> feq NaN a" "\<not> feq a NaN"
  by (cases a; simp)+

lemma is_better_equals:
  "is_better m a b \<Longrightarrow> equals_best a (Some a)"
  by (cases a; cases b; simp split: if_splits)

lemma equals_not_better:
  assumes "equals_best a b"
  shows "\<not> is_better m a b"
proof (cases b)
  case None
  then show ?thesis using assms by simp
next
  case (Some c)
  then show ?thesis using assms by (cases a; cases c) auto
qed

lemma shuffle_from_mset: "k < length xs \<Longrightarrow> mset (shuffle_from r p k xs) = mset xs"
proof (induction k arbitrary: p xs)
  case 0
  then show ?case by simp
next
  case (Suc k)
  let ?j = "r p mod Suc (Suc k)"
  have "?j < Suc (Suc k)" by simp
  then have j: "?j < length xs" using Suc.prems by linarith
  have "mset (xs[Suc k := xs ! ?j, ?j := xs ! Suc k]) = mset xs"
    using mset_swap[OF j Suc.prems] .
  moreover have "k < length (xs[Suc k := xs ! ?j, ?j := xs ! Suc k])" using Suc.prems by simp
  ultimately show ?case using Suc.IH[of "xs[Suc k := xs ! ?j, ?j := xs ! Suc k]" "Suc p"]
    by (simp add: Let_def)
qed

lemma shuffle_mset: "mset (shuffle r p xs) = mset xs"
proof (cases xs)
  case Nil
  then show ?thesis by (simp add: shuffle_def)
next
  case (Cons a as)
  then show ?thesis using shuffle_from_mset[of "length xs - 1" xs r p] by (simp add: shuffle_def)
qed

lemma shuffle_epoch_fields:
  "trace (shuffle_epoch cfg x s) = trace s"
  "corpus_test (shuffle_epoch cfg x s) = corpus_test s"
  "saved (shuffle_epoch cfg x s) = saved s"
  "train_loss_history (shuffle_epoch cfg x s) = train_loss_history s"
  "dev_score_history (shuffle_epoch cfg x s) = dev_score_history s"
  "sched_best (shuffle_epoch cfg x s) = sched_best s"
  "lrs (shuffle_epoch cfg x s) = lrs s"
  "params (shuffle_epoch cfg x s) = params s"
  "mset (corpus_train (shuffle_epoch cfg x s)) = mset (corpus_train s)"
  "test_mode cfg \<Longrightarrow> corpus_train (shuffle_epoch cfg x s) = corpus_train s"
  "subcorpora (shuffle_epoch cfg x s) = subcorpora s"
  by (simp_all add: shuffle_epoch_def shuffle_train_def shuffle_mset params_def)

lemma batch_event_epoch: "batch_event cfg e \<Longrightarrow> epoch_event cfg e \<and> report_of e = [] \<and> best_save_of e = []"
  by (erule batch_event.elims) auto

lemma train_epoch_summary:
  assumes "train_epoch cfg x ep s = (r, s')"
  shows "(\<exists>evs. trace s' = trace s @ evs \<and> (\<forall>e \<in> set evs. epoch_event cfg e)
            \<and> (map fst (concat (map report_of evs)) = [ep + 1]
                 \<or> r \<noteq> Inr Next \<and> concat (map report_of evs) = []))
     \<and> corpus_test s' = corpus_test s \<and> subcorpora s' = subcorpora s
     \<and> mset (corpus_train s') = mset (corpus_train s)
     \<and> (test_mode cfg \<longrightarrow> corpus_train s' = corpus_train s)
     \<and> (param_selection_mode cfg \<longrightarrow> saved s' = saved s)
     \<and> length (train_loss_history s') = length (train_loss_history s) + (if r = Inr Next then 1 else 0)
     \<and> (\<exists>j. length (dev_score_history s')
                = length (dev_score_history s) + (if train_with_dev cfg then 0 else j)
            \<and> j \<le> 1 \<and> (r = Inr Next \<longrightarrow> j = 1)
            \<and> (r \<noteq> Inr Next \<and> r \<noteq> Inl KeyboardInterrupt \<longrightarrow> j = 0))"
proof -
  let ?b = "begin_epoch cfg x s"
  let ?s1 = "shuffle_epoch cfg x ?b"
  obtain st0 evs0 where b: "?b = s\<lparr>store := st0, trace := trace s @ evs0, previous_learning_rate := read_learning_rate s,
        learning_rate := read_learning_rate s\<rparr>"
     and evs0: "\<forall>e \<in> set evs0. e = Log LogLine \<or> e = Log ResettingToBestModel"
    by (rule begin_epoch_frame[of cfg x s])
  have e0: "\<forall>e \<in> set evs0. epoch_event cfg e" "concat (map report_of evs0) = []"
    using evs0 by auto
  have bf: "trace ?b = trace s @ evs0" "corpus_test ?b = corpus_test s" "corpus_train ?b = corpus_train s"
    "saved ?b = saved s" "train_loss_history ?b = train_loss_history s" "dev_score_history ?b = dev_score_history s"
    "subcorpora ?b = subcorpora s"
    unfolding b by simp_all
  note sf = shuffle_epoch_fields[of cfg x ?b]
  have unchanged: "\<exists>j. length (dev_score_history s')
                = length (dev_score_history s) + (if train_with_dev cfg then 0 else j)
            \<and> j \<le> 1 \<and> (r = Inr Next \<longrightarrow> j = 1)
            \<and> (r \<noteq> Inr Next \<and> r \<noteq> Inl KeyboardInterrupt \<longrightarrow> j = 0)"
    if "dev_score_history s' = dev_score_history s" "r \<noteq> Inr Next"
    using that by (intro exI[of _ 0]) simp
  show ?thesis
  proof (cases rule: train_epoch_cases[of cfg x s ep])
    case Break
    from Break(2) assms have r: "r = Inr Break"
      and s': "s' = emit (Log LogLine) (emit (Log LearningRateTooSmall) (emit (Log LogLine) ?b))"
      by simp_all
    have tr: "trace s' = trace s @ (evs0 @ [Log LogLine, Log LearningRateTooSmall, Log LogLine])"
      unfolding s' by (simp add: emit_def bf)
    have "\<forall>e \<in> set (evs0 @ [Log LogLine, Log LearningRateTooSmall, Log LogLine]). epoch_event cfg e"
      using e0 by auto
    moreover have "concat (map report_of (evs0 @ [Log LogLine, Log LearningRateTooSmall, Log LogLine])) = []"
      using e0 by simp
    ultimately have T: "\<exists>evs. trace s' = trace s @ evs \<and> (\<forall>e \<in> set evs. epoch_event cfg e)
            \<and> (map fst (concat (map report_of evs)) = [ep + 1]
                 \<or> r \<noteq> Inr Next \<and> concat (map report_of evs) = [])"
      using tr r by (intro exI[of _ "evs0 @ [Log LogLine, Log LearningRateTooSmall, Log LogLine]"]) simp
    have F: "corpus_test s' = corpus_test s" "corpus_train s' = corpus_train s" "saved s' = saved s"
      "train_loss_history s' = train_loss_history s" "dev_score_history s' = dev_score_history s"
      "subcorpora s' = subcorpora s"
      unfolding s' by (simp_all add: emit_def bf)
    have D: "\<exists>j. length (dev_score_history s')
                = length (dev_score_history s) + (if train_with_dev cfg then 0 else j)
            \<and> j \<le> 1 \<and> (r = Inr Next \<longrightarrow> j = 1)
            \<and> (r \<noteq> Inr Next \<and> r \<noteq> Inl KeyboardInterrupt \<longrightarrow> j = 0)"
      by (rule unchanged[OF F(5)]) (simp add: r)
    show ?thesis using T F(1-4,6) D r by simp
  next
    case (BatchErr e)
    from BatchErr(2) assms have r: "r = Inl e" and s': "s' = ?s1" by simp_all
    have T: "\<exists>evs. trace s' = trace s @ evs \<and> (\<forall>e \<in> set evs. epoch_event cfg e)
            \<and> (map fst (concat (map report_of evs)) = [ep + 1]
                 \<or> r \<noteq> Inr Next \<and> concat (map report_of evs) = [])"
      using e0 r by (intro exI[of _ evs0]) (simp add: s' sf bf)
    have F: "corpus_test s' = corpus_test s" "mset (corpus_train s') = mset (corpus_train s)"
      "test_mode cfg \<longrightarrow> corpus_train s' = corpus_train s" "saved s' = saved s"
      "train_loss_history s' = train_loss_history s" "dev_score_history s' = dev_score_history s"
      "subcorpora s' = subcorpora s"
      unfolding s' by (simp_all add: sf bf)
    have D: "\<exists>j. length (dev_score_history s')
                = length (dev_score_history s) + (if train_with_dev cfg then 0 else j)
            \<and> j \<le> 1 \<and> (r = Inr Next \<longrightarrow> j = 1)
            \<and> (r \<noteq> Inr Next \<and> r \<noteq> Inl KeyboardInterrupt \<longrightarrow> j = 0)"
      by (rule unchanged[OF F(6)]) (simp add: r)
    show ?thesis using T F(1-5,7) D r by simp
  next
    case (LossErr e bs s2)
    from LossErr(4) assms have r: "r = Inl e" and s': "s' = s2" by simp_all
    obtain st evs where s2: "s2 = (?s1\<lparr>model_training := True\<rparr>)\<lparr>store := st, trace := trace (?s1\<lparr>model_training := True\<rparr>) @ evs\<rparr>"
       and evs: "\<forall>e \<in> set evs. batch_event cfg e"
      by (rule epoch_train_loss_frame[OF LossErr(3)])
    have e1: "\<forall>e \<in> set evs. epoch_event cfg e" "concat (map report_of evs) = []"
      using evs batch_event_epoch by auto
    have T: "\<exists>evs. trace s' = trace s @ evs \<and> (\<forall>e \<in> set evs. epoch_event cfg e)
            \<and> (map fst (concat (map report_of evs)) = [ep + 1]
                 \<or> r \<noteq> Inr Next \<and> concat (map report_of evs) = [])"
      using e0 e1 r by (intro exI[of _ "evs0 @ evs"]) (auto simp add: s' s2 sf bf)
    have F: "corpus_test s' = corpus_test s" "mset (corpus_train s') = mset (corpus_train s)"
      "test_mode cfg \<longrightarrow> corpus_train s' = corpus_train s" "saved s' = saved s"
      "train_loss_history s' = train_loss_history s" "dev_score_history s' = dev_score_history s"
      "subcorpora s' = subcorpora s"
      unfolding s' s2 by (simp_all add: sf bf)
    have D: "\<exists>j. length (dev_score_history s')
                = length (dev_score_history s) + (if train_with_dev cfg then 0 else j)
            \<and> j \<le> 1 \<and> (r = Inr Next \<longrightarrow> j = 1)
            \<and> (r \<noteq> Inr Next \<and> r \<noteq> Inl KeyboardInterrupt \<longrightarrow> j = 0)"
      by (rule unchanged[OF F(6)]) (simp add: r)
    show ?thesis using T F(1-5,7) D r by simp
  next
    case (Stopped bs v s2 tloss dev s3)
    from Stopped(6) assms have r: "r = Inl KeyboardInterrupt" and s': "s' = s3" by simp_all
    obtain st evs where s2: "s2 = (?s1\<lparr>model_training := True\<rparr>)\<lparr>store := st, trace := trace (?s1\<lparr>model_training := True\<rparr>) @ evs\<rparr>"
       and evs: "\<forall>e \<in> set evs. batch_event cfg e"
      by (rule epoch_train_loss_frame[OF Stopped(3)])
    have e1: "\<forall>e \<in> set evs. epoch_event cfg e" "concat (map report_of evs) = []"
      using evs batch_event_epoch by auto
    obtain evs2 where
      s3: "s3 = s2\<lparr>model_training := False, trace := trace s2 @ evs2\<rparr>"
      and e2: "\<forall>e \<in> set evs2. epoch_event cfg e" "concat (map report_of evs2) = [(ep + 1, v)]"
      and e2b: "concat (map best_save_of evs2) = []" and mt: "\<not> monitor_train cfg \<longrightarrow> tloss = v"
      and dv: "dev = None \<longleftrightarrow> train_with_dev cfg"
      by (rule evaluate_epoch_frame[OF Stopped(4)])
    have F: "trace s' = trace s @ evs0 @ evs @ evs2" "corpus_test s' = corpus_test s"
      "mset (corpus_train s') = mset (corpus_train s)" "test_mode cfg \<longrightarrow> corpus_train s' = corpus_train s"
      "saved s' = saved s" "train_loss_history s' = train_loss_history s" "dev_score_history s' = dev_score_history s"
      "subcorpora s' = subcorpora s"
      unfolding s' s3 s2 by (simp_all add: sf bf)
    have T: "\<exists>evs. trace s' = trace s @ evs \<and> (\<forall>e \<in> set evs. epoch_event cfg e)
            \<and> (map fst (concat (map report_of evs)) = [ep + 1]
                 \<or> r \<noteq> Inr Next \<and> concat (map report_of evs) = [])"
      using e0(1) e1(1) e2(1)
      by (intro exI[of _ "evs0 @ evs @ evs2"]) (auto simp add: F(1) e0(2) e1(2) e2(2))
    have D: "\<exists>j. length (dev_score_history s')
                = length (dev_score_history s) + (if train_with_dev cfg then 0 else j)
            \<and> j \<le> 1 \<and> (r = Inr Next \<longrightarrow> j = 1)
            \<and> (r \<noteq> Inr Next \<and> r \<noteq> Inl KeyboardInterrupt \<longrightarrow> j = 0)"
      by (rule unchanged[OF F(7)]) (simp add: r)
    show ?thesis using T F(2-6,8) D r by simp
  next
    case (StoppedLate bs v s2 tloss dev s3)
    from StoppedLate(7) assms have r: "r = Inl KeyboardInterrupt"
      and s': "s' = append_dev_history cfg dev s3" by simp_all
    obtain st evs where s2: "s2 = (?s1\<lparr>model_training := True\<rparr>)\<lparr>store := st, trace := trace (?s1\<lparr>model_training := True\<rparr>) @ evs\<rparr>"
       and evs: "\<forall>e \<in> set evs. batch_event cfg e"
      by (rule epoch_train_loss_frame[OF StoppedLate(3)])
    have e1: "\<forall>e \<in> set evs. epoch_event cfg e" "concat (map report_of evs) = []"
      using evs batch_event_epoch by auto
    obtain evs2 where
      s3: "s3 = s2\<lparr>model_training := False, trace := trace s2 @ evs2\<rparr>"
      and e2: "\<forall>e \<in> set evs2. epoch_event cfg e" "concat (map report_of evs2) = [(ep + 1, v)]"
      and e2b: "concat (map best_save_of evs2) = []" and mt: "\<not> monitor_train cfg \<longrightarrow> tloss = v"
      and dv: "dev = None \<longleftrightarrow> train_with_dev cfg"
      by (rule evaluate_epoch_frame[OF StoppedLate(4)])
    have s3f: "trace s3 = trace s @ evs0 @ evs @ evs2" "corpus_test s3 = corpus_test s"
      "mset (corpus_train s3) = mset (corpus_train s)" "test_mode cfg \<longrightarrow> corpus_train s3 = corpus_train s"
      "saved s3 = saved s" "train_loss_history s3 = train_loss_history s" "dev_score_history s3 = dev_score_history s"
      "subcorpora s3 = subcorpora s"
      unfolding s3 s2 by (simp_all add: sf bf)
    have F: "trace s' = trace s @ evs0 @ evs @ evs2" "corpus_test s' = corpus_test s"
      "mset (corpus_train s') = mset (corpus_train s)" "test_mode cfg \<longrightarrow> corpus_train s' = corpus_train s"
      "saved s' = saved s" "train_loss_history s' = train_loss_history s"
      "subcorpora s' = subcorpora s"
      unfolding s' by (simp_all add: append_dev_history_fields s3f)
    have T: "\<exists>evs. trace s' = trace s @ evs \<and> (\<forall>e \<in> set evs. epoch_event cfg e)
            \<and> (map fst (concat (map report_of evs)) = [ep + 1]
                 \<or> r \<noteq> Inr Next \<and> concat (map report_of evs) = [])"
      using e0(1) e1(1) e2(1)
      by (intro exI[of _ "evs0 @ evs @ evs2"]) (auto simp add: F(1) e0(2) e1(2) e2(2))
    have "length (dev_score_history s')
                = length (dev_score_history s) + (if train_with_dev cfg then 0 else 1)"
      using dv unfolding s' by (cases dev) (auto simp add: append_dev_history_fields s3f)
    then have D: "\<exists>j. length (dev_score_history s')
                = length (dev_score_history s) + (if train_with_dev cfg then 0 else j)
            \<and> j \<le> 1 \<and> (r = Inr Next \<longrightarrow> j = 1)
            \<and> (r \<noteq> Inr Next \<and> r \<noteq> Inl KeyboardInterrupt \<longrightarrow> j = 0)"
      using r by (intro exI[of _ 1]) simp
    show ?thesis using T F(2-7) D r by simp
  next
    case (Next bs v s2 tloss dev s3)
    from Next(5) assms have r: "r = Inr Next" and s': "s' = end_epoch cfg ep tloss dev s3" by simp_all
    obtain st evs where s2: "s2 = (?s1\<lparr>model_training := True\<rparr>)\<lparr>store := st, trace := trace (?s1\<lparr>model_training := True\<rparr>) @ evs\<rparr>"
       and evs: "\<forall>e \<in> set evs. batch_event cfg e"
      by (rule epoch_train_loss_frame[OF Next(3)])
    have e1: "\<forall>e \<in> set evs. epoch_event cfg e" "concat (map report_of evs) = []"
      using evs batch_event_epoch by auto
    obtain evs2 where
      s3: "s3 = s2\<lparr>model_training := False, trace := trace s2 @ evs2\<rparr>"
      and e2: "\<forall>e \<in> set evs2. epoch_event cfg e" "concat (map report_of evs2) = [(ep + 1, v)]"
      and e2b: "concat (map best_save_of evs2) = []" and mt: "\<not> monitor_train cfg \<longrightarrow> tloss = v"
      and dv: "dev = None \<longleftrightarrow> train_with_dev cfg"
      by (rule evaluate_epoch_frame[OF Next(4)])
    obtain evs3 where tr3: "trace (end_epoch cfg ep tloss dev s3) = trace s3 @ evs3"
      and e3: "\<forall>e \<in> set evs3. epoch_event cfg e" "concat (map report_of evs3) = []"
      and e3b: "concat (map best_save_of evs3) =
       (if \<not> train_with_dev cfg \<and> \<not> param_selection_mode cfg
           \<and> equals_best (current_score cfg tloss dev) (sched_best (end_epoch cfg ep tloss dev s3))
        then [()] else [])"
      by (rule end_epoch_trace[of cfg ep tloss dev s3])
    have s3f: "trace s3 = trace s @ evs0 @ evs @ evs2" "corpus_test s3 = corpus_test s"
      "mset (corpus_train s3) = mset (corpus_train s)" "test_mode cfg \<longrightarrow> corpus_train s3 = corpus_train s"
      "saved s3 = saved s" "train_loss_history s3 = train_loss_history s" "dev_score_history s3 = dev_score_history s"
      "subcorpora s3 = subcorpora s"
      unfolding s3 s2 by (simp_all add: sf bf)
    have T: "\<exists>evs. trace s' = trace s @ evs \<and> (\<forall>e \<in> set evs. epoch_event cfg e)
            \<and> (map fst (concat (map report_of evs)) = [ep + 1]
                 \<or> r \<noteq> Inr Next \<and> concat (map report_of evs) = [])"
      using e0(1) e1(1) e2(1) e3(1)
      by (intro exI[of _ "evs0 @ evs @ evs2 @ evs3"]) (auto simp add: s' tr3 s3f e0(2) e1(2) e2(2) e3(2))
    have "length (dev_score_history s')
           = length (dev_score_history s) + (if train_with_dev cfg then 0 else 1)"
      using dv unfolding s' by (cases dev) (auto simp add: end_epoch_frame s3f)
    then have D: "\<exists>j. length (dev_score_history s')
                = length (dev_score_history s) + (if train_with_dev cfg then 0 else j)
            \<and> j \<le> 1 \<and> (r = Inr Next \<longrightarrow> j = 1)
            \<and> (r \<noteq> Inr Next \<and> r \<noteq> Inl KeyboardInterrupt \<longrightarrow> j = 0)"
      using r by (intro exI[of _ 1]) simp
    have F: "corpus_test s' = corpus_test s" "mset (corpus_train s') = mset (corpus_train s)"
      "test_mode cfg \<longrightarrow> corpus_train s' = corpus_train s" "param_selection_mode cfg \<longrightarrow> saved s' = saved s"
      "length (train_loss_history s') = length (train_loss_history s) + 1"
      "subcorpora s' = subcorpora s"
      unfolding s' by (simp_all add: end_epoch_frame s3f)
    show ?thesis using T F D r by simp
  qed
qed

lemma epoch_loop_summary:
  "epoch_loop cfg x es s = (r, s') \<Longrightarrow>
     (\<exists>evs k j. trace s' = trace s @ evs \<and> (\<forall>e \<in> set evs. epoch_event cfg e) \<and> k \<le> length es
            \<and> map fst (concat (map report_of evs)) = map (\<lambda>e. e + 1) (take k es)
            \<and> (r = Inr Exhausted \<longrightarrow> k = length es)
            \<and> length (train_loss_history s')
                 = length (train_loss_history s) + length (completed_epochs cfg x es s)
            \<and> length (dev_score_history s')
                 = length (dev_score_history s)
                   + (if train_with_dev cfg then 0 else length (completed_epochs cfg x es s) + j)
            \<and> j \<le> 1 \<and> (r \<noteq> Inl KeyboardInterrupt \<longrightarrow> j = 0))
     \<and> corpus_test s' = corpus_test s \<and> subcorpora s' = subcorpora s
     \<and> mset (corpus_train s') = mset (corpus_train s)
     \<and> (test_mode cfg \<longrightarrow> corpus_train s' = corpus_train s)
     \<and> (param_selection_mode cfg \<longrightarrow> saved s' = saved s)"
proof (induction es arbitrary: s r s')
  case Nil
  then have "r = Inr Exhausted" "s' = s" by simp_all
  then show ?case by (auto intro!: exI[of _ "[]"] exI[of _ 0])
next
  case (Cons ep es)
  obtain r1 s1 where te: "train_epoch cfg x ep s = (r1, s1)" by force
  from train_epoch_summary[OF te] obtain evs1 j1 where
    t1: "trace s1 = trace s @ evs1" "\<forall>e \<in> set evs1. epoch_event cfg e"
        "map fst (concat (map report_of evs1)) = [ep + 1]
           \<or> r1 \<noteq> Inr Next \<and> concat (map report_of evs1) = []"
    and f1: "corpus_test s1 = corpus_test s" "mset (corpus_train s1) = mset (corpus_train s)"
      "test_mode cfg \<longrightarrow> corpus_train s1 = corpus_train s" "param_selection_mode cfg \<longrightarrow> saved s1 = saved s"
      "length (train_loss_history s1) = length (train_loss_history s) + (if r1 = Inr Next then 1 else 0)"
      "subcorpora s1 = subcorpora s"
    and d1: "length (dev_score_history s1)
                = length (dev_score_history s) + (if train_with_dev cfg then 0 else j1)"
      "j1 \<le> 1" "r1 = Inr Next \<longrightarrow> j1 = 1"
      "r1 \<noteq> Inr Next \<and> r1 \<noteq> Inl KeyboardInterrupt \<longrightarrow> j1 = 0"
    by (elim conjE exE)
  show ?case
  proof (cases "r1 = Inr Next")
    case True
    with Cons.prems te have "epoch_loop cfg x es s1 = (r, s')" by simp
    from Cons.IH[OF this] obtain evs k j where
      t2: "trace s' = trace s1 @ evs" "\<forall>e \<in> set evs. epoch_event cfg e" "k \<le> length es"
        "map fst (concat (map report_of evs)) = map (\<lambda>e. e + 1) (take k es)"
        "r = Inr Exhausted \<longrightarrow> k = length es"
        "length (train_loss_history s')
           = length (train_loss_history s1) + length (completed_epochs cfg x es s1)"
        "length (dev_score_history s')
           = length (dev_score_history s1)
             + (if train_with_dev cfg then 0 else length (completed_epochs cfg x es s1) + j)"
        "j \<le> 1" "r \<noteq> Inl KeyboardInterrupt \<longrightarrow> j = 0"
      and f2: "corpus_test s' = corpus_test s1" "mset (corpus_train s') = mset (corpus_train s1)"
        "test_mode cfg \<longrightarrow> corpus_train s' = corpus_train s1" "param_selection_mode cfg \<longrightarrow> saved s' = saved s1"
        "subcorpora s' = subcorpora s1"
      by (elim conjE exE)
    have c: "completed_epochs cfg x (ep # es) s = ep # completed_epochs cfg x es s1"
      using te True by simp
    have rep1: "map fst (concat (map report_of evs1)) = [ep + 1]" using t1(3) True by simp
    have j1: "j1 = 1" using d1(3) True by simp
    have "trace s' = trace s @ (evs1 @ evs) \<and> (\<forall>e \<in> set (evs1 @ evs). epoch_event cfg e) \<and> Suc k \<le> length (ep # es)
            \<and> map fst (concat (map report_of (evs1 @ evs))) = map (\<lambda>e. e + 1) (take (Suc k) (ep # es))
            \<and> (r = Inr Exhausted \<longrightarrow> Suc k = length (ep # es))
            \<and> length (train_loss_history s')
                 = length (train_loss_history s) + length (completed_epochs cfg x (ep # es) s)
            \<and> length (dev_score_history s')
                 = length (dev_score_history s)
                   + (if train_with_dev cfg then 0 else length (completed_epochs cfg x (ep # es) s) + j)
            \<and> j \<le> 1 \<and> (r \<noteq> Inl KeyboardInterrupt \<longrightarrow> j = 0)"
      using t1(1,2) rep1 t2 f1(5) d1(1) j1 True unfolding c by auto
    then have "\<exists>evs k j. trace s' = trace s @ evs \<and> (\<forall>e \<in> set evs. epoch_event cfg e) \<and> k \<le> length (ep # es)
            \<and> map fst (concat (map report_of evs)) = map (\<lambda>e. e + 1) (take k (ep # es))
            \<and> (r = Inr Exhausted \<longrightarrow> k = length (ep # es))
            \<and> length (train_loss_history s')
                 = length (train_loss_history s) + length (completed_epochs cfg x (ep # es) s)
            \<and> length (dev_score_history s')
                 = length (dev_score_history s)
                   + (if train_with_dev cfg then 0 else length (completed_epochs cfg x (ep # es) s) + j)
            \<and> j \<le> 1 \<and> (r \<noteq> Inl KeyboardInterrupt \<longrightarrow> j = 0)"
      by (intro exI[of _ "evs1 @ evs"] exI[of _ "Suc k"] exI[of _ j])
    then show ?thesis using f1 f2 by simp
  next
    case False
    with Cons.prems te have r: "r \<noteq> Inr Exhausted" and s': "s' = s1"
      and rr: "r = Inl KeyboardInterrupt \<longrightarrow> r1 = Inl KeyboardInterrupt"
      by (auto split: sum.splits step.splits)
    have c: "completed_epochs cfg x (ep # es) s = []"
      using te False by (auto split: sum.splits step.splits)
    obtain k where k: "k \<le> length (ep # es)"
      "map fst (concat (map report_of evs1)) = map (\<lambda>e. e + 1) (take k (ep # es))"
    proof -
      from t1(3) show ?thesis
      proof
        assume a: "map fst (concat (map report_of evs1)) = [ep + 1]"
        show ?thesis using that[of 1] a by simp
      next
        assume a: "r1 \<noteq> Inr Next \<and> concat (map report_of evs1) = []"
        from a have e: "concat (map report_of evs1) = []" by (rule conjunct2)
        have "map fst (concat (map report_of evs1)) = map (\<lambda>e. e + 1) (take 0 (ep # es))"
          unfolding e by simp
        then show ?thesis using that[of 0] by simp
      qed
    qed
    have j: "r \<noteq> Inl KeyboardInterrupt \<longrightarrow> j1 = 0" using d1(4) False rr
      using Cons.prems te by (auto split: sum.splits step.splits)
    have "trace s' = trace s @ evs1 \<and> (\<forall>e \<in> set evs1. epoch_event cfg e) \<and> k \<le> length (ep # es)
            \<and> map fst (concat (map report_of evs1)) = map (\<lambda>e. e + 1) (take k (ep # es))
            \<and> (r = Inr Exhausted \<longrightarrow> k = length (ep # es))
            \<and> length (train_loss_history s')
                 = length (train_loss_history s) + length (completed_epochs cfg x (ep # es) s)
            \<and> length (dev_score_history s')
                 = length (dev_score_history s)
                   + (if train_with_dev cfg then 0 else length (completed_epochs cfg x (ep # es) s) + j1)
            \<and> j1 \<le> 1 \<and> (r \<noteq> Inl KeyboardInterrupt \<longrightarrow> j1 = 0)"
      using t1(1,2) k f1(5) d1(1,2) j False r s' unfolding c by simp
    then have "\<exists>evs k j. trace s' = trace s @ evs \<and> (\<forall>e \<in> set evs. epoch_event cfg e) \<and> k \<le> length (ep # es)
            \<and> map fst (concat (map report_of evs)) = map (\<lambda>e. e + 1) (take k (ep # es))
            \<and> (r = Inr Exhausted \<longrightarrow> k = length (ep # es))
            \<and> length (train_loss_history s')
                 = length (train_loss_history s) + length (completed_epochs cfg x (ep # es) s)
            \<and> length (dev_score_history s')
                 = length (dev_score_history s)
                   + (if train_with_dev cfg then 0 else length (completed_epochs cfg x (ep # es) s) + j)
            \<and> j \<le> 1 \<and> (r \<noteq> Inl KeyboardInterrupt \<longrightarrow> j = 0)"
      by (intro exI[of _ evs1] exI[of _ k] exI[of _ j1])
    then show ?thesis using f1 s' by simp
  qed
qed

lemma train_setup_fields:
  "trace (train_setup cfg s) = trace s @ setup_events cfg"
  "corpus_train (train_setup cfg s) = corpus_train s @ (if train_with_dev cfg then corpus_dev s else [])"
  "corpus_test (train_setup cfg s) = corpus_test s"
  "saved (train_setup cfg s) = saved s"
  "self_epoch (train_setup cfg s) = self_epoch s"
  "dev_score_history (train_setup cfg s) = []"
  "train_loss_history (train_setup cfg s) = []"
  "subcorpora (train_setup cfg s) = subcorpora s"
  by (simp_all add: train_setup_def setup_events_def emit_def Let_def split: option.splits prod.splits)

lemma after_loop_result:
  "fst (after_loop cfg (r, s)) =
     (case r of Inr ex \<Rightarrow> None | Inl e \<Rightarrow> if e = KeyboardInterrupt then None else Some e)"
  by (cases r; cases "projl r") (simp_all add: Let_def)

lemma after_loop_fields:
  "corpus_train (snd (after_loop cfg (r, s))) = corpus_train s"
  "corpus_test (snd (after_loop cfg (r, s))) = corpus_test s"
  "dev_score_history (snd (after_loop cfg (r, s))) = dev_score_history s"
  "train_loss_history (snd (after_loop cfg (r, s))) = train_loss_history s"
  "param_selection_mode cfg \<Longrightarrow> saved (snd (after_loop cfg (r, s))) = saved s"
  "subcorpora (snd (after_loop cfg (r, s))) = subcorpora s"
  by (cases r; cases "projl r"; simp add: save_model_def emit_def Let_def)+

lemma after_loop_trace:
  "\<exists>evs. trace (snd (after_loop cfg (r, s))) = trace s @ evs
     \<and> (\<forall>e \<in> set evs. epoch_event cfg e \<and> report_of e = [] \<and> forward_of e = [] \<and> loss_row_of e = [])"
proof (cases r)
  case (Inr ex)
  let ?evs = "if save_final_model cfg \<and> \<not> param_selection_mode cfg then [SaveModel ''final-model.pt''] else []"
  have "trace (snd (after_loop cfg (r, s))) = trace s @ ?evs"
    using Inr by (simp add: save_model_def emit_def)
  moreover have "\<forall>e \<in> set ?evs. epoch_event cfg e \<and> report_of e = [] \<and> forward_of e = [] \<and> loss_row_of e = []" by simp
  ultimately show ?thesis by (intro exI[of _ ?evs]) simp
next
  case (Inl e)
  show ?thesis
  proof (cases "e = KeyboardInterrupt")
    case True
    let ?evs = "[Log LogLine, Log ExitingEarly] @
       (if \<not> param_selection_mode cfg then [Log SavingModel, SaveModel ''final-model.pt'', Log SavingDone] else [])"
    have "trace (snd (after_loop cfg (r, s))) = trace s @ ?evs"
      using Inl True by (simp add: save_model_def emit_def Let_def)
    moreover have "\<forall>e \<in> set ?evs. epoch_event cfg e \<and> report_of e = [] \<and> forward_of e = [] \<and> loss_row_of e = []" by auto
    ultimately show ?thesis by (intro exI[of _ ?evs]) simp
  next
    case False
    then have "trace (snd (after_loop cfg (r, s))) = trace s @ []"
      using Inl by (cases e) simp_all
    then show ?thesis by (intro exI[of _ "[]"]) simp
  qed
qed

lemma evaluate_subcorpus_fold:
  "\<exists>evs. fold (evaluate_subcorpus cfg x) cs s = s\<lparr>trace := trace s @ evs\<rparr> \<and> (\<forall>e \<in> set evs. final_event e)
     \<and> concat (map file_of evs) = replicate (length cs) ''test.tsv''"
proof (induction cs arbitrary: s)
  case Nil
  have "fold (evaluate_subcorpus cfg x) [] s = s\<lparr>trace := trace s @ []\<rparr>" by simp
  then show ?case by (intro exI[of _ "[]"]) simp
next
  case (Cons c cs)
  obtain evs1 where s1: "evaluate_subcorpus cfg x c s = s\<lparr>trace := trace s @ evs1\<rparr>" and e1: "\<forall>e \<in> set evs1. final_event e"
    and g1: "concat (map file_of evs1) = [''test.tsv'']"
    by (cases c) (simp add: evaluate_subcorpus_def calc_eval_eq emit_def)
  from Cons.IH[of "evaluate_subcorpus cfg x c s"] obtain evs where
    s2: "fold (evaluate_subcorpus cfg x) cs (evaluate_subcorpus cfg x c s) = (evaluate_subcorpus cfg x c s)\<lparr>trace := trace (evaluate_subcorpus cfg x c s) @ evs\<rparr>"
    and e2: "\<forall>e \<in> set evs. final_event e"
    and g2: "concat (map file_of evs) = replicate (length cs) ''test.tsv''" by (elim exE conjE)
  have "fold (evaluate_subcorpus cfg x) (c # cs) s = s\<lparr>trace := trace s @ (evs1 @ evs)\<rparr>"
    using s2 by (simp add: s1)
  moreover have "\<forall>e \<in> set (evs1 @ evs). final_event e" using e1 e2 by auto
  moreover have "concat (map file_of (evs1 @ evs)) = replicate (length (c # cs)) ''test.tsv''"
    by (simp add: g1 g2)
  ultimately show ?case by (intro exI[of _ "evs1 @ evs"]) simp
qed

lemma final_test_summary:
  "(\<exists>evs. trace (snd (final_test cfg x s)) = trace s @ evs \<and> (\<forall>e \<in> set evs. final_event e)
        \<and> concat (map file_of evs) = sub_test_files s)
   \<and> corpus_train (snd (final_test cfg x s)) = corpus_train s
   \<and> corpus_test (snd (final_test cfg x s)) = corpus_test s
   \<and> saved (snd (final_test cfg x s)) = saved s
   \<and> dev_score_history (snd (final_test cfg x s)) = dev_score_history s
   \<and> dev_loss_history (snd (final_test cfg x s)) = dev_loss_history s
   \<and> train_loss_history (snd (final_test cfg x s)) = train_loss_history s"
proof -
  define s3 where "s3 = (case saved s ''best-model.pt'' of
                  Some v \<Rightarrow> s\<lparr>model_training := False, store := (store s)(next_addr s := v),
                               model_ref := next_addr s, next_addr := Suc (next_addr s)\<rparr>
                | None \<Rightarrow> s\<lparr>model_training := False\<rparr>)"
  define tm where "tm = fst (evaluate x (params s3) (corpus_test s))"
  define evs0 where "evs0 = [FinalTest, Log LogLine, Log TestingBestModel, Evaluate (corpus_test s) None,
     Log (TestAverages tm), Log LogLine]"
  define s5 where "s5 = s3\<lparr>trace := trace s @ evs0\<rparr>"
  have f3: "corpus_test s3 = corpus_test s" "subcorpora s3 = subcorpora s" "trace s3 = trace s"
    "corpus_train s3 = corpus_train s" "saved s3 = saved s" "dev_score_history s3 = dev_score_history s"
    "dev_loss_history s3 = dev_loss_history s" "train_loss_history s3 = train_loss_history s"
    by (simp_all add: s3_def split: option.splits)
  have ft: "snd (final_test cfg x s) =
     (case subcorpora s of Some cs \<Rightarrow> fold (evaluate_subcorpus cfg x) cs s5 | None \<Rightarrow> s5)"
    by (cases "saved s ''best-model.pt''")
       (auto simp add: final_test_def Let_def emit_def s5_def s3_def evs0_def tm_def evaluate_subcorpus_def params_def
             split: prod.splits option.splits)
  obtain evs where r: "snd (final_test cfg x s) = s5\<lparr>trace := trace s5 @ evs\<rparr>" and e: "\<forall>e \<in> set evs. final_event e"
    and g: "concat (map file_of evs) = sub_test_files s"
  proof (cases "subcorpora s")
    case None
    have "snd (final_test cfg x s) = s5\<lparr>trace := trace s5 @ []\<rparr>" using None ft by simp
    then show ?thesis using that[of "[]"] None by (simp add: sub_test_files_def)
  next
    case (Some cs)
    from evaluate_subcorpus_fold[of cfg x cs s5] obtain evs where
      "fold (evaluate_subcorpus cfg x) cs s5 = s5\<lparr>trace := trace s5 @ evs\<rparr>" "\<forall>e \<in> set evs. final_event e"
      "concat (map file_of evs) = replicate (length cs) ''test.tsv''"
      by (elim exE conjE)
    then show ?thesis using that[of evs] Some ft by (simp add: sub_test_files_def)
  qed
  have "trace (snd (final_test cfg x s)) = trace s @ (evs0 @ evs)" unfolding r by (simp add: s5_def)
  moreover have "\<forall>e \<in> set (evs0 @ evs). final_event e" using e by (auto simp: evs0_def)
  moreover have "concat (map file_of (evs0 @ evs)) = sub_test_files s" using g by (simp add: evs0_def)
  ultimately have "\<exists>evs. trace (snd (final_test cfg x s)) = trace s @ evs \<and> (\<forall>e \<in> set evs. final_event e)
      \<and> concat (map file_of evs) = sub_test_files s"
    by (intro exI[of _ "evs0 @ evs"]) simp
  then show ?thesis unfolding r by (simp add: s5_def f3)
qed

lemma finish_eq:
  "finish cfg x (r, s) =
     (case r of
        Some e \<Rightarrow> (Inl e, s)
      | None \<Rightarrow>
          (Inr [''test_score'' \<mapsto> final_score cfg x s,
               ''dev_score_history'' \<mapsto> PList (dev_score_history (final_state cfg x s)),
               ''train_loss_history'' \<mapsto> PList (train_loss_history (final_state cfg x s)),
               ''dev_loss_history'' \<mapsto> PList (dev_loss_history (final_state cfg x s))],
           final_state cfg x s))"
  by (cases r) (simp_all add: final_state_def final_score_def Let_def split: prod.splits)

lemma final_state_summary:
  "(\<exists>evs. trace (final_state cfg x s) = trace s @ evs \<and> (\<forall>e \<in> set evs. final_event e)
        \<and> (corpus_test s = [] \<longrightarrow> evs = [Log NoTestData])
        \<and> concat (map file_of evs) = (if corpus_test s \<noteq> [] then sub_test_files s else []))
   \<and> corpus_train (final_state cfg x s) = corpus_train s
   \<and> corpus_test (final_state cfg x s) = corpus_test s
   \<and> saved (final_state cfg x s) = saved s
   \<and> dev_score_history (final_state cfg x s) = dev_score_history s
   \<and> dev_loss_history (final_state cfg x s) = dev_loss_history s
   \<and> train_loss_history (final_state cfg x s) = train_loss_history s"
proof (cases "corpus_test s = []")
  case True
  then have "final_state cfg x s = s\<lparr>trace := trace s @ [Log NoTestData]\<rparr>"
    by (simp add: final_state_def emit_def)
  then show ?thesis using True by simp
next
  case False
  then have "final_state cfg x s = snd (final_test cfg x s)" by (simp add: final_state_def)
  then show ?thesis using final_test_summary[of cfg x s] False by simp
qed

text \<open>The whole of train, split at its phases.\<close>

lemma train_eq:
  "train cfg x s0 =
     finish cfg x (after_loop cfg
       (epoch_loop cfg x (epoch_range (self_epoch s0) (max_epochs cfg)) (train_setup cfg s0)))"
  by (simp add: train_def try_block_def train_setup_fields)

lemma no_reports_best:
  "\<forall>e \<in> set evs. e = Log LogLine \<or> e = Log ResettingToBestModel \<Longrightarrow>
     concat (map report_of evs) = [] \<and> concat (map best_save_of evs) = []"
  by auto

lemma batch_no_reports_best:
  "\<forall>e \<in> set evs. batch_event cfg e \<Longrightarrow>
     concat (map report_of evs) = [] \<and> concat (map best_save_of evs) = []"
  using batch_event_epoch by auto

lemma train_epoch_Next:
  assumes "fst (train_epoch cfg x ep s) = Inr Next"
  obtains bs v tloss dev evs where
    "make_batches (mini_batch_size cfg) (corpus_train (shuffle_epoch cfg x (begin_epoch cfg x s))) = Inr bs"
    "fdiv (fsum (batch_losses x (lrs s) (params (begin_epoch cfg x s)) bs))
        (Fl (real (length (corpus_train (shuffle_epoch cfg x (begin_epoch cfg x s)))))) = Inr v"
    "\<not> monitor_train cfg \<longrightarrow> tloss = v"
    "dev = None \<longleftrightarrow> train_with_dev cfg"
    "trace (snd (train_epoch cfg x ep s)) = trace s @ evs"
    "concat (map report_of evs) = [(ep + 1, v)]"
    "concat (map best_save_of evs) =
       (if \<not> train_with_dev cfg \<and> \<not> param_selection_mode cfg
           \<and> equals_best (current_score cfg tloss dev) (sched_best (snd (train_epoch cfg x ep s)))
        then [()] else [])"
    "train_loss_history (snd (train_epoch cfg x ep s)) = train_loss_history s @ [tloss]"
    "dev_score_history (snd (train_epoch cfg x ep s))
       = dev_score_history s @ (case dev of Some (m, l) \<Rightarrow> [chosen_score cfg m] | None \<Rightarrow> [])"
    "sched_best (snd (train_epoch cfg x ep s)) =
       (if is_better (anneal_against_train_loss cfg) (current_score cfg tloss dev) (sched_best s)
        then Some (current_score cfg tloss dev) else sched_best s)"
    "saved (snd (train_epoch cfg x ep s)) =
       (if \<not> train_with_dev cfg \<and> \<not> param_selection_mode cfg
           \<and> equals_best (current_score cfg tloss dev) (sched_best (snd (train_epoch cfg x ep s)))
        then (saved s)(''best-model.pt'' \<mapsto> params (snd (train_epoch cfg x ep s)))
        else saved s)"
proof -
  let ?b = "begin_epoch cfg x s"
  let ?s1 = "shuffle_epoch cfg x ?b"
  obtain st0 evs0 where b: "?b = s\<lparr>store := st0, trace := trace s @ evs0, previous_learning_rate := read_learning_rate s,
        learning_rate := read_learning_rate s\<rparr>"
     and evs0: "\<forall>e \<in> set evs0. e = Log LogLine \<or> e = Log ResettingToBestModel"
    by (rule begin_epoch_frame[of cfg x s])
  note e0 = no_reports_best[OF evs0]
  have bf: "trace ?b = trace s @ evs0" "train_loss_history ?b = train_loss_history s"
    "dev_score_history ?b = dev_score_history s" "sched_best ?b = sched_best s" "lrs ?b = lrs s"
    "saved ?b = saved s"
    unfolding b by simp_all
  note sf = shuffle_epoch_fields[of cfg x ?b]
  show ?thesis
  proof (cases rule: train_epoch_cases[of cfg x s ep])
    case Break
    then show ?thesis using assms by simp
  next
    case (BatchErr e)
    then show ?thesis using assms by simp
  next
    case (LossErr e bs s2)
    then show ?thesis using assms by simp
  next
    case (Stopped bs v s2 tloss dev s3)
    then show ?thesis using assms by simp
  next
    case (StoppedLate bs v s2 tloss dev s3)
    then show ?thesis using assms by simp
  next
    case (Next bs v s2 tloss dev s3)
    have s': "snd (train_epoch cfg x ep s) = end_epoch cfg ep tloss dev s3" using Next(5) by simp
    obtain st evs where s2: "s2 = (?s1\<lparr>model_training := True\<rparr>)\<lparr>store := st, trace := trace (?s1\<lparr>model_training := True\<rparr>) @ evs\<rparr>"
       and evs: "\<forall>e \<in> set evs. batch_event cfg e"
      by (rule epoch_train_loss_frame[OF Next(3)])
    note e1 = batch_no_reports_best[OF evs]
    obtain evs2 where
      s3: "s3 = s2\<lparr>model_training := False, trace := trace s2 @ evs2\<rparr>"
      and e2: "\<forall>e \<in> set evs2. epoch_event cfg e" "concat (map report_of evs2) = [(ep + 1, v)]"
      and e2b: "concat (map best_save_of evs2) = []" and mt: "\<not> monitor_train cfg \<longrightarrow> tloss = v"
      and dv: "dev = None \<longleftrightarrow> train_with_dev cfg"
      by (rule evaluate_epoch_frame[OF Next(4)])
    obtain evs3 where tr3: "trace (end_epoch cfg ep tloss dev s3) = trace s3 @ evs3"
      and e3: "\<forall>e \<in> set evs3. epoch_event cfg e" "concat (map report_of evs3) = []"
      and e3b: "concat (map best_save_of evs3) =
       (if \<not> train_with_dev cfg \<and> \<not> param_selection_mode cfg
           \<and> equals_best (current_score cfg tloss dev) (sched_best (end_epoch cfg ep tloss dev s3))
        then [()] else [])"
      by (rule end_epoch_trace[of cfg ep tloss dev s3])
    have s3f: "trace s3 = trace s @ evs0 @ evs @ evs2" "train_loss_history s3 = train_loss_history s"
      "dev_score_history s3 = dev_score_history s" "sched_best s3 = sched_best s" "saved s3 = saved s"
      unfolding s3 s2 by (simp_all add: sf bf)
    have v: "fst (epoch_train_loss cfg x ep bs (?s1\<lparr>model_training := True\<rparr>)) = Inr v"
      using Next(3) by simp
    have 2: "fdiv (fsum (batch_losses x (lrs s) (params ?b) bs)) (Fl (real (length (corpus_train ?s1)))) = Inr v"
      using epoch_train_loss_value[OF v] by (simp add: params_def sf[unfolded params_def] bf del: fdiv.simps)
    have 5: "trace (snd (train_epoch cfg x ep s)) = trace s @ (evs0 @ evs @ evs2 @ evs3)"
      unfolding s' tr3 s3f by simp
    have 6: "concat (map report_of (evs0 @ evs @ evs2 @ evs3)) = [(ep + 1, v)]"
      by (simp add: e0 e1 e2 e3)
    have 7: "concat (map best_save_of (evs0 @ evs @ evs2 @ evs3)) =
       (if \<not> train_with_dev cfg \<and> \<not> param_selection_mode cfg
           \<and> equals_best (current_score cfg tloss dev) (sched_best (snd (train_epoch cfg x ep s)))
        then [()] else [])"
      unfolding s' by (simp add: e0 e1 e2b e3b)
    have 8: "train_loss_history (snd (train_epoch cfg x ep s)) = train_loss_history s @ [tloss]"
      unfolding s' by (simp add: end_epoch_frame s3f)
    have 9: "dev_score_history (snd (train_epoch cfg x ep s))
       = dev_score_history s @ (case dev of Some (m, l) \<Rightarrow> [chosen_score cfg m] | None \<Rightarrow> [])"
      unfolding s' by (simp add: end_epoch_frame s3f)
    have 10: "sched_best (snd (train_epoch cfg x ep s)) =
       (if is_better (anneal_against_train_loss cfg) (current_score cfg tloss dev) (sched_best s)
        then Some (current_score cfg tloss dev) else sched_best s)"
      unfolding s' by (simp add: end_epoch_best s3f)
    have 11: "saved (snd (train_epoch cfg x ep s)) =
       (if \<not> train_with_dev cfg \<and> \<not> param_selection_mode cfg
           \<and> equals_best (current_score cfg tloss dev) (sched_best (snd (train_epoch cfg x ep s)))
        then (saved s)(''best-model.pt'' \<mapsto> params (snd (train_epoch cfg x ep s)))
        else saved s)"
      unfolding s' by (simp add: end_epoch_saved s3f)
    show ?thesis using that[OF Next(2) 2 mt dv 5 6 7 8 9 10 11] .
  qed
qed

lemma train_epoch_not_Next:
  assumes "fst (train_epoch cfg x ep s) \<noteq> Inr Next"
  shows "collect best_save_of (snd (train_epoch cfg x ep s)) = collect best_save_of s
     \<and> saved (snd (train_epoch cfg x ep s)) = saved s"
proof -
  let ?b = "begin_epoch cfg x s"
  let ?s1 = "shuffle_epoch cfg x ?b"
  obtain st0 evs0 where b: "?b = s\<lparr>store := st0, trace := trace s @ evs0, previous_learning_rate := read_learning_rate s,
        learning_rate := read_learning_rate s\<rparr>"
     and evs0: "\<forall>e \<in> set evs0. e = Log LogLine \<or> e = Log ResettingToBestModel"
    by (rule begin_epoch_frame[of cfg x s])
  note e0 = no_reports_best[OF evs0]
  have bf: "trace ?b = trace s @ evs0" "saved ?b = saved s" unfolding b by simp_all
  note sf = shuffle_epoch_fields[of cfg x ?b]
  show ?thesis
  proof (cases rule: train_epoch_cases[of cfg x s ep])
    case Break
    then show ?thesis by (simp add: collect_def emit_def bf e0)
  next
    case (BatchErr e)
    then show ?thesis by (simp add: collect_def sf bf e0)
  next
    case (LossErr e bs s2)
    obtain st evs where s2: "s2 = (?s1\<lparr>model_training := True\<rparr>)\<lparr>store := st, trace := trace (?s1\<lparr>model_training := True\<rparr>) @ evs\<rparr>"
       and evs: "\<forall>e \<in> set evs. batch_event cfg e"
      by (rule epoch_train_loss_frame[OF LossErr(3)])
    note e1 = batch_no_reports_best[OF evs]
    show ?thesis using LossErr(4) by (simp add: collect_def s2 sf bf e0 e1)
  next
    case (Stopped bs v s2 tloss dev s3)
    obtain st evs where s2: "s2 = (?s1\<lparr>model_training := True\<rparr>)\<lparr>store := st, trace := trace (?s1\<lparr>model_training := True\<rparr>) @ evs\<rparr>"
       and evs: "\<forall>e \<in> set evs. batch_event cfg e"
      by (rule epoch_train_loss_frame[OF Stopped(3)])
    note e1 = batch_no_reports_best[OF evs]
    obtain evs2 where
      s3: "s3 = s2\<lparr>model_training := False, trace := trace s2 @ evs2\<rparr>"
      and e2: "\<forall>e \<in> set evs2. epoch_event cfg e" "concat (map report_of evs2) = [(ep + 1, v)]"
      and e2b: "concat (map best_save_of evs2) = []" and mt: "\<not> monitor_train cfg \<longrightarrow> tloss = v"
      and dv: "dev = None \<longleftrightarrow> train_with_dev cfg"
      by (rule evaluate_epoch_frame[OF Stopped(4)])
    show ?thesis using Stopped(6) by (simp add: collect_def s3 s2 sf bf e0 e1 e2b)
  next
    case (StoppedLate bs v s2 tloss dev s3)
    obtain st evs where s2: "s2 = (?s1\<lparr>model_training := True\<rparr>)\<lparr>store := st, trace := trace (?s1\<lparr>model_training := True\<rparr>) @ evs\<rparr>"
       and evs: "\<forall>e \<in> set evs. batch_event cfg e"
      by (rule epoch_train_loss_frame[OF StoppedLate(3)])
    note e1 = batch_no_reports_best[OF evs]
    obtain evs2 where
      s3: "s3 = s2\<lparr>model_training := False, trace := trace s2 @ evs2\<rparr>"
      and e2: "\<forall>e \<in> set evs2. epoch_event cfg e" "concat (map report_of evs2) = [(ep + 1, v)]"
      and e2b: "concat (map best_save_of evs2) = []" and mt: "\<not> monitor_train cfg \<longrightarrow> tloss = v"
      and dv: "dev = None \<longleftrightarrow> train_with_dev cfg"
      by (rule evaluate_epoch_frame[OF StoppedLate(4)])
    have "trace s3 = trace s @ evs0 @ evs @ evs2" "saved s3 = saved s"
      unfolding s3 s2 by (simp_all add: sf bf)
    then show ?thesis using StoppedLate(7)
      by (simp add: collect_def append_dev_history_fields e0 e1 e2b)
  next
    case (Next bs v s2 tloss dev s3)
    then show ?thesis using assms by simp
  qed
qed

section \<open>Evaluating concrete runs\<close>

lemmas run_defs = train_def try_block_def train_setup_def epoch_range_def train_epoch_def begin_epoch_def
  sub_test_files_def
  read_learning_rate_def shuffle_epoch_def shuffle_train_def shuffle_def make_batches_def slices_def
  epoch_train_loss_def batch_step_def log_progress_def evaluate_epoch_def
  calculate_evaluation_results_for_def end_epoch_def append_dev_history_def dev_score_of_def current_score_def
  chosen_score_def scheduler_step_def save_model_def emit_def params_def set_params_def
  final_test_def evaluate_subcorpus_def collect_def epochs_done_def enumerate_eq_zip Let_def

lemmas ex_defs = ex_config_def ex_ext_def ex_state_def ex_metric_def

lemma ex_epoch_Next: "fst (train_epoch ex_config ex_ext 0 ex_state) = Inr Next"
  by (simp add: run_defs ex_defs)

lemma train_parts:
  fixes cfg x s
  defines "es \<equiv> epoch_range (self_epoch s) (max_epochs cfg)"
  defines "L \<equiv> epoch_loop cfg x es (train_setup cfg s)"
  defines "A \<equiv> after_loop cfg L"
  obtains evsL k j evsA evsF where
    "trace (snd L) = trace s @ setup_events cfg @ evsL"
    "trace (snd A) = trace s @ setup_events cfg @ evsL @ evsA"
    "trace (snd (train cfg x s)) = trace s @ setup_events cfg @ evsL @ evsA @ evsF"
    "\<forall>e \<in> set evsL. epoch_event cfg e"
    "k \<le> length es"
    "map fst (concat (map report_of evsL)) = map (\<lambda>e. e + 1) (take k es)"
    "fst L = Inr Exhausted \<longrightarrow> k = length es"
    "\<forall>e \<in> set evsA. epoch_event cfg e \<and> report_of e = [] \<and> forward_of e = [] \<and> loss_row_of e = []"
    "\<forall>e \<in> set evsF. final_event e"
    "fst A \<noteq> None \<longrightarrow> evsF = []"
    "fst A = None \<and> corpus_test s = [] \<longrightarrow> evsF = [Log NoTestData]"
    "corpus_test (snd A) = corpus_test s"
    "mset (corpus_train (snd (train cfg x s)))
        = mset (corpus_train s @ (if train_with_dev cfg then corpus_dev s else []))"
    "test_mode cfg \<longrightarrow> corpus_train (snd (train cfg x s))
        = corpus_train s @ (if train_with_dev cfg then corpus_dev s else [])"
    "param_selection_mode cfg \<longrightarrow> saved (snd (train cfg x s)) = saved s"
    "length (dev_score_history (final_state cfg x (snd A)))
        = (if train_with_dev cfg then 0
           else length (completed_epochs cfg x es (train_setup cfg s)) + j)"
    "train cfg x s = (case fst A of Some e \<Rightarrow> (Inl e, snd A)
                      | None \<Rightarrow> (Inr (result_dict cfg x (snd A)), final_state cfg x (snd A)))"
    "j \<le> 1"
    "fst L \<noteq> Inl KeyboardInterrupt \<longrightarrow> j = 0"
    "concat (map file_of evsF)
        = (if fst A = None \<and> corpus_test s \<noteq> [] then sub_test_files s else [])"
proof -
  let ?s1 = "train_setup cfg s"
  obtain r s2 where L: "L = (r, s2)" by force
  have Ls: "epoch_loop cfg x es ?s1 = (r, s2)" using L by (simp add: L_def)
  from epoch_loop_summary[OF Ls] obtain evsL k j where
    l1: "trace s2 = trace ?s1 @ evsL" and l2: "\<forall>e \<in> set evsL. epoch_event cfg e" and l3: "k \<le> length es"
    and l4: "map fst (concat (map report_of evsL)) = map (\<lambda>e. e + 1) (take k es)"
    and l5: "r = Inr Exhausted \<longrightarrow> k = length es"
    and l6: "length (train_loss_history s2)
                 = length (train_loss_history ?s1) + length (completed_epochs cfg x es ?s1)"
    and l7: "length (dev_score_history s2)
                 = length (dev_score_history ?s1)
                   + (if train_with_dev cfg then 0 else length (completed_epochs cfg x es ?s1) + j)"
    and l12: "j \<le> 1" and l13: "r \<noteq> Inl KeyboardInterrupt \<longrightarrow> j = 0"
    and l8: "corpus_test s2 = corpus_test ?s1" and l14: "subcorpora s2 = subcorpora ?s1"
    and l9: "mset (corpus_train s2) = mset (corpus_train ?s1)"
    and l10: "test_mode cfg \<longrightarrow> corpus_train s2 = corpus_train ?s1"
    and l11: "param_selection_mode cfg \<longrightarrow> saved s2 = saved ?s1"
    by (elim conjE exE)
  obtain r3 s3 where A: "A = (r3, s3)" by force
  have As: "after_loop cfg (r, s2) = (r3, s3)" using A L by (simp add: A_def)
  from after_loop_trace[of cfg r s2] obtain evsA where
    a1: "trace s3 = trace s2 @ evsA"
    and a2: "\<forall>e \<in> set evsA. epoch_event cfg e \<and> report_of e = [] \<and> forward_of e = [] \<and> loss_row_of e = []"
    unfolding As by (elim exE conjE) simp
  note af = after_loop_fields[of cfg r s2, unfolded As snd_conv]
  let ?f = "final_state cfg x s3"
  from final_state_summary[of cfg x s3] obtain evsF0 where
    f1: "trace ?f = trace s3 @ evsF0" and f2: "\<forall>e \<in> set evsF0. final_event e"
    and f3: "corpus_test s3 = [] \<longrightarrow> evsF0 = [Log NoTestData]"
    and f5: "concat (map file_of evsF0) = (if corpus_test s3 \<noteq> [] then sub_test_files s3 else [])"
    and f4: "corpus_train ?f = corpus_train s3" "corpus_test ?f = corpus_test s3" "saved ?f = saved s3"
      "dev_score_history ?f = dev_score_history s3" "dev_loss_history ?f = dev_loss_history s3"
      "train_loss_history ?f = train_loss_history s3"
    by (elim conjE exE)
  have T: "train cfg x s = (case r3 of Some e \<Rightarrow> (Inl e, s3)
                      | None \<Rightarrow> (Inr (result_dict cfg x s3), ?f))"
    using As Ls by (cases r3) (simp_all add: train_eq es_def finish_eq result_dict_def)
  define evsF where "evsF = (case r3 of Some e \<Rightarrow> [] | None \<Rightarrow> evsF0)"
  have t1: "trace (snd L) = trace s @ setup_events cfg @ evsL" using l1 L by (simp add: train_setup_fields)
  have t2: "trace (snd A) = trace s @ setup_events cfg @ evsL @ evsA" using a1 l1 A by (simp add: train_setup_fields)
  have t3: "trace (snd (train cfg x s)) = trace s @ setup_events cfg @ evsL @ evsA @ evsF"
    unfolding T evsF_def using a1 l1 f1 by (cases r3) (simp_all add: train_setup_fields)
  have t9: "\<forall>e \<in> set evsF. final_event e" unfolding evsF_def using f2 by (cases r3) simp_all
  have t10: "fst A \<noteq> None \<longrightarrow> evsF = []" unfolding evsF_def A by (cases r3) simp_all
  have ct: "corpus_test (snd A) = corpus_test s" using A af(2) l8 by (simp add: train_setup_fields)
  have t11: "fst A = None \<and> corpus_test s = [] \<longrightarrow> evsF = [Log NoTestData]"
    unfolding evsF_def using f3 ct A by (cases r3) simp_all
  have t13: "mset (corpus_train (snd (train cfg x s)))
        = mset (corpus_train s @ (if train_with_dev cfg then corpus_dev s else []))"
    unfolding T using f4(1) af(1) l9 by (cases r3) (simp_all add: train_setup_fields)
  have t14: "test_mode cfg \<longrightarrow> corpus_train (snd (train cfg x s))
        = corpus_train s @ (if train_with_dev cfg then corpus_dev s else [])"
    unfolding T using f4(1) af(1) l10 by (cases r3) (simp_all add: train_setup_fields)
  have t15: "param_selection_mode cfg \<longrightarrow> saved (snd (train cfg x s)) = saved s"
    unfolding T using f4(3) af(5) l11 by (cases r3) (simp_all add: train_setup_fields)
  have t16: "length (dev_score_history (final_state cfg x (snd A)))
        = (if train_with_dev cfg then 0
           else length (completed_epochs cfg x es (train_setup cfg s)) + j)"
    using f4(4) af(3) l7 A by (simp add: train_setup_fields)
  have t19: "fst L \<noteq> Inl KeyboardInterrupt \<longrightarrow> j = 0" using l13 L by simp
  have sc: "subcorpora s3 = subcorpora s" using A af(6) l14 by (simp add: train_setup_fields)
  have t20: "concat (map file_of evsF)
        = (if fst A = None \<and> corpus_test s \<noteq> [] then sub_test_files s else [])"
    unfolding evsF_def using f5 ct sc A by (cases r3) (simp_all add: sub_test_files_def)
  have t17: "train cfg x s = (case fst A of Some e \<Rightarrow> (Inl e, snd A)
                      | None \<Rightarrow> (Inr (result_dict cfg x (snd A)), final_state cfg x (snd A)))"
    unfolding T A by (cases r3) simp_all
  have t7: "fst L = Inr Exhausted \<longrightarrow> k = length es" using l5 L by simp
  show ?thesis using that[OF t1 t2 t3 l2 l3 l4 t7 a2 t9 t10 t11 ct t13 t14 t15 t16 t17 l12 t19 t20] .
qed

lemma epoch_event_facts:
  "epoch_event cfg e \<Longrightarrow> final_test_of e = []"
  "epoch_event cfg e \<Longrightarrow> param_selection_mode cfg \<Longrightarrow> persist_of e = []"
  "epoch_event cfg e \<Longrightarrow> param_selection_mode cfg \<Longrightarrow> file_of e = []"
  by (cases e; simp)+

lemma final_event_facts:
  "final_event e \<Longrightarrow> persist_of e = [] \<and> report_of e = [] \<and> forward_of e = [] \<and> loss_row_of e = []"
  by (erule final_event.elims) simp_all

lemma result_dict_dom:
  "dom (result_dict cfg x s) = {''test_score'', ''dev_score_history'', ''train_loss_history'', ''dev_loss_history''}"
  by (auto simp add: result_dict_def)

lemma train_changes_corpus_train_in_place:
  "mset (corpus_train (snd (train cfg x s)))
     = mset (corpus_train s) + (if train_with_dev cfg then mset (corpus_dev s) else {#})
   \<and> (test_mode cfg \<longrightarrow>
        corpus_train (snd (train cfg x s))
          = corpus_train s @ (if train_with_dev cfg then corpus_dev s else []))"
proof -
  let ?es = "epoch_range (self_epoch s) (max_epochs cfg)"
  let ?L = "epoch_loop cfg x ?es (train_setup cfg s)"
  let ?A = "after_loop cfg ?L"
  obtain evsL k j evsA evsF where
    t1: "trace (snd ?L) = trace s @ setup_events cfg @ evsL"
    and t2: "trace (snd ?A) = trace s @ setup_events cfg @ evsL @ evsA"
    and t3: "trace (snd (train cfg x s)) = trace s @ setup_events cfg @ evsL @ evsA @ evsF"
    and t4: "\<forall>e \<in> set evsL. epoch_event cfg e"
    and t5: "k \<le> length ?es"
    and t6: "map fst (concat (map report_of evsL)) = map (\<lambda>e. e + 1) (take k ?es)"
    and t7: "fst ?L = Inr Exhausted \<longrightarrow> k = length ?es"
    and t8: "\<forall>e \<in> set evsA. epoch_event cfg e \<and> report_of e = [] \<and> forward_of e = [] \<and> loss_row_of e = []"
    and t9: "\<forall>e \<in> set evsF. final_event e"
    and t10: "fst ?A \<noteq> None \<longrightarrow> evsF = []"
    and t11: "fst ?A = None \<and> corpus_test s = [] \<longrightarrow> evsF = [Log NoTestData]"
    and t12: "corpus_test (snd ?A) = corpus_test s"
    and t13: "mset (corpus_train (snd (train cfg x s)))
        = mset (corpus_train s @ (if train_with_dev cfg then corpus_dev s else []))"
    and t14: "test_mode cfg \<longrightarrow> corpus_train (snd (train cfg x s))
        = corpus_train s @ (if train_with_dev cfg then corpus_dev s else [])"
    and t15: "param_selection_mode cfg \<longrightarrow> saved (snd (train cfg x s)) = saved s"
    and t16: "length (dev_score_history (final_state cfg x (snd ?A)))
        = (if train_with_dev cfg then 0
           else length (completed_epochs cfg x ?es (train_setup cfg s)) + j)"
    and t17: "train cfg x s = (case fst ?A of Some e \<Rightarrow> (Inl e, snd ?A)
                      | None \<Rightarrow> (Inr (result_dict cfg x (snd ?A)), final_state cfg x (snd ?A)))"
    and t18: "j \<le> 1"
    and t19: "fst ?L \<noteq> Inl KeyboardInterrupt \<longrightarrow> j = 0"
    and t20: "concat (map file_of evsF)
        = (if fst ?A = None \<and> corpus_test s \<noteq> [] then sub_test_files s else [])"
    by (rule train_parts[of cfg x s])
  show ?thesis using t13 t14 by simp
qed

lemmas finder_defs = find_learning_rate_def sweep.simps smooth_loss_def slice_to_def batch_step_def
  shuffle_train_def shuffle_def make_batches_def slices_def emit_def params_def set_params_def
  collect_def enumerate_eq_zip Let_def
  ex_finder_args_def ex_finder_ext_def ex_finder_state_def ex_ext_def ex_state_def ex_metric_def

lemma sweep_corpus_train:
  "corpus_train (snd (sweep a x bs best m s)) = corpus_train s"
proof (induction bs arbitrary: best m s)
  case Nil
  then show ?case by simp
next
  case (Cons b bs)
  obtain itr batch where b: "b = (itr, batch)" by (cases b)
  have 1: "corpus_train (batch_step x batch s) = corpus_train s"
    by (simp add: batch_step_def set_params_def emit_def)
  show ?case unfolding b
    by (simp add: Let_def emit_def Cons.IH 1 del: fdiv.simps split: sum.splits prod.splits)
qed

lemma sweep_corpus_train_dest:
  "sweep a x bs best m s = (r, s') \<Longrightarrow> corpus_train s' = corpus_train s"
  using sweep_corpus_train[of a x bs best m s] by simp

lemma find_learning_rate_corpus_train:
  "corpus_train (snd (find_learning_rate a x s)) = shuffle (rand x) (rpos s) (corpus_train s)"
  by (auto simp add: find_learning_rate_def Let_def emit_def shuffle_train_def
        split: sum.splits prod.splits dest!: sweep_corpus_train_dest)

lemmas ex_more_defs = ex_interrupt_ext_def ex_late_interrupt_ext_def ex_multi_state_def

section \<open>The claims\<close>

subsection \<open>C1: the training loss of an epoch\<close>

text \<open>
  Claim C1, as amended. For every epoch of \<^verbatim>\<open>train\<close> that runs to its end, the training
  loss reported for the epoch (in the message \<^verbatim>\<open>EPOCH n done\<close>, and in
  \<^verbatim>\<open>train_loss_history\<close> unless \<^verbatim>\<open>monitor_train\<close> replaces it by the evaluation loss)
  equals the plain sum of the losses of the epoch's batches, not weighted by batch size,
  divided by the number of training examples. The batches are those of the training data
  as shuffled for the epoch.
\<close>

theorem reported_train_loss_is_unweighted:
  assumes "fst (train_epoch cfg x ep s) = Inr Next"
  shows "\<exists>bs v.
     make_batches (mini_batch_size cfg) (corpus_train (shuffle_epoch cfg x (begin_epoch cfg x s))) = Inr bs
     \<and> fdiv (fsum (batch_losses x (lrs s) (params (begin_epoch cfg x s)) bs))
          (Fl (real (length (corpus_train s)))) = Inr v
     \<and> collect report_of (snd (train_epoch cfg x ep s)) = collect report_of s @ [(ep + 1, v)]
     \<and> (\<not> monitor_train cfg \<longrightarrow>
          train_loss_history (snd (train_epoch cfg x ep s)) = train_loss_history s @ [v])"
proof -
  obtain bs v tloss dev evs where
    1: "make_batches (mini_batch_size cfg) (corpus_train (shuffle_epoch cfg x (begin_epoch cfg x s))) = Inr bs"
    and 2: "fdiv (fsum (batch_losses x (lrs s) (params (begin_epoch cfg x s)) bs))
        (Fl (real (length (corpus_train (shuffle_epoch cfg x (begin_epoch cfg x s)))))) = Inr v"
    and 3: "\<not> monitor_train cfg \<longrightarrow> tloss = v"
    and 4: "dev = None \<longleftrightarrow> train_with_dev cfg"
    and 5: "trace (snd (train_epoch cfg x ep s)) = trace s @ evs"
    and 6: "concat (map report_of evs) = [(ep + 1, v)]"
    and 7: "concat (map best_save_of evs) =
       (if \<not> train_with_dev cfg \<and> \<not> param_selection_mode cfg
           \<and> equals_best (current_score cfg tloss dev) (sched_best (snd (train_epoch cfg x ep s)))
        then [()] else [])"
    and 8: "train_loss_history (snd (train_epoch cfg x ep s)) = train_loss_history s @ [tloss]"
    and 9: "dev_score_history (snd (train_epoch cfg x ep s))
       = dev_score_history s @ (case dev of Some (m, l) \<Rightarrow> [chosen_score cfg m] | None \<Rightarrow> [])"
    and 10: "sched_best (snd (train_epoch cfg x ep s)) =
       (if is_better (anneal_against_train_loss cfg) (current_score cfg tloss dev) (sched_best s)
        then Some (current_score cfg tloss dev) else sched_best s)"
    and 11: "saved (snd (train_epoch cfg x ep s)) =
       (if \<not> train_with_dev cfg \<and> \<not> param_selection_mode cfg
           \<and> equals_best (current_score cfg tloss dev) (sched_best (snd (train_epoch cfg x ep s)))
        then (saved s)(''best-model.pt'' \<mapsto> params (snd (train_epoch cfg x ep s)))
        else saved s)"
    by (rule train_epoch_Next[OF assms])
  have "mset (corpus_train (shuffle_epoch cfg x (begin_epoch cfg x s))) = mset (corpus_train (begin_epoch cfg x s))"
    by (rule shuffle_epoch_fields)
  then have "length (corpus_train (shuffle_epoch cfg x (begin_epoch cfg x s))) = length (corpus_train (begin_epoch cfg x s))"
    by (rule mset_eq_length)
  moreover have "corpus_train (begin_epoch cfg x s) = corpus_train s"
  proof -
    obtain st0 evs0 where b: "begin_epoch cfg x s = s\<lparr>store := st0, trace := trace s @ evs0,
        previous_learning_rate := read_learning_rate s, learning_rate := read_learning_rate s\<rparr>"
     and "\<forall>e \<in> set evs0. e = Log LogLine \<or> e = Log ResettingToBestModel"
      by (rule begin_epoch_frame[of cfg x s])
    show ?thesis unfolding b by simp
  qed
  ultimately have v2: "fdiv (fsum (batch_losses x (lrs s) (params (begin_epoch cfg x s)) bs))
          (Fl (real (length (corpus_train s)))) = Inr v" using 2 by simp
  have "collect report_of (snd (train_epoch cfg x ep s)) = collect report_of s @ [(ep + 1, v)]"
    using 5 6 by (simp add: collect_def)
  then show ?thesis using 1 v2 3 8 by (intro exI[of _ bs] exI[of _ v]) simp
qed

text \<open>
  Claim C1, witness: the first epoch of the example run ends normally, and its reported
  loss is the unweighted sum over the number of examples.
\<close>

theorem reported_train_loss_is_unweighted_witness:
  "fst (train_epoch ex_config ex_ext 0 ex_state) = Inr Next \<and>
   (\<exists>bs v.
     make_batches (mini_batch_size ex_config)
        (corpus_train (shuffle_epoch ex_config ex_ext (begin_epoch ex_config ex_ext ex_state))) = Inr bs
     \<and> fdiv (fsum (batch_losses ex_ext (lrs ex_state) (params (begin_epoch ex_config ex_ext ex_state)) bs))
          (Fl (real (length (corpus_train ex_state)))) = Inr v
     \<and> collect report_of (snd (train_epoch ex_config ex_ext 0 ex_state))
          = collect report_of ex_state @ [(0 + 1, v)]
     \<and> (\<not> monitor_train ex_config \<longrightarrow>
          train_loss_history (snd (train_epoch ex_config ex_ext 0 ex_state))
            = train_loss_history ex_state @ [v]))"
  using reported_train_loss_is_unweighted[OF ex_epoch_Next] ex_epoch_Next by simp

text \<open>
  Claim C1, counterexample to the claim as stated. Two batches of two sentences, each with
  loss 1: weighting by batch size gives the mean (2 + 2) / 4 = 1, while the loss that
  \<^verbatim>\<open>train\<close> reports and records is (1 + 1) / 4 = 1 / 2.
\<close>

theorem weighted_mean_loss_counterexample:
  "make_batches (mini_batch_size ex_config)
      (corpus_train (shuffle_epoch ex_config ex_ext (begin_epoch ex_config ex_ext ex_state)))
     = Inr [[1, 2], [3, 0]]
   \<and> batch_losses ex_ext (lrs ex_state) (params (begin_epoch ex_config ex_ext ex_state)) [[1, 2], [3, 0]]
     = [Fl 1, Fl 1]
   \<and> spec_weighted_mean_loss [Fl 1, Fl 1] [[1, 2], [3, 0]] (length (corpus_train ex_state)) = Inr (Fl 1)
   \<and> collect report_of (snd (train_epoch ex_config ex_ext 0 ex_state)) = [(1, Fl (1 / 2))]
   \<and> train_loss_history (snd (train_epoch ex_config ex_ext 0 ex_state)) = [Fl (1 / 2)]"
  by (simp add: run_defs ex_defs spec_weighted_mean_loss_def fsum_def)

subsection \<open>C2: when the best model is saved\<close>

text \<open>
  Claim C2. With dev-based selection active (\<^verbatim>\<open>train_with_dev\<close> and
  \<^verbatim>\<open>param_selection_mode\<close> both off), an epoch saves \<^verbatim>\<open>best-model.pt\<close> exactly when
  it runs to its end and its scheduling score equals the scheduler's best after the step.
  In those epochs the number of saves grows by one and the artifact \<^verbatim>\<open>best-model.pt\<close>
  then holds the parameters that the model has at the end of the epoch; in every other
  epoch nothing is saved and the artifacts stay as they were. In particular an epoch whose
  score improves on the previous best saves, and so does an epoch whose score ties with
  the previous best. The score is read back from the histories.
\<close>

theorem best_model_saved_iff_score_equals_best:
  assumes "\<not> train_with_dev cfg" and "\<not> param_selection_mode cfg"
  shows "(fst (train_epoch cfg x ep s) = Inr Next \<longrightarrow>
           (let s' = snd (train_epoch cfg x ep s);
                score = (if anneal_against_train_loss cfg then last (train_loss_history s')
                         else last (dev_score_history s'))
            in collect best_save_of s'
                 = collect best_save_of s @ (if equals_best score (sched_best s') then [()] else [])
               \<and> saved s'
                 = (if equals_best score (sched_best s')
                    then (saved s)(''best-model.pt'' \<mapsto> params s') else saved s)
               \<and> (is_better (anneal_against_train_loss cfg) score (sched_best s)
                    \<longrightarrow> collect best_save_of s' = collect best_save_of s @ [()]
                        \<and> saved s' ''best-model.pt'' = Some (params s'))
               \<and> (equals_best score (sched_best s)
                    \<longrightarrow> collect best_save_of s' = collect best_save_of s @ [()]
                        \<and> saved s' ''best-model.pt'' = Some (params s'))))
       \<and> (fst (train_epoch cfg x ep s) \<noteq> Inr Next \<longrightarrow>
            collect best_save_of (snd (train_epoch cfg x ep s)) = collect best_save_of s
            \<and> saved (snd (train_epoch cfg x ep s)) = saved s)"
proof (cases "fst (train_epoch cfg x ep s) = Inr Next")
  case False
  then show ?thesis using train_epoch_not_Next[of cfg x ep s] by simp
next
  case True
  let ?s' = "snd (train_epoch cfg x ep s)"
  obtain bs v tloss dev evs where
    1: "make_batches (mini_batch_size cfg) (corpus_train (shuffle_epoch cfg x (begin_epoch cfg x s))) = Inr bs"
    and 2: "fdiv (fsum (batch_losses x (lrs s) (params (begin_epoch cfg x s)) bs))
        (Fl (real (length (corpus_train (shuffle_epoch cfg x (begin_epoch cfg x s)))))) = Inr v"
    and 3: "\<not> monitor_train cfg \<longrightarrow> tloss = v"
    and 4: "dev = None \<longleftrightarrow> train_with_dev cfg"
    and 5: "trace ?s' = trace s @ evs"
    and 6: "concat (map report_of evs) = [(ep + 1, v)]"
    and 7: "concat (map best_save_of evs) =
       (if \<not> train_with_dev cfg \<and> \<not> param_selection_mode cfg
           \<and> equals_best (current_score cfg tloss dev) (sched_best ?s')
        then [()] else [])"
    and 8: "train_loss_history ?s' = train_loss_history s @ [tloss]"
    and 9: "dev_score_history ?s'
       = dev_score_history s @ (case dev of Some (m, l) \<Rightarrow> [chosen_score cfg m] | None \<Rightarrow> [])"
    and 10: "sched_best ?s' =
       (if is_better (anneal_against_train_loss cfg) (current_score cfg tloss dev) (sched_best s)
        then Some (current_score cfg tloss dev) else sched_best s)"
    and 11: "saved ?s' =
       (if \<not> train_with_dev cfg \<and> \<not> param_selection_mode cfg
           \<and> equals_best (current_score cfg tloss dev) (sched_best ?s')
        then (saved s)(''best-model.pt'' \<mapsto> params ?s')
        else saved s)"
    by (rule train_epoch_Next[OF True])
  define score where "score = (if anneal_against_train_loss cfg then last (train_loss_history ?s')
                         else last (dev_score_history ?s'))"
  obtain m l where dev: "dev = Some (m, l)" using 4 assms(1) by (cases dev) auto
  have sc: "score = current_score cfg tloss dev"
    by (simp add: score_def 8 9 dev current_score_def dev_score_of_def)
  have a: "collect best_save_of ?s'
             = collect best_save_of s @ (if equals_best score (sched_best ?s') then [()] else [])"
    using 5 7 assms by (simp add: collect_def sc)
  have sv: "saved ?s'
             = (if equals_best score (sched_best ?s')
                then (saved s)(''best-model.pt'' \<mapsto> params ?s') else saved s)"
    using 11 assms by (simp add: sc)
  have b: "is_better (anneal_against_train_loss cfg) score (sched_best s) \<longrightarrow> equals_best score (sched_best ?s')"
    using is_better_equals[of "anneal_against_train_loss cfg" score "sched_best s"] by (simp add: 10 sc)
  have c: "equals_best score (sched_best s) \<longrightarrow> equals_best score (sched_best ?s')"
    using equals_not_better[of score "sched_best s" "anneal_against_train_loss cfg"] by (auto simp add: 10 sc)
  have d: "equals_best score (sched_best ?s') \<longrightarrow>
             collect best_save_of ?s' = collect best_save_of s @ [()]
             \<and> saved ?s' ''best-model.pt'' = Some (params ?s')"
    using a sv by simp
  show ?thesis using True a sv b c d unfolding score_def[symmetric] Let_def by blast
qed

text \<open>
  Claim C2, witness: the first epoch of the example run sets a new best, saves the best
  model once, and the artifact holds the weights after the epoch's two steps.
\<close>

theorem best_model_saved_iff_score_equals_best_witness:
  "\<not> train_with_dev ex_config \<and> \<not> param_selection_mode ex_config
   \<and> fst (train_epoch ex_config ex_ext 0 ex_state) = Inr Next
   \<and> is_better (anneal_against_train_loss ex_config)
        (last (train_loss_history (snd (train_epoch ex_config ex_ext 0 ex_state)))) (sched_best ex_state)
   \<and> collect best_save_of (snd (train_epoch ex_config ex_ext 0 ex_state))
        = collect best_save_of ex_state @ [()]
   \<and> saved (snd (train_epoch ex_config ex_ext 0 ex_state)) ''best-model.pt''
        = Some (params (snd (train_epoch ex_config ex_ext 0 ex_state)))
   \<and> params (snd (train_epoch ex_config ex_ext 0 ex_state)) = [2]"
proof -
  let ?s' = "snd (train_epoch ex_config ex_ext 0 ex_state)"
  let ?score = "if anneal_against_train_loss ex_config then last (train_loss_history ?s')
                else last (dev_score_history ?s')"
  have h1: "\<not> train_with_dev ex_config" and h2: "\<not> param_selection_mode ex_config"
    and h4: "anneal_against_train_loss ex_config"
    by (simp_all add: ex_config_def)
  have h3: "is_better (anneal_against_train_loss ex_config) ?score (sched_best ex_state)"
    by (simp add: run_defs ex_defs)
  have p: "params ?s' = [2]" by (simp add: run_defs ex_defs)
  note T = best_model_saved_iff_score_equals_best[OF h1 h2, of ex_ext 0 ex_state, unfolded Let_def]
  from T have "fst (train_epoch ex_config ex_ext 0 ex_state) = Inr Next \<longrightarrow>
      collect best_save_of ?s'
         = collect best_save_of ex_state @ (if equals_best ?score (sched_best ?s') then [()] else [])
       \<and> saved ?s'
         = (if equals_best ?score (sched_best ?s')
            then (saved ex_state)(''best-model.pt'' \<mapsto> params ?s') else saved ex_state)
       \<and> (is_better (anneal_against_train_loss ex_config) ?score (sched_best ex_state)
            \<longrightarrow> collect best_save_of ?s' = collect best_save_of ex_state @ [()]
                \<and> saved ?s' ''best-model.pt'' = Some (params ?s'))
       \<and> (equals_best ?score (sched_best ex_state)
            \<longrightarrow> collect best_save_of ?s' = collect best_save_of ex_state @ [()]
                \<and> saved ?s' ''best-model.pt'' = Some (params ?s'))"
    by (rule conjunct1)
  then have "is_better (anneal_against_train_loss ex_config) ?score (sched_best ex_state)
            \<longrightarrow> collect best_save_of ?s' = collect best_save_of ex_state @ [()]
                \<and> saved ?s' ''best-model.pt'' = Some (params ?s')"
    using ex_epoch_Next by blast
  then have "collect best_save_of ?s' = collect best_save_of ex_state @ [()]
                \<and> saved ?s' ''best-model.pt'' = Some (params ?s')"
    using h3 by (rule mp)
  moreover have "is_better (anneal_against_train_loss ex_config) (last (train_loss_history ?s')) (sched_best ex_state)"
    using h3 h4 by simp
  ultimately show ?thesis using ex_epoch_Next h1 h2 p by blast
qed

subsection \<open>C3: how many epochs the loop runs\<close>

text \<open>
  Claim C3, as amended. For a session whose epoch index is \<open>e\<close>, restored from a
  checkpoint or not, the epochs that \<^verbatim>\<open>train\<close> runs are an initial part of
  \<open>e, ..., e + max_epochs - 1\<close>: at most \<^verbatim>\<open>max_epochs\<close> further epochs, and all of them
  when the loop ends by exhausting its range.
\<close>

theorem epoch_loop_runs_max_epochs_further_epochs:
  "\<exists>k \<le> nat (max_epochs cfg).
      epochs_done (snd (train cfg x s))
        = epochs_done s @ take k [self_epoch s .. self_epoch s + max_epochs cfg - 1]
      \<and> (fst (epoch_loop cfg x (epoch_range (self_epoch s) (max_epochs cfg)) (train_setup cfg s))
            = Inr Exhausted \<longrightarrow> k = nat (max_epochs cfg))"
proof -
  let ?es = "epoch_range (self_epoch s) (max_epochs cfg)"
  let ?L = "epoch_loop cfg x ?es (train_setup cfg s)"
  let ?A = "after_loop cfg ?L"
  obtain evsL k j evsA evsF where
    t1: "trace (snd ?L) = trace s @ setup_events cfg @ evsL"
    and t2: "trace (snd ?A) = trace s @ setup_events cfg @ evsL @ evsA"
    and t3: "trace (snd (train cfg x s)) = trace s @ setup_events cfg @ evsL @ evsA @ evsF"
    and t4: "\<forall>e \<in> set evsL. epoch_event cfg e"
    and t5: "k \<le> length ?es"
    and t6: "map fst (concat (map report_of evsL)) = map (\<lambda>e. e + 1) (take k ?es)"
    and t7: "fst ?L = Inr Exhausted \<longrightarrow> k = length ?es"
    and t8: "\<forall>e \<in> set evsA. epoch_event cfg e \<and> report_of e = [] \<and> forward_of e = [] \<and> loss_row_of e = []"
    and t9: "\<forall>e \<in> set evsF. final_event e"
    and t10: "fst ?A \<noteq> None \<longrightarrow> evsF = []"
    and t11: "fst ?A = None \<and> corpus_test s = [] \<longrightarrow> evsF = [Log NoTestData]"
    and t12: "corpus_test (snd ?A) = corpus_test s"
    and t13: "mset (corpus_train (snd (train cfg x s)))
        = mset (corpus_train s @ (if train_with_dev cfg then corpus_dev s else []))"
    and t14: "test_mode cfg \<longrightarrow> corpus_train (snd (train cfg x s))
        = corpus_train s @ (if train_with_dev cfg then corpus_dev s else [])"
    and t15: "param_selection_mode cfg \<longrightarrow> saved (snd (train cfg x s)) = saved s"
    and t16: "length (dev_score_history (final_state cfg x (snd ?A)))
        = (if train_with_dev cfg then 0
           else length (completed_epochs cfg x ?es (train_setup cfg s)) + j)"
    and t17: "train cfg x s = (case fst ?A of Some e \<Rightarrow> (Inl e, snd ?A)
                      | None \<Rightarrow> (Inr (result_dict cfg x (snd ?A)), final_state cfg x (snd ?A)))"
    and t18: "j \<le> 1"
    and t19: "fst ?L \<noteq> Inl KeyboardInterrupt \<longrightarrow> j = 0"
    and t20: "concat (map file_of evsF)
        = (if fst ?A = None \<and> corpus_test s \<noteq> [] then sub_test_files s else [])"
    by (rule train_parts[of cfg x s])
  have es: "?es = [self_epoch s .. self_epoch s + max_epochs cfg - 1]"
    by (simp add: epoch_range_def add.commute)
  have len: "length ?es = nat (max_epochs cfg)" unfolding es by simp
  have "map (\<lambda>(e, v). e - 1) (concat (map report_of evsL)) = map (\<lambda>e. e - 1) (map fst (concat (map report_of evsL)))"
    by (simp add: case_prod_beta)
  also have "\<dots> = take k ?es" unfolding t6 by (simp add: comp_def)
  finally have r: "map (\<lambda>(e, v). e - 1) (concat (map report_of evsL)) = take k ?es" .
  have r0: "concat (map report_of (setup_events cfg)) = []" by (auto simp add: setup_events_def)
  have rA: "concat (map report_of evsA) = []" using t8 by auto
  have rF: "concat (map report_of evsF) = []" using t9 final_event_facts by auto
  have "epochs_done (snd (train cfg x s)) = epochs_done s @ take k ?es"
    by (simp add: epochs_done_def collect_def t3 r0 rA rF r)
  then show ?thesis using t5 t7 unfolding len es by (intro exI[of _ k]) simp
qed

text \<open>
  Claim C3, witness: a session resumed at epoch 2 with \<^verbatim>\<open>max_epochs = 3\<close> exhausts its
  range and runs the epochs 2, 3 and 4.
\<close>

theorem epoch_loop_runs_max_epochs_further_epochs_witness:
  "fst (epoch_loop (ex_config\<lparr>max_epochs := 3\<rparr>) ex_ext
          (epoch_range (self_epoch (ex_state\<lparr>self_epoch := 2\<rparr>)) (max_epochs (ex_config\<lparr>max_epochs := 3\<rparr>)))
          (train_setup (ex_config\<lparr>max_epochs := 3\<rparr>) (ex_state\<lparr>self_epoch := 2\<rparr>))) = Inr Exhausted
   \<and> epochs_done (snd (train (ex_config\<lparr>max_epochs := 3\<rparr>) ex_ext (ex_state\<lparr>self_epoch := 2\<rparr>)))
       = epochs_done (ex_state\<lparr>self_epoch := 2\<rparr>) @ [2, 3, 4]"
proof -
  let ?c = "ex_config\<lparr>max_epochs := 3\<rparr>"
  let ?s = "ex_state\<lparr>self_epoch := 2\<rparr>"
  have ex: "fst (epoch_loop ?c ex_ext (epoch_range (self_epoch ?s) (max_epochs ?c)) (train_setup ?c ?s)) = Inr Exhausted"
    by (simp add: run_defs ex_defs upto.simps)
  from epoch_loop_runs_max_epochs_further_epochs[of ?c ex_ext ?s] obtain k where
    k: "epochs_done (snd (train ?c ex_ext ?s)) = epochs_done ?s @ take k [self_epoch ?s .. self_epoch ?s + max_epochs ?c - 1]"
    and e: "fst (epoch_loop ?c ex_ext (epoch_range (self_epoch ?s) (max_epochs ?c)) (train_setup ?c ?s)) = Inr Exhausted
            \<longrightarrow> k = nat (max_epochs ?c)"
    by blast
  from e ex have "k = 3" by (simp add: ex_config_def)
  then show ?thesis using k ex by (simp add: ex_config_def ex_state_def upto.simps)
qed

text \<open>
  Claim C3, counterexample to the claim as stated. Resumed at epoch 2 with
  \<^verbatim>\<open>max_epochs = 3\<close>, the claim allows the single epoch 2 (epochs \<open>e\<close> through
  \<open>max_epochs - 1\<close>); the code runs the three epochs 2, 3 and 4.
\<close>

theorem epochs_to_max_epochs_counterexample:
  "self_epoch (ex_state\<lparr>self_epoch := 2\<rparr>) = 2 \<and> max_epochs (ex_config\<lparr>max_epochs := 3\<rparr>) = 3
   \<and> epochs_done (snd (train (ex_config\<lparr>max_epochs := 3\<rparr>) ex_ext (ex_state\<lparr>self_epoch := 2\<rparr>)))
       = [2, 3, 4]
   \<and> [self_epoch (ex_state\<lparr>self_epoch := 2\<rparr>) .. max_epochs (ex_config\<lparr>max_epochs := 3\<rparr>) - 1] = [2]"
  by (simp add: run_defs ex_defs upto.simps final_state_def)

subsection \<open>C4: the learning-rate floor\<close>

text \<open>
  Claim C4. When the learning rate read at the start of an epoch is below 0.0001, the
  loop ends at that epoch with the \<^verbatim>\<open>break\<close>; from there to the return of \<^verbatim>\<open>train\<close>
  (the final model, the final test) no batch is given to the model's loss and no line is
  appended to \<^verbatim>\<open>loss.tsv\<close>.
\<close>

theorem learning_rate_too_small_stops_training:
  assumes "read_learning_rate s < 1 / 10000"
  shows "fst (epoch_loop cfg x (ep # rest) s) = Inr TooSmall
     \<and> collect forward_of (snd (finish cfg x (after_loop cfg (epoch_loop cfg x (ep # rest) s))))
          = collect forward_of s
     \<and> collect loss_row_of (snd (finish cfg x (after_loop cfg (epoch_loop cfg x (ep # rest) s))))
          = collect loss_row_of s"
proof -
  let ?b = "begin_epoch cfg x s"
  obtain st0 evs0 where b: "?b = s\<lparr>store := st0, trace := trace s @ evs0, previous_learning_rate := read_learning_rate s,
        learning_rate := read_learning_rate s\<rparr>"
     and evs0: "\<forall>e \<in> set evs0. e = Log LogLine \<or> e = Log ResettingToBestModel"
    by (rule begin_epoch_frame[of cfg x s])
  have lr: "learning_rate ?b < 1 / 10000" unfolding b using assms by simp
  define s1 where "s1 = emit (Log LogLine) (emit (Log LearningRateTooSmall) (emit (Log LogLine) ?b))"
  have te: "train_epoch cfg x ep s = (Inr Break, s1)"
    using lr by (simp add: train_epoch_def Let_def s1_def)
  have L: "epoch_loop cfg x (ep # rest) s = (Inr TooSmall, s1)" by (simp add: te)
  have tr1: "trace s1 = trace s @ evs0 @ [Log LogLine, Log LearningRateTooSmall, Log LogLine]"
    unfolding s1_def by (simp add: emit_def b)
  have f0: "concat (map forward_of evs0) = []" "concat (map loss_row_of evs0) = []"
    using evs0 by auto
  obtain evsA where a1: "trace (snd (after_loop cfg (Inr TooSmall, s1))) = trace s1 @ evsA"
    and a2: "\<forall>e \<in> set evsA. epoch_event cfg e \<and> report_of e = [] \<and> forward_of e = [] \<and> loss_row_of e = []"
    using after_loop_trace[of cfg "Inr TooSmall" s1] by (elim exE conjE)
  have fA: "concat (map forward_of evsA) = []" "concat (map loss_row_of evsA) = []"
    using a2 by auto
  define s3 where "s3 = snd (after_loop cfg (Inr TooSmall, s1))"
  have A: "after_loop cfg (Inr TooSmall, s1) = (None, s3)" by (simp add: s3_def)
  from final_state_summary[of cfg x s3] obtain evsF where
    f1: "trace (final_state cfg x s3) = trace s3 @ evsF" and f2: "\<forall>e \<in> set evsF. final_event e"
    by (elim conjE exE)
  have fF: "concat (map forward_of evsF) = []" "concat (map loss_row_of evsF) = []"
    using f2 final_event_facts by auto
  have fin: "snd (finish cfg x (after_loop cfg (epoch_loop cfg x (ep # rest) s))) = final_state cfg x s3"
    unfolding L A by (simp add: finish_eq)
  have tr3: "trace s3 = trace s1 @ evsA" unfolding s3_def by (rule a1)
  have tr: "trace (final_state cfg x s3) = trace s @ evs0 @ [Log LogLine, Log LearningRateTooSmall, Log LogLine] @ evsA @ evsF"
    unfolding f1 tr3 tr1 by simp
  show ?thesis unfolding fin using L by (simp add: collect_def tr f0 fA fF)
qed

text \<open>
  Claim C4, witness: an optimizer whose rate is 0.00005 at the start of an epoch.
\<close>

theorem learning_rate_too_small_stops_training_witness:
  "read_learning_rate (ex_state\<lparr>lrs := [1 / 20000]\<rparr>) < 1 / 10000
   \<and> fst (epoch_loop ex_config ex_ext [0, 1] (ex_state\<lparr>lrs := [1 / 20000]\<rparr>)) = Inr TooSmall
   \<and> collect forward_of (snd (finish ex_config ex_ext (after_loop ex_config
         (epoch_loop ex_config ex_ext [0, 1] (ex_state\<lparr>lrs := [1 / 20000]\<rparr>)))))
       = collect forward_of (ex_state\<lparr>lrs := [1 / 20000]\<rparr>)
   \<and> collect loss_row_of (snd (finish ex_config ex_ext (after_loop ex_config
         (epoch_loop ex_config ex_ext [0, 1] (ex_state\<lparr>lrs := [1 / 20000]\<rparr>)))))
       = collect loss_row_of (ex_state\<lparr>lrs := [1 / 20000]\<rparr>)"
proof -
  have h: "read_learning_rate (ex_state\<lparr>lrs := [1 / 20000]\<rparr>) < 1 / 10000"
    by (simp add: read_learning_rate_def ex_state_def)
  show ?thesis using learning_rate_too_small_stops_training[OF h, of ex_config ex_ext 0 "[1]"] h by simp
qed

subsection \<open>C5: early stop of the learning-rate finder\<close>

text \<open>
  Claim C5, the code at the failing input. With smoothing factor 1 / 2 and batch losses
  10, 4, 20 the smoothed losses are 10, 8 / 3 and 88 / 7. The third exceeds four times the
  smallest smoothed loss (4 * 8 / 3 < 88 / 7), yet the sweep does not stop: all three rows
  are written and no divergence is logged, because line 390 stores the raw loss 4 as
  \<^verbatim>\<open>best_loss\<close>.
\<close>

theorem finder_best_loss_is_raw_loss:
  "collect lr_row_of (snd (find_learning_rate ex_finder_args ex_finder_ext ex_finder_state))
     = [(0, Fl 10), (1, Fl (8 / 3)), (2, Fl (88 / 7))]
   \<and> Log LossDiverged \<notin> set (trace (snd (find_learning_rate ex_finder_args ex_finder_ext ex_finder_state)))
   \<and> stop_early ex_finder_args
   \<and> flt (fmul (Fl 4) (Fl (8 / 3))) (Fl (88 / 7))"
  by (simp add: finder_defs)

subsection \<open>C6: the finder and the model's parameters\<close>

text \<open>
  Claim C6, the code at the failing input. The model starts with the weight 0 and every
  step adds 1. \<^verbatim>\<open>find_learning_rate\<close> returns the path of its log and leaves the device
  as it was, but the weight is 4 afterwards: \<^verbatim>\<open>model_state\<close> refers to the storage that
  the four steps updated in place, so loading it restores nothing.
\<close>

theorem finder_leaves_trained_weights:
  "params ex_state = [0]
   \<and> fst (find_learning_rate ex_finder_args ex_ext ex_state) = Inr ''learning_rate.tsv''
   \<and> params (snd (find_learning_rate ex_finder_args ex_ext ex_state)) = [4]
   \<and> model_device (snd (find_learning_rate ex_finder_args ex_ext ex_state)) = model_device ex_state"
  by (simp add: finder_defs)

subsection \<open>C7: parameter-selection mode\<close>

text \<open>
  Claim C7, as amended. In \<^verbatim>\<open>param_selection_mode\<close> the files that a call to \<^verbatim>\<open>train\<close>
  creates or writes are exactly these: \<^verbatim>\<open>training.log\<close>, whose handler is added before
  the mode is tested, and, when \<^verbatim>\<open>train\<close> reaches the final test of a composite corpus
  with a test split, \<^verbatim>\<open>test.tsv\<close>, named once for each sub-corpus. So there is no
  \<^verbatim>\<open>loss.tsv\<close>, no weight snapshot, no model artifact and no checkpoint, and the saved
  artifacts are unchanged. When \<^verbatim>\<open>train_with_dev\<close> is off, the returned
  \<^verbatim>\<open>dev_score_history\<close> has one entry for each epoch that ran to its end, and at most one
  more, which an epoch ended by an interrupt can leave; without an interrupt it has no
  other entry.
\<close>

theorem param_selection_mode_writes_only_the_log:
  assumes "param_selection_mode cfg"
  shows "collect file_of (snd (train cfg x s))
           = collect file_of s @ ''training.log'' #
               (case fst (train cfg x s) of
                  Inr d \<Rightarrow> if corpus_test s \<noteq> [] then sub_test_files s else []
                | Inl e \<Rightarrow> [])
     \<and> collect persist_of (snd (train cfg x s)) = collect persist_of s
     \<and> saved (snd (train cfg x s)) = saved s
     \<and> AddFileHandler ''training.log'' \<in> set (trace (snd (train cfg x s)))
     \<and> (\<not> train_with_dev cfg \<longrightarrow>
          (\<forall>d. fst (train cfg x s) = Inr d \<longrightarrow>
             (\<exists>h. d ''dev_score_history'' = Some (PList h)
                \<and> length (completed_epochs cfg x (epoch_range (self_epoch s) (max_epochs cfg))
                            (train_setup cfg s)) \<le> length h
                \<and> length h \<le> length (completed_epochs cfg x (epoch_range (self_epoch s) (max_epochs cfg))
                                      (train_setup cfg s)) + 1
                \<and> (fst (epoch_loop cfg x (epoch_range (self_epoch s) (max_epochs cfg)) (train_setup cfg s))
                      \<noteq> Inl KeyboardInterrupt
                    \<longrightarrow> length h = length (completed_epochs cfg x
                                          (epoch_range (self_epoch s) (max_epochs cfg))
                                          (train_setup cfg s))))))"
proof -
  let ?es = "epoch_range (self_epoch s) (max_epochs cfg)"
  let ?L = "epoch_loop cfg x ?es (train_setup cfg s)"
  let ?A = "after_loop cfg ?L"
  let ?c = "length (completed_epochs cfg x ?es (train_setup cfg s))"
  obtain evsL k j evsA evsF where
    t1: "trace (snd ?L) = trace s @ setup_events cfg @ evsL"
    and t2: "trace (snd ?A) = trace s @ setup_events cfg @ evsL @ evsA"
    and t3: "trace (snd (train cfg x s)) = trace s @ setup_events cfg @ evsL @ evsA @ evsF"
    and t4: "\<forall>e \<in> set evsL. epoch_event cfg e"
    and t5: "k \<le> length ?es"
    and t6: "map fst (concat (map report_of evsL)) = map (\<lambda>e. e + 1) (take k ?es)"
    and t7: "fst ?L = Inr Exhausted \<longrightarrow> k = length ?es"
    and t8: "\<forall>e \<in> set evsA. epoch_event cfg e \<and> report_of e = [] \<and> forward_of e = [] \<and> loss_row_of e = []"
    and t9: "\<forall>e \<in> set evsF. final_event e"
    and t10: "fst ?A \<noteq> None \<longrightarrow> evsF = []"
    and t11: "fst ?A = None \<and> corpus_test s = [] \<longrightarrow> evsF = [Log NoTestData]"
    and t12: "corpus_test (snd ?A) = corpus_test s"
    and t13: "mset (corpus_train (snd (train cfg x s)))
        = mset (corpus_train s @ (if train_with_dev cfg then corpus_dev s else []))"
    and t14: "test_mode cfg \<longrightarrow> corpus_train (snd (train cfg x s))
        = corpus_train s @ (if train_with_dev cfg then corpus_dev s else [])"
    and t15: "param_selection_mode cfg \<longrightarrow> saved (snd (train cfg x s)) = saved s"
    and t16: "length (dev_score_history (final_state cfg x (snd ?A)))
        = (if train_with_dev cfg then 0
           else length (completed_epochs cfg x ?es (train_setup cfg s)) + j)"
    and t17: "train cfg x s = (case fst ?A of Some e \<Rightarrow> (Inl e, snd ?A)
                      | None \<Rightarrow> (Inr (result_dict cfg x (snd ?A)), final_state cfg x (snd ?A)))"
    and t18: "j \<le> 1"
    and t19: "fst ?L \<noteq> Inl KeyboardInterrupt \<longrightarrow> j = 0"
    and t20: "concat (map file_of evsF)
        = (if fst ?A = None \<and> corpus_test s \<noteq> [] then sub_test_files s else [])"
    by (rule train_parts[of cfg x s])
  have ft: "fst (train cfg x s) = (case fst ?A of Some e \<Rightarrow> Inl e | None \<Rightarrow> Inr (result_dict cfg x (snd ?A)))"
    using t17 by (cases "fst ?A") simp_all
  have g0: "concat (map file_of (setup_events cfg)) = [''training.log'']"
    using assms by (simp add: setup_events_def)
  have gL: "concat (map file_of evsL) = []" using t4 epoch_event_facts(3) assms by auto
  have gA: "concat (map file_of evsA) = []" using t8 epoch_event_facts(3) assms by auto
  have gF: "concat (map file_of evsF)
       = (case fst (train cfg x s) of
            Inr d \<Rightarrow> if corpus_test s \<noteq> [] then sub_test_files s else []
          | Inl e \<Rightarrow> [])"
    unfolding t20 ft by (cases "fst ?A") simp_all
  have f: "collect file_of (snd (train cfg x s))
           = collect file_of s @ ''training.log'' #
               (case fst (train cfg x s) of
                  Inr d \<Rightarrow> if corpus_test s \<noteq> [] then sub_test_files s else []
                | Inl e \<Rightarrow> [])"
    by (simp add: collect_def t3 g0 gL gA gF)
  have p0: "concat (map persist_of (setup_events cfg)) = []" using assms by (auto simp add: setup_events_def)
  have pL: "concat (map persist_of evsL) = []" using t4 epoch_event_facts(2) assms by auto
  have pA: "concat (map persist_of evsA) = []" using t8 epoch_event_facts(2) assms by auto
  have pF: "concat (map persist_of evsF) = []" using t9 final_event_facts by auto
  have a: "collect persist_of (snd (train cfg x s)) = collect persist_of s"
    by (simp add: collect_def t3 p0 pL pA pF)
  have b: "saved (snd (train cfg x s)) = saved s" using t15 assms by simp
  have c: "AddFileHandler ''training.log'' \<in> set (trace (snd (train cfg x s)))"
    unfolding t3 by (auto simp add: setup_events_def)
  have d: "\<not> train_with_dev cfg \<longrightarrow>
          (\<forall>d. fst (train cfg x s) = Inr d \<longrightarrow>
             (\<exists>h. d ''dev_score_history'' = Some (PList h)
                \<and> ?c \<le> length h \<and> length h \<le> ?c + 1
                \<and> (fst ?L \<noteq> Inl KeyboardInterrupt \<longrightarrow> length h = ?c)))"
  proof (intro impI allI)
    fix d
    assume twd: "\<not> train_with_dev cfg" and r: "fst (train cfg x s) = Inr d"
    from r ft have A: "fst ?A = None" and dd: "d = result_dict cfg x (snd ?A)"
      by (cases "fst ?A"; simp)+
    let ?h = "dev_score_history (final_state cfg x (snd ?A))"
    have 1: "d ''dev_score_history'' = Some (PList ?h)" unfolding dd by (simp add: result_dict_def)
    have 2: "length ?h = ?c + j" using t16 twd by simp
    have "?c \<le> length ?h \<and> length ?h \<le> ?c + 1 \<and> (fst ?L \<noteq> Inl KeyboardInterrupt \<longrightarrow> length ?h = ?c)"
      using 2 t18 t19 by simp
    then show "\<exists>h. d ''dev_score_history'' = Some (PList h)
                \<and> ?c \<le> length h \<and> length h \<le> ?c + 1
                \<and> (fst ?L \<noteq> Inl KeyboardInterrupt \<longrightarrow> length h = ?c)"
      using 1 by (intro exI[of _ ?h]) simp
  qed
  show ?thesis using f a b c d by simp
qed

text \<open>
  Claim C7, witness: the example run in \<^verbatim>\<open>param_selection_mode\<close> on a composite corpus with
  a test split. Both epochs complete, the history has two entries, and the files named
  are \<^verbatim>\<open>training.log\<close> and \<^verbatim>\<open>test.tsv\<close>.
\<close>

theorem param_selection_mode_writes_only_the_log_witness:
  "param_selection_mode (ex_config\<lparr>param_selection_mode := True\<rparr>)
   \<and> collect file_of (snd (train (ex_config\<lparr>param_selection_mode := True\<rparr>) ex_ext ex_multi_state))
        = collect file_of ex_multi_state @ [''training.log'', ''test.tsv'']
   \<and> collect persist_of (snd (train (ex_config\<lparr>param_selection_mode := True\<rparr>) ex_ext ex_multi_state))
        = collect persist_of ex_multi_state
   \<and> saved (snd (train (ex_config\<lparr>param_selection_mode := True\<rparr>) ex_ext ex_multi_state))
        = saved ex_multi_state
   \<and> completed_epochs (ex_config\<lparr>param_selection_mode := True\<rparr>) ex_ext
        (epoch_range (self_epoch ex_multi_state) (max_epochs (ex_config\<lparr>param_selection_mode := True\<rparr>)))
        (train_setup (ex_config\<lparr>param_selection_mode := True\<rparr>) ex_multi_state) = [0, 1]
   \<and> (\<exists>d h. fst (train (ex_config\<lparr>param_selection_mode := True\<rparr>) ex_ext ex_multi_state) = Inr d
          \<and> d ''dev_score_history'' = Some (PList h) \<and> length h = 2)"
proof -
  let ?c = "ex_config\<lparr>param_selection_mode := True\<rparr>"
  let ?es = "epoch_range (self_epoch ex_multi_state) (max_epochs ?c)"
  have h: "param_selection_mode ?c" by simp
  have twd: "\<not> train_with_dev ?c" by (simp add: ex_config_def)
  have ce: "completed_epochs ?c ex_ext ?es (train_setup ?c ex_multi_state) = [0, 1]"
    by (simp add: run_defs ex_defs ex_more_defs upto.simps)
  have lp: "fst (epoch_loop ?c ex_ext ?es (train_setup ?c ex_multi_state)) = Inr Exhausted"
    by (simp add: run_defs ex_defs ex_more_defs upto.simps)
  have ni: "fst (epoch_loop ?c ex_ext ?es (train_setup ?c ex_multi_state)) \<noteq> Inl KeyboardInterrupt"
    unfolding lp by simp
  have ct: "corpus_test ex_multi_state \<noteq> []" and st: "sub_test_files ex_multi_state = [''test.tsv'']"
    by (simp_all add: ex_more_defs ex_state_def sub_test_files_def)
  note T = param_selection_mode_writes_only_the_log[OF h, of ex_ext ex_multi_state]
  from T have f: "collect file_of (snd (train ?c ex_ext ex_multi_state))
           = collect file_of ex_multi_state @ ''training.log'' #
               (case fst (train ?c ex_ext ex_multi_state) of
                  Inr d \<Rightarrow> if corpus_test ex_multi_state \<noteq> [] then sub_test_files ex_multi_state else []
                | Inl e \<Rightarrow> [])"
    by (rule conjunct1)
  from T have a: "collect persist_of (snd (train ?c ex_ext ex_multi_state)) = collect persist_of ex_multi_state"
    by (rule conjunct1[OF conjunct2])
  from T have b: "saved (snd (train ?c ex_ext ex_multi_state)) = saved ex_multi_state"
    by (rule conjunct1[OF conjunct2[OF conjunct2]])
  from T have d: "\<not> train_with_dev ?c \<longrightarrow>
          (\<forall>d. fst (train ?c ex_ext ex_multi_state) = Inr d \<longrightarrow>
             (\<exists>h. d ''dev_score_history'' = Some (PList h)
                \<and> length (completed_epochs ?c ex_ext ?es (train_setup ?c ex_multi_state)) \<le> length h
                \<and> length h \<le> length (completed_epochs ?c ex_ext ?es (train_setup ?c ex_multi_state)) + 1
                \<and> (fst (epoch_loop ?c ex_ext ?es (train_setup ?c ex_multi_state)) \<noteq> Inl KeyboardInterrupt
                    \<longrightarrow> length h = length (completed_epochs ?c ex_ext ?es (train_setup ?c ex_multi_state)))))"
    by (rule conjunct2[OF conjunct2[OF conjunct2[OF conjunct2]]])
  obtain d0 where r: "fst (train ?c ex_ext ex_multi_state) = Inr d0"
  proof -
    obtain r2 s2 where L: "epoch_loop ?c ex_ext ?es (train_setup ?c ex_multi_state) = (r2, s2)"
      by force
    have "r2 = Inr Exhausted" using lp L by simp
    then have "fst (after_loop ?c (epoch_loop ?c ex_ext ?es (train_setup ?c ex_multi_state))) = None"
      unfolding L by simp
    then obtain s3 where "after_loop ?c (epoch_loop ?c ex_ext ?es (train_setup ?c ex_multi_state)) = (None, s3)"
      by (metis prod.collapse)
    then have "\<exists>d. fst (train ?c ex_ext ex_multi_state) = Inr d"
      by (simp add: train_eq finish_eq)
    then show ?thesis using that by blast
  qed
  from mp[OF d twd] r obtain h0 where h0: "d0 ''dev_score_history'' = Some (PList h0)"
    and l: "fst (epoch_loop ?c ex_ext ?es (train_setup ?c ex_multi_state)) \<noteq> Inl KeyboardInterrupt
              \<longrightarrow> length h0 = length (completed_epochs ?c ex_ext ?es (train_setup ?c ex_multi_state))"
    by blast
  from mp[OF l ni] have "length h0 = 2" unfolding ce by simp
  then have e: "\<exists>d h. fst (train ?c ex_ext ex_multi_state) = Inr d
          \<and> d ''dev_score_history'' = Some (PList h) \<and> length h = 2"
    using r h0 by (intro exI[of _ d0] exI[of _ h0]) simp
  have f': "collect file_of (snd (train ?c ex_ext ex_multi_state))
        = collect file_of ex_multi_state @ [''training.log'', ''test.tsv'']"
    unfolding f r using ct st by simp
  show ?thesis using h f' a b ce e by (intro conjI)
qed

text \<open>
  Claim C7, counterexample to the claim as stated. In \<^verbatim>\<open>param_selection_mode\<close> the example
  run names the file \<^verbatim>\<open>training.log\<close>, and on a composite corpus with a test split also
  \<^verbatim>\<open>test.tsv\<close>. With an interrupt that arrives in the first epoch after the dev score is
  appended, no epoch has run to its end and the returned history has one entry.
\<close>

theorem param_selection_mode_no_files_counterexample:
  "param_selection_mode (ex_config\<lparr>param_selection_mode := True\<rparr>)
   \<and> collect file_of (snd (train (ex_config\<lparr>param_selection_mode := True\<rparr>) ex_ext ex_state))
        = [''training.log'']
   \<and> collect file_of (snd (train (ex_config\<lparr>param_selection_mode := True\<rparr>) ex_ext ex_multi_state))
        = [''training.log'', ''test.tsv'']
   \<and> completed_epochs (ex_config\<lparr>param_selection_mode := True\<rparr>) ex_late_interrupt_ext
        (epoch_range (self_epoch ex_state) (max_epochs (ex_config\<lparr>param_selection_mode := True\<rparr>)))
        (train_setup (ex_config\<lparr>param_selection_mode := True\<rparr>) ex_state) = []
   \<and> \<not> isl (fst (train (ex_config\<lparr>param_selection_mode := True\<rparr>) ex_late_interrupt_ext ex_state))
   \<and> projr (fst (train (ex_config\<lparr>param_selection_mode := True\<rparr>) ex_late_interrupt_ext ex_state))
        ''dev_score_history'' = Some (PList [Fl 0])"
  by (simp add: run_defs ex_defs ex_more_defs upto.simps final_state_def)

subsection \<open>C8: a corpus without test split\<close>

text \<open>
  Claim C8. When the test split is empty, \<^verbatim>\<open>train\<close> never calls \<^verbatim>\<open>final_test\<close>, a
  returned dictionary has \<^verbatim>\<open>test_score\<close> equal to the integer 0, and whenever the
  \<^verbatim>\<open>try\<close> statement ends without an exception \<^verbatim>\<open>train\<close> returns normally, its last act
  being the informational log message.
\<close>

theorem no_test_split_gives_score_zero:
  assumes "corpus_test s = []"
  shows "collect final_test_of (snd (train cfg x s)) = collect final_test_of s
     \<and> (\<forall>d. fst (train cfg x s) = Inr d \<longrightarrow> d ''test_score'' = Some (PInt 0))
     \<and> (fst (try_block cfg x (train_setup cfg s)) = None \<longrightarrow>
          (\<exists>d. fst (train cfg x s) = Inr d) \<and> last (trace (snd (train cfg x s))) = Log NoTestData)"
proof -
  let ?es = "epoch_range (self_epoch s) (max_epochs cfg)"
  let ?L = "epoch_loop cfg x ?es (train_setup cfg s)"
  let ?A = "after_loop cfg ?L"
  obtain evsL k j evsA evsF where
    t1: "trace (snd ?L) = trace s @ setup_events cfg @ evsL"
    and t2: "trace (snd ?A) = trace s @ setup_events cfg @ evsL @ evsA"
    and t3: "trace (snd (train cfg x s)) = trace s @ setup_events cfg @ evsL @ evsA @ evsF"
    and t4: "\<forall>e \<in> set evsL. epoch_event cfg e"
    and t5: "k \<le> length ?es"
    and t6: "map fst (concat (map report_of evsL)) = map (\<lambda>e. e + 1) (take k ?es)"
    and t7: "fst ?L = Inr Exhausted \<longrightarrow> k = length ?es"
    and t8: "\<forall>e \<in> set evsA. epoch_event cfg e \<and> report_of e = [] \<and> forward_of e = [] \<and> loss_row_of e = []"
    and t9: "\<forall>e \<in> set evsF. final_event e"
    and t10: "fst ?A \<noteq> None \<longrightarrow> evsF = []"
    and t11: "fst ?A = None \<and> corpus_test s = [] \<longrightarrow> evsF = [Log NoTestData]"
    and t12: "corpus_test (snd ?A) = corpus_test s"
    and t13: "mset (corpus_train (snd (train cfg x s)))
        = mset (corpus_train s @ (if train_with_dev cfg then corpus_dev s else []))"
    and t14: "test_mode cfg \<longrightarrow> corpus_train (snd (train cfg x s))
        = corpus_train s @ (if train_with_dev cfg then corpus_dev s else [])"
    and t15: "param_selection_mode cfg \<longrightarrow> saved (snd (train cfg x s)) = saved s"
    and t16: "length (dev_score_history (final_state cfg x (snd ?A)))
        = (if train_with_dev cfg then 0
           else length (completed_epochs cfg x ?es (train_setup cfg s)) + j)"
    and t17: "train cfg x s = (case fst ?A of Some e \<Rightarrow> (Inl e, snd ?A)
                      | None \<Rightarrow> (Inr (result_dict cfg x (snd ?A)), final_state cfg x (snd ?A)))"
    and t18: "j \<le> 1"
    and t19: "fst ?L \<noteq> Inl KeyboardInterrupt \<longrightarrow> j = 0"
    and t20: "concat (map file_of evsF)
        = (if fst ?A = None \<and> corpus_test s \<noteq> [] then sub_test_files s else [])"
    by (rule train_parts[of cfg x s])
  have F: "evsF = [] \<or> evsF = [Log NoTestData]" using t10 t11 assms by (cases "fst ?A = None") simp_all
  have r0: "concat (map final_test_of (setup_events cfg)) = []" by (auto simp add: setup_events_def)
  have rL: "concat (map final_test_of evsL) = []" using t4 epoch_event_facts(1) by auto
  have rA: "concat (map final_test_of evsA) = []" using t8 epoch_event_facts(1) by auto
  have rF: "concat (map final_test_of evsF) = []" using F by auto
  have a: "collect final_test_of (snd (train cfg x s)) = collect final_test_of s"
    by (simp add: collect_def t3 r0 rL rA rF)
  have ts: "final_score cfg x (snd ?A) = PInt 0" using t12 assms by (simp add: final_score_def)
  have ft: "fst (train cfg x s) = (case fst ?A of Some e \<Rightarrow> Inl e | None \<Rightarrow> Inr (result_dict cfg x (snd ?A)))"
    using t17 by (cases "fst ?A") simp_all
  have b: "\<forall>d. fst (train cfg x s) = Inr d \<longrightarrow> d ''test_score'' = Some (PInt 0)"
    using ft by (cases "fst ?A") (auto simp add: result_dict_def ts)
  have tb: "try_block cfg x (train_setup cfg s) = ?A" by (simp add: try_block_def train_setup_fields)
  have c: "fst (try_block cfg x (train_setup cfg s)) = None \<longrightarrow>
          (\<exists>d. fst (train cfg x s) = Inr d) \<and> last (trace (snd (train cfg x s))) = Log NoTestData"
  proof
    assume n: "fst (try_block cfg x (train_setup cfg s)) = None"
    then have n': "fst ?A = None" unfolding tb .
    then have "evsF = [Log NoTestData]" using t11 assms by simp
    then have "last (trace (snd (train cfg x s))) = Log NoTestData" unfolding t3 by simp
    moreover have "\<exists>d. fst (train cfg x s) = Inr d" using ft n' by simp
    ultimately show "(\<exists>d. fst (train cfg x s) = Inr d) \<and> last (trace (snd (train cfg x s))) = Log NoTestData" by simp
  qed
  show ?thesis using a b c by simp
qed

text \<open>
  Claim C8, witness: the example trainer has no test split.
\<close>

theorem no_test_split_gives_score_zero_witness:
  "corpus_test ex_state = []
   \<and> collect final_test_of (snd (train ex_config ex_ext ex_state)) = collect final_test_of ex_state
   \<and> fst (try_block ex_config ex_ext (train_setup ex_config ex_state)) = None
   \<and> (\<exists>d. fst (train ex_config ex_ext ex_state) = Inr d \<and> d ''test_score'' = Some (PInt 0))
   \<and> last (trace (snd (train ex_config ex_ext ex_state))) = Log NoTestData"
proof -
  have h: "corpus_test ex_state = []" by (simp add: ex_state_def)
  have n: "fst (try_block ex_config ex_ext (train_setup ex_config ex_state)) = None"
    by (simp add: run_defs ex_defs upto.simps)
  note T = no_test_split_gives_score_zero[OF h, of ex_config ex_ext]
  from T have a: "collect final_test_of (snd (train ex_config ex_ext ex_state)) = collect final_test_of ex_state"
    by (rule conjunct1)
  from T have b: "\<forall>d. fst (train ex_config ex_ext ex_state) = Inr d \<longrightarrow> d ''test_score'' = Some (PInt 0)"
    by (rule conjunct1[OF conjunct2])
  from T have c: "fst (try_block ex_config ex_ext (train_setup ex_config ex_state)) = None \<longrightarrow>
          (\<exists>d. fst (train ex_config ex_ext ex_state) = Inr d)
          \<and> last (trace (snd (train ex_config ex_ext ex_state))) = Log NoTestData"
    by (rule conjunct2[OF conjunct2])
  from mp[OF c n] obtain d where d: "fst (train ex_config ex_ext ex_state) = Inr d"
    and l: "last (trace (snd (train ex_config ex_ext ex_state))) = Log NoTestData" by blast
  have "d ''test_score'' = Some (PInt 0)" by (rule b[rule_format, OF d])
  then have "\<exists>d. fst (train ex_config ex_ext ex_state) = Inr d \<and> d ''test_score'' = Some (PInt 0)"
    using d by (intro exI[of _ d]) simp
  then show ?thesis using h a n l by (intro conjI)
qed

subsection \<open>C9: the corpus's training split\<close>

text \<open>
  Claim C9, as amended. Neither procedure copies the training split. After \<^verbatim>\<open>train\<close>
  the list \<^verbatim>\<open>self.corpus.train\<close> holds the sentences it held before, together with those
  of the dev split when \<^verbatim>\<open>train_with_dev\<close> is set, in some order; in test mode the order
  is kept and the dev split is appended at the end. After \<^verbatim>\<open>find_learning_rate\<close> the
  list is the shuffled one, a permutation of what it was.
\<close>

theorem corpus_train_is_shuffled_and_extended_in_place:
  "mset (corpus_train (snd (train cfg x s)))
     = mset (corpus_train s) + (if train_with_dev cfg then mset (corpus_dev s) else {#})
   \<and> (test_mode cfg \<longrightarrow>
        corpus_train (snd (train cfg x s))
          = corpus_train s @ (if train_with_dev cfg then corpus_dev s else []))
   \<and> corpus_train (snd (find_learning_rate a x s)) = shuffle (rand x) (rpos s) (corpus_train s)
   \<and> mset (corpus_train (snd (find_learning_rate a x s))) = mset (corpus_train s)"
  using train_changes_corpus_train_in_place[of cfg x s] find_learning_rate_corpus_train[of a x s]
  by (simp add: shuffle_mset)

text \<open>
  Claim C9, witness: in test mode with \<^verbatim>\<open>train_with_dev\<close> the training split ends up as
  the old one followed by the dev split.
\<close>

theorem corpus_train_is_shuffled_and_extended_in_place_witness:
  "test_mode (ex_config\<lparr>train_with_dev := True, test_mode := True\<rparr>)
   \<and> corpus_train (snd (train (ex_config\<lparr>train_with_dev := True, test_mode := True\<rparr>) ex_ext ex_state))
       = corpus_train ex_state @ corpus_dev ex_state"
  using corpus_train_is_shuffled_and_extended_in_place
          [of "ex_config\<lparr>train_with_dev := True, test_mode := True\<rparr>" ex_ext ex_state ex_finder_args]
  by simp

text \<open>
  Claim C9, counterexample to the claim as stated: \<^verbatim>\<open>train\<close> reorders the training
  split, \<^verbatim>\<open>train\<close> with \<^verbatim>\<open>train_with_dev\<close> extends it, and \<^verbatim>\<open>find_learning_rate\<close>
  reorders it.
\<close>

theorem corpus_train_untouched_counterexample:
  "corpus_train ex_state = [0, 1, 2, 3]
   \<and> corpus_train (snd (train ex_config ex_ext ex_state)) = [2, 3, 0, 1]
   \<and> corpus_train (snd (train (ex_config\<lparr>train_with_dev := True, test_mode := True\<rparr>) ex_ext ex_state))
       = [0, 1, 2, 3, 4]
   \<and> corpus_train (snd (find_learning_rate ex_finder_args ex_ext ex_state)) = [1, 2, 3, 0]"
  by (simp add: find_learning_rate_corpus_train train_def try_block_def after_loop_fields finish_eq
         final_state_def
         run_defs ex_defs upto.simps split: sum.splits)

subsection \<open>C10: what \<^verbatim>\<open>train\<close> returns\<close>

text \<open>
  Claim C10. \<^verbatim>\<open>train\<close> never raises \<^verbatim>\<open>KeyboardInterrupt\<close> from its epoch loop; every
  dictionary it returns has exactly the four keys; and it returns a dictionary whenever
  the loop ends by exhaustion, by the learning-rate floor or by an interrupt.
\<close>

theorem train_returns_dict_and_catches_interrupt:
  "fst (train cfg x s) \<noteq> Inl KeyboardInterrupt
   \<and> (\<forall>d. fst (train cfg x s) = Inr d \<longrightarrow>
         dom d = {''test_score'', ''dev_score_history'', ''train_loss_history'', ''dev_loss_history''})
   \<and> (fst (epoch_loop cfg x (epoch_range (self_epoch s) (max_epochs cfg)) (train_setup cfg s))
         \<in> {Inr Exhausted, Inr TooSmall, Inl KeyboardInterrupt}
       \<longrightarrow> (\<exists>d. fst (train cfg x s) = Inr d))"
proof -
  let ?es = "epoch_range (self_epoch s) (max_epochs cfg)"
  let ?L = "epoch_loop cfg x ?es (train_setup cfg s)"
  let ?A = "after_loop cfg ?L"
  obtain evsL k j evsA evsF where
    t1: "trace (snd ?L) = trace s @ setup_events cfg @ evsL"
    and t2: "trace (snd ?A) = trace s @ setup_events cfg @ evsL @ evsA"
    and t3: "trace (snd (train cfg x s)) = trace s @ setup_events cfg @ evsL @ evsA @ evsF"
    and t4: "\<forall>e \<in> set evsL. epoch_event cfg e"
    and t5: "k \<le> length ?es"
    and t6: "map fst (concat (map report_of evsL)) = map (\<lambda>e. e + 1) (take k ?es)"
    and t7: "fst ?L = Inr Exhausted \<longrightarrow> k = length ?es"
    and t8: "\<forall>e \<in> set evsA. epoch_event cfg e \<and> report_of e = [] \<and> forward_of e = [] \<and> loss_row_of e = []"
    and t9: "\<forall>e \<in> set evsF. final_event e"
    and t10: "fst ?A \<noteq> None \<longrightarrow> evsF = []"
    and t11: "fst ?A = None \<and> corpus_test s = [] \<longrightarrow> evsF = [Log NoTestData]"
    and t12: "corpus_test (snd ?A) = corpus_test s"
    and t13: "mset (corpus_train (snd (train cfg x s)))
        = mset (corpus_train s @ (if train_with_dev cfg then corpus_dev s else []))"
    and t14: "test_mode cfg \<longrightarrow> corpus_train (snd (train cfg x s))
        = corpus_train s @ (if train_with_dev cfg then corpus_dev s else [])"
    and t15: "param_selection_mode cfg \<longrightarrow> saved (snd (train cfg x s)) = saved s"
    and t16: "length (dev_score_history (final_state cfg x (snd ?A)))
        = (if train_with_dev cfg then 0
           else length (completed_epochs cfg x ?es (train_setup cfg s)) + j)"
    and t17: "train cfg x s = (case fst ?A of Some e \<Rightarrow> (Inl e, snd ?A)
                      | None \<Rightarrow> (Inr (result_dict cfg x (snd ?A)), final_state cfg x (snd ?A)))"
    and t18: "j \<le> 1"
    and t19: "fst ?L \<noteq> Inl KeyboardInterrupt \<longrightarrow> j = 0"
    and t20: "concat (map file_of evsF)
        = (if fst ?A = None \<and> corpus_test s \<noteq> [] then sub_test_files s else [])"
    by (rule train_parts[of cfg x s])
  obtain r s2 where L: "?L = (r, s2)" by force
  have A: "fst ?A = (case r of Inr ex \<Rightarrow> None | Inl e \<Rightarrow> if e = KeyboardInterrupt then None else Some e)"
    unfolding L by (rule after_loop_result)
  have ft: "fst (train cfg x s) = (case fst ?A of Some e \<Rightarrow> Inl e | None \<Rightarrow> Inr (result_dict cfg x (snd ?A)))"
    using t17 by (cases "fst ?A") simp_all
  show ?thesis
  proof (cases "fst ?A")
    case None
    then show ?thesis using ft by (simp add: result_dict_dom)
  next
    case (Some e)
    then have "e \<noteq> KeyboardInterrupt" "r = Inl e" using A by (auto split: sum.splits if_splits)
    then show ?thesis using ft Some L by auto
  qed
qed

text \<open>
  Claim C10, witness: an interrupt at the second batch of the first epoch is caught and
  the dictionary is returned.
\<close>

theorem train_returns_dict_and_catches_interrupt_witness:
  "fst (epoch_loop ex_config ex_interrupt_ext (epoch_range (self_epoch ex_state) (max_epochs ex_config))
          (train_setup ex_config ex_state)) = Inl KeyboardInterrupt
   \<and> (\<exists>d. fst (train ex_config ex_interrupt_ext ex_state) = Inr d
         \<and> dom d = {''test_score'', ''dev_score_history'', ''train_loss_history'', ''dev_loss_history''})"
proof -
  have h: "fst (epoch_loop ex_config ex_interrupt_ext (epoch_range (self_epoch ex_state) (max_epochs ex_config))
          (train_setup ex_config ex_state)) = Inl KeyboardInterrupt"
    by (simp add: run_defs ex_defs ex_more_defs upto.simps)
  note T = train_returns_dict_and_catches_interrupt[of ex_config ex_interrupt_ext ex_state]
  from T have b: "\<forall>d. fst (train ex_config ex_interrupt_ext ex_state) = Inr d \<longrightarrow>
         dom d = {''test_score'', ''dev_score_history'', ''train_loss_history'', ''dev_loss_history''}"
    by (rule conjunct1[OF conjunct2])
  from T have c: "fst (epoch_loop ex_config ex_interrupt_ext (epoch_range (self_epoch ex_state) (max_epochs ex_config))
          (train_setup ex_config ex_state)) \<in> {Inr Exhausted, Inr TooSmall, Inl KeyboardInterrupt}
       \<longrightarrow> (\<exists>d. fst (train ex_config ex_interrupt_ext ex_state) = Inr d)"
    by (rule conjunct2[OF conjunct2])
  have "\<exists>d. fst (train ex_config ex_interrupt_ext ex_state) = Inr d"
    by (rule mp[OF c]) (simp add: h)
  then obtain d where d: "fst (train ex_config ex_interrupt_ext ex_state) = Inr d" ..
  have "dom d = {''test_score'', ''dev_score_history'', ''train_loss_history'', ''dev_loss_history''}"
    by (rule b[rule_format, OF d])
  then show ?thesis using h d by (intro conjI exI[of _ d])
qed

end
